(* ===== verification/Prelude.thy ===== *)
theory Prelude
  imports Main "HOL-Library.Word"
begin

text \<open>
  Shared vocabulary of the development.
  \<^item> The machine types of the Rust client: \<open>u8\<close>, \<open>u32\<close>, \<open>u64\<close> as words of that
    width, byte strings as \<open>u8 list\<close>.
  \<^item> A state-and-error monad \<open>('s, 'e, 'a) st\<close>: a computation reads a state, returns
    either an error (\<open>Inl\<close>) or a value (\<open>Inr\<close>) and always returns the state it left.
    A panic of the Rust code aborts the rest of the computation but keeps every effect
    that happened before it (a transaction already submitted stays submitted), which is
    exactly what \<open>bind_st\<close> does.
  \<^item> Rust's debug-mode integer arithmetic: \<open>+\<close> and \<open>*\<close> on \<open>u64\<close> panic on overflow,
    modelled by \<open>checked_add\<close> and \<open>checked_mul\<close> returning \<open>None\<close>.
  \<^item> The conversion of a Rust \<open>&str\<close> to its bytes.
\<close>

type_synonym u8 = "8 word"
type_synonym u32 = "32 word"
type_synonym u64 = "64 word"
type_synonym bytes = "u8 list"

named_theorems st_simps "evaluation rules of the state-and-error monad"

section \<open>The state-and-error monad\<close>

type_synonym ('s, 'e, 'a) st = "'s \<Rightarrow> ('e + 'a) \<times> 's"

definition ret :: "'a \<Rightarrow> ('s, 'e, 'a) st" where
  "ret x = (\<lambda>s. (Inr x, s))"

definition raise :: "'e \<Rightarrow> ('s, 'e, 'a) st" where
  "raise e = (\<lambda>s. (Inl e, s))"

definition bind_st :: "('s, 'e, 'a) st \<Rightarrow> ('a \<Rightarrow> ('s, 'e, 'b) st) \<Rightarrow> ('s, 'e, 'b) st" where
  "bind_st m f = (\<lambda>s. case m s of (Inl e, s') \<Rightarrow> (Inl e, s') | (Inr a, s') \<Rightarrow> f a s')"

text \<open>\<open>lift_err g m\<close> runs \<open>m\<close> and renames its error with \<open>g\<close>: a Rust \<open>.unwrap()\<close>
  turns the error of a \<open>Result\<close> into a panic carrying it.\<close>

definition lift_err :: "('e \<Rightarrow> 'p) \<Rightarrow> ('s, 'e, 'a) st \<Rightarrow> ('s, 'p, 'a) st" where
  "lift_err g m = (\<lambda>s. case m s of (Inl e, s') \<Rightarrow> (Inl (g e), s') | (Inr a, s') \<Rightarrow> (Inr a, s'))"

text \<open>\<open>attempt m\<close> runs \<open>m\<close> and returns its \<open>Result\<close> as a value, for calls whose result
  the code inspects with \<open>is_err()\<close> or drops.\<close>

definition attempt :: "('s, 'e, 'a) st \<Rightarrow> ('s, 'p, 'e + 'a) st" where
  "attempt m = (\<lambda>s. case m s of (r, s') \<Rightarrow> (Inr r, s'))"

definition modify_st :: "('s \<Rightarrow> 's) \<Rightarrow> ('s, 'e, unit) st" where
  "modify_st f = (\<lambda>s. (Inr (), f s))"

text \<open>Rust in debug mode (the profile of \<^verbatim>\<open>cargo run\<close>) panics on an arithmetic overflow
  of \<open>u64\<close>; \<open>checked_add\<close> and \<open>checked_mul\<close> are the same operations with the
  overflow as \<open>None\<close>.\<close>

definition checked_add :: "'a::len word \<Rightarrow> 'a word \<Rightarrow> 'a word option" where
  "checked_add a b = (if unat a + unat b < 2 ^ LENGTH('a) then Some (a + b) else None)"

definition checked_mul :: "'a::len word \<Rightarrow> 'a word \<Rightarrow> 'a word option" where
  "checked_mul a b = (if unat a * unat b < 2 ^ LENGTH('a) then Some (a * b) else None)"

text \<open>\<^verbatim>\<open>str::as_bytes\<close>: Isabelle's characters are bytes, so a string literal of the
  source (ASCII) is its list of byte codes.\<close>

definition string_bytes :: "string \<Rightarrow> bytes" where
  "string_bytes s = map (\<lambda>c. of_nat (of_char c)) s"

section \<open>Laws of the monad\<close>

lemma bind_st_ret [simp, st_simps]: "bind_st (ret x) f = f x"
  by (simp add: bind_st_def ret_def)

lemma bind_st_raise [simp, st_simps]: "bind_st (raise e) f = raise e"
  by (simp add: bind_st_def raise_def)

lemma bind_st_ret_right [simp]: "bind_st m ret = m"
  by (rule ext) (simp add: bind_st_def ret_def split: prod.splits sum.splits)

lemma bind_st_assoc: "bind_st (bind_st m f) g = bind_st m (\<lambda>x. bind_st (f x) g)"
  by (rule ext) (simp add: bind_st_def split: prod.splits sum.splits)

text \<open>The two rules by which every stage lemma is composed: when the first computation
  succeeds the second runs on the state it left; when it fails, nothing else runs.\<close>

lemma bind_st_Inr [st_simps]: "m s = (Inr a, s') \<Longrightarrow> bind_st m f s = f a s'"
  by (simp add: bind_st_def)

lemma bind_st_Inl [st_simps]: "m s = (Inl e, s') \<Longrightarrow> bind_st m f s = (Inl e, s')"
  by (simp add: bind_st_def)

lemma ret_apply [simp, st_simps]: "ret x s = (Inr x, s)"
  by (simp add: ret_def)

lemma raise_apply [simp, st_simps]: "raise e s = (Inl e, s)"
  by (simp add: raise_def)

lemma modify_st_apply [simp, st_simps]: "modify_st f s = (Inr (), f s)"
  by (simp add: modify_st_def)

lemma lift_err_Inr [st_simps]: "m s = (Inr a, s') \<Longrightarrow> lift_err g m s = (Inr a, s')"
  by (simp add: lift_err_def)

lemma lift_err_Inl [st_simps]: "m s = (Inl e, s') \<Longrightarrow> lift_err g m s = (Inl (g e), s')"
  by (simp add: lift_err_def)

lemma attempt_apply [st_simps]: "m s = (r, s') \<Longrightarrow> attempt m s = (Inr r, s')"
  by (simp add: attempt_def)

text \<open>A computation fails or succeeds; the state it leaves does not depend on what the
  caller does next.\<close>

lemma bind_st_state_Inl:
  "fst (m s) = Inl e \<Longrightarrow> bind_st m f s = m s"
  by (cases "m s") (simp add: bind_st_def)

section \<open>Laws of Rust integer arithmetic\<close>

lemma checked_add_Some_iff:
  "checked_add a b = Some c \<longleftrightarrow> unat a + unat b < 2 ^ LENGTH('a) \<and> c = a + b"
  for a b c :: "'a::len word"
  by (auto simp: checked_add_def)

lemma checked_mul_Some_iff:
  "checked_mul a b = Some c \<longleftrightarrow> unat a * unat b < 2 ^ LENGTH('a) \<and> c = a * b"
  for a b c :: "'a::len word"
  by (auto simp: checked_mul_def)

lemma unat_checked_add:
  "checked_add a b = Some c \<Longrightarrow> unat c = unat a + unat b"
  for a b c :: "'a::len word"
  by (auto simp: checked_add_def unat_add_lem split: if_splits)

lemma unat_checked_mul:
  "checked_mul a b = Some c \<Longrightarrow> unat c = unat a * unat b"
  for a b c :: "'a::len word"
  by (auto simp: checked_mul_def unat_mult_lem split: if_splits)

lemma checked_add_zero_left [simp]: "checked_add 0 b = Some b"
  by (simp add: checked_add_def)

text \<open>Subtraction of a smaller word from a larger one does not wrap.\<close>

lemma unat_sub_less:
  "a < b \<Longrightarrow> unat (b - a) = unat b - unat a"
  for a b :: "'a::len word"
  by (simp add: unat_sub order_less_imp_le)

lemma sub_less_add_cancel:
  "a < b \<Longrightarrow> a + (b - a) = b"
  for a b :: "'a::len word"
  by simp

text \<open>Two successive debits that together fit in the balance leave enough for the
  second.\<close>

lemma word_sub_sub_not_less:
  "unat a + unat b \<le> unat x \<Longrightarrow> \<not> x - a < b" for a b x :: "'a::len word"
proof -
  assume h: "unat a + unat b \<le> unat x"
  then have "a \<le> x" by (simp add: word_le_nat_alt)
  then have "unat (x - a) = unat x - unat a" by (simp add: unat_sub)
  with h show ?thesis by (simp add: word_less_nat_alt)
qed

section \<open>Strings as bytes\<close>

lemma length_string_bytes [simp]: "length (string_bytes s) = length s"
  by (simp add: string_bytes_def)

lemma string_bytes_inj:
  "string_bytes s = string_bytes t \<Longrightarrow> s = t"
proof -
  have inj: "inj (\<lambda>c::char. (of_nat (of_char c) :: u8))"
  proof (rule injI)
    fix c d :: char
    assume "(of_nat (of_char c) :: u8) = of_nat (of_char d)"
    then have "unat (of_nat (of_char c) :: u8) = unat (of_nat (of_char d) :: u8)" by simp
    then have "of_char c = (of_char d :: nat)"
      using nat_of_char_less_256 [of c] nat_of_char_less_256 [of d]
      by (simp add: unat_of_nat)
    then show "c = d" by simp
  qed
  assume "string_bytes s = string_bytes t"
  then show "s = t"
    unfolding string_bytes_def using inj by (simp add: inj_map_eq_map)
qed

end
