(* ===== verification/Greeting_Account.thy ===== *)
theory Greeting_Account
  imports Prelude
begin

text \<open>
  The program-owned record \<^verbatim>\<open>GreetingAccount { counter: u32 }\<close> of
  \<^verbatim>\<open>src/src/lib.rs\<close> and the Borsh encoding its \<^verbatim>\<open>#[derive(BorshSerialize,
  BorshDeserialize)]\<close> gives it: the counter as four little-endian bytes, no tag, no
  padding. \<open>try_to_vec\<close> is the serializer the client calls in
  \<^verbatim>\<open>get_greeting_size\<close>; \<open>try_from_slice\<close> is the decoder of \<^verbatim>\<open>report\<close> (and
  of the on-chain program), which fails on a short input and on left-over bytes.
  The lemmas show the two round trips, the fixed size 4, and exactly when decoding
  fails and with which error.
\<close>

unbundle bit_operations_syntax

section \<open>Little-endian u32\<close>

definition u32_to_le_bytes :: "u32 \<Rightarrow> bytes" where
  "u32_to_le_bytes w = map (\<lambda>i. ucast (drop_bit (8 * i) w)) [0..<4]"

definition u32_from_le_bytes :: "bytes \<Rightarrow> u32" where
  "u32_from_le_bytes bs = foldr (\<lambda>b acc. ucast b OR push_bit 8 acc) bs 0"

section \<open>The record and its Borsh encoding\<close>

record greeting_account =
  counter :: u32

definition try_to_vec :: "greeting_account \<Rightarrow> bytes" where
  "try_to_vec g = u32_to_le_bytes (counter g)"

datatype borsh_error = Unexpected_length_of_input | Not_all_bytes_read

text \<open>\<^verbatim>\<open>u32::deserialize\<close> consumes four bytes of the input slice and leaves the rest;
  \<^verbatim>\<open>try_from_slice\<close> then insists that nothing is left.\<close>

definition deserialize_u32 :: "bytes \<Rightarrow> borsh_error + u32 \<times> bytes" where
  "deserialize_u32 bs =
     (if length bs < 4 then Inl Unexpected_length_of_input
      else Inr (u32_from_le_bytes (take 4 bs), drop 4 bs))"

definition try_from_slice :: "bytes \<Rightarrow> borsh_error + greeting_account" where
  "try_from_slice bs =
     (case deserialize_u32 bs of
        Inl e \<Rightarrow> Inl e
      | Inr (n, rest) \<Rightarrow> if rest \<noteq> [] then Inl Not_all_bytes_read else Inr \<lparr>counter = n\<rparr>)"

text \<open>The abstract state of a greeting account: the counter its data decodes to, as a
  natural number, or nothing when the data is not a \<^verbatim>\<open>GreetingAccount\<close>.\<close>

definition greeting_count :: "bytes \<Rightarrow> nat option" where
  "greeting_count bs = (case try_from_slice bs of Inl _ \<Rightarrow> None | Inr g \<Rightarrow> Some (unat (counter g)))"

text \<open>The reference meaning of the persisted layout: the little-endian positional value
  of the bytes.\<close>

definition le_value :: "bytes \<Rightarrow> nat" where
  "le_value bs = (\<Sum>i<length bs. unat (bs ! i) * 256 ^ i)"

section \<open>Properties\<close>

lemma u32_from_to_le_bytes [simp]: "u32_from_le_bytes (u32_to_le_bytes w) = w"
proof (rule bit_word_eqI)
  fix n assume "n < LENGTH(32)"
  then consider "n < 8" | "8 \<le> n \<and> n < 16" | "16 \<le> n \<and> n < 24" | "24 \<le> n \<and> n < 32"
    by fastforce
  then show "bit (u32_from_le_bytes (u32_to_le_bytes w)) n = bit w n"
    by cases (auto simp add: u32_to_le_bytes_def u32_from_le_bytes_def upt_rec bit_simps)
qed

lemma u32_to_from_le_bytes4:
  "u32_to_le_bytes (u32_from_le_bytes [a, b, c, d]) = [a, b, c, d]"
  unfolding u32_to_le_bytes_def u32_from_le_bytes_def
  by (simp add: upt_rec) (intro conjI; rule bit_word_eqI; auto simp: bit_simps dest: bit_imp_le_length)

lemma length_u32_to_le_bytes [simp]: "length (u32_to_le_bytes w) = 4"
  by (simp add: u32_to_le_bytes_def)

lemma length4_cases:
  assumes "length xs = 4"
  obtains a b c d where "xs = [a, b, c, d]"
  using assms by (auto simp: numeral_eq_Suc length_Suc_conv)

lemma u32_to_from_le_bytes:
  "length bs = 4 \<Longrightarrow> u32_to_le_bytes (u32_from_le_bytes bs) = bs"
  by (erule length4_cases) (simp only: u32_to_from_le_bytes4)

lemma length_try_to_vec [simp]: "length (try_to_vec g) = 4"
  by (simp add: try_to_vec_def)

text \<open>Decoding, case by case: it succeeds exactly on inputs of length 4.\<close>

lemma try_from_slice_eq:
  "try_from_slice bs =
     (if length bs < 4 then Inl Unexpected_length_of_input
      else if 4 < length bs then Inl Not_all_bytes_read
      else Inr \<lparr>counter = u32_from_le_bytes bs\<rparr>)"
  by (simp add: try_from_slice_def deserialize_u32_def)

lemma try_from_slice_Inr_length:
  "try_from_slice bs = Inr g \<Longrightarrow> length bs = 4"
  by (simp add: try_from_slice_eq split: if_splits)

lemma try_from_slice_length4:
  "length bs = 4 \<Longrightarrow> try_from_slice bs = Inr \<lparr>counter = u32_from_le_bytes bs\<rparr>"
  by (simp add: try_from_slice_eq)

lemma try_from_slice_try_to_vec [simp]: "try_from_slice (try_to_vec g) = Inr g"
  by (simp add: try_from_slice_eq try_to_vec_def)

lemma try_to_vec_try_from_slice:
  "try_from_slice bs = Inr g \<Longrightarrow> try_to_vec g = bs"
  by (auto simp: try_from_slice_eq try_to_vec_def u32_to_from_le_bytes split: if_splits)

lemma try_to_vec_inj: "try_to_vec g = try_to_vec h \<Longrightarrow> g = h"
  by (metis try_from_slice_try_to_vec sum.inject(2))

text \<open>A freshly allocated (zero-filled) account of the record's size decodes as the
  counter 0.\<close>

lemma try_to_vec_zero: "try_to_vec \<lparr>counter = 0\<rparr> = replicate 4 0"
  by (simp add: try_to_vec_def u32_to_le_bytes_def upt_rec numeral_eq_Suc)

lemma try_from_slice_zeroes [simp]: "try_from_slice (replicate 4 0) = Inr \<lparr>counter = 0\<rparr>"
  by (simp flip: try_to_vec_zero)

text \<open>Incrementing the decoded counter is the abstract increment modulo 2^32.\<close>

lemma greeting_count_increment:
  "try_from_slice bs = Inr g \<Longrightarrow>
   greeting_count (try_to_vec (g\<lparr>counter := counter g + 1\<rparr>)) = map_option (\<lambda>n. (n + 1) mod 2 ^ 32) (greeting_count bs)"
  by (simp add: greeting_count_def unat_word_ariths)

text \<open>C10. Round trip of the fixed binary layout: decoding a byte string yields a record
  exactly when the byte string is that record's Borsh encoding, for every counter value
  in [0, 2^32 - 1].\<close>

theorem greeting_borsh_roundtrip: "try_from_slice bs = Inr g \<longleftrightarrow> try_to_vec g = bs"
  using try_to_vec_try_from_slice [of bs g] try_from_slice_try_to_vec [of g] by blast

text \<open>The decoder computes the little-endian value, byte by byte.\<close>

lemma le_value_Cons: "le_value (b # bs) = unat b + 256 * le_value bs"
proof -
  have "(\<Sum>i<length (b # bs). unat ((b # bs) ! i) * 256 ^ i) =
        unat b + (\<Sum>i<length bs. unat (bs ! i) * 256 ^ Suc i)"
    by (simp only: length_Cons sum.lessThan_Suc_shift) simp
  also have "\<dots> = unat b + 256 * (\<Sum>i<length bs. unat (bs ! i) * 256 ^ i)"
    by (simp add: sum_distrib_left mult_ac)
  finally show ?thesis by (simp add: le_value_def)
qed

lemma unat_u8_less: "unat (b :: u8) < 256"
  using unsigned_less [of b] by simp

lemma le_value_bound: "le_value bs < 256 ^ length bs"
proof (induction bs)
  case Nil
  then show ?case by (simp add: le_value_def)
next
  case (Cons b bs)
  from Cons.IH unat_u8_less [of b] have "unat b + 256 * le_value bs < 256 * 256 ^ length bs" by linarith
  then show ?case by (simp add: le_value_Cons)
qed

lemma ucast_or_push_bit:
  "(ucast (b :: u8) :: u32) OR push_bit 8 x = ucast b + push_bit 8 x"
  by (rule disjunctive_add [symmetric]) (auto simp: bit_simps dest: bit_imp_le_length)

lemma unat_u32_from_le_bytes:
  "length bs \<le> 4 \<Longrightarrow> unat (u32_from_le_bytes bs) = le_value bs"
proof (induction bs)
  case Nil
  then show ?case by (simp add: u32_from_le_bytes_def le_value_def)
next
  case (Cons b bs)
  let ?x = "u32_from_le_bytes bs"
  have ih: "unat ?x = le_value bs" using Cons by simp
  have "le_value bs < 256 ^ 3"
    using le_value_bound [of bs] Cons.prems power_increasing [of "length bs" 3 "256::nat"] by simp
  then have lt: "unat b + 256 * unat ?x < 2 ^ 32"
    using unat_u8_less [of b] ih by simp
  have "unat (push_bit 8 ?x) = 256 * unat ?x"
    using lt unat_mult_lem [of ?x "256 :: u32"] by (simp add: push_bit_eq_mult)
  moreover have uc: "unat (ucast b :: u32) = unat b"
    using unat_u8_less [of b] by (simp add: unsigned_ucast_eq take_bit_nat_eq_self_iff)
  ultimately have "unat ((ucast b :: u32) + push_bit 8 ?x) = unat b + 256 * unat ?x"
    using lt uc by (simp add: unat_plus_if')
  then show ?case
    by (simp add: u32_from_le_bytes_def ucast_or_push_bit le_value_Cons ih [symmetric])
qed

lemma le_value_try_to_vec [simp]: "le_value (try_to_vec g) = unat (counter g)"
  using unat_u32_from_le_bytes [of "try_to_vec g"] by (simp add: try_to_vec_def)

text \<open>C11. Equivalence of the derived Borsh decoder with the reference layout: decoding
  succeeds exactly on 4-byte inputs, and the counter it yields is the little-endian
  positional value of the bytes, \<open>b0 + 256 b1 + 256^2 b2 + 256^3 b3\<close>.\<close>

theorem try_from_slice_le_value:
  "try_from_slice bs = Inr g \<longleftrightarrow> length bs = 4 \<and> unat (counter g) = le_value bs"
proof
  assume "try_from_slice bs = Inr g"
  then show "length bs = 4 \<and> unat (counter g) = le_value bs"
    by (auto simp: try_from_slice_eq unat_u32_from_le_bytes split: if_splits)
next
  assume a: "length bs = 4 \<and> unat (counter g) = le_value bs"
  then have "counter g = u32_from_le_bytes bs"
    by (simp add: unat_u32_from_le_bytes word_unat_eq_iff)
  with a show "try_from_slice bs = Inr g" by (simp add: try_from_slice_length4)
qed

end
