(* ===== verification/Address.thy ===== *)
theory Address
  imports Prelude
begin

text \<open>
  Public keys, keypairs and the seed derivation \<^verbatim>\<open>Pubkey::create_with_seed\<close> of the
  Solana SDK, which \<^verbatim>\<open>check_program\<close> calls to find the greeting account and which the
  system program repeats to check a \<^verbatim>\<open>CreateAccountWithSeed\<close> instruction. The SDK is
  not part of the repository: these definitions follow its documented behaviour.
  SHA-256 is not modelled; it is a parameter \<open>sha\<close> of the derivation, the same
  function wherever it is used (the client and the cluster link the same SDK).
  A keypair is represented by its public key: signatures are not modelled beyond
  "signed by the holder of this key".
\<close>

type_synonym pubkey = bytes
type_synonym hash_fn = "bytes \<Rightarrow> bytes"

datatype keypair = Keypair (kp_pubkey: pubkey)

text \<open>\<^verbatim>\<open>Keypair::pubkey\<close>.\<close>

definition pubkey :: "keypair \<Rightarrow> pubkey" where
  "pubkey k = kp_pubkey k"

definition MAX_SEED_LEN :: nat where
  "MAX_SEED_LEN = 32"

definition PDA_MARKER :: bytes where
  "PDA_MARKER = string_bytes ''ProgramDerivedAddress''"

datatype pubkey_error = Max_seed_length_exceeded | Illegal_owner

text \<open>\<^verbatim>\<open>Pubkey::create_with_seed(base, seed, owner)\<close>: the seed may have at most 32
  bytes, an owner ending in the PDA marker is refused, and the address is the hash of
  base, seed and owner, concatenated.\<close>

definition create_with_seed :: "hash_fn \<Rightarrow> pubkey \<Rightarrow> string \<Rightarrow> pubkey \<Rightarrow> pubkey_error + pubkey" where
  "create_with_seed sha base seed owner =
     (if MAX_SEED_LEN < length seed then Inl Max_seed_length_exceeded
      else if length PDA_MARKER \<le> length owner \<and>
              drop (length owner - length PDA_MARKER) owner = PDA_MARKER
      then Inl Illegal_owner
      else Inr (sha (base @ string_bytes seed @ owner)))"

definition well_formed_pubkey :: "pubkey \<Rightarrow> bool" where
  "well_formed_pubkey k \<longleftrightarrow> length k = 32"

lemma pubkey_Keypair [simp]: "pubkey (Keypair k) = k"
  by (simp add: pubkey_def)

lemma create_with_seed_Inr_iff:
  "create_with_seed sha base seed owner = Inr a \<longleftrightarrow>
     length seed \<le> MAX_SEED_LEN \<and>
     \<not> (length PDA_MARKER \<le> length owner \<and> drop (length owner - length PDA_MARKER) owner = PDA_MARKER) \<and>
     a = sha (base @ string_bytes seed @ owner)"
  by (auto simp: create_with_seed_def not_less)

end
