(* ===== verification/Ledger.thy ===== *)
theory Ledger
  imports Greeting_Account Address
begin

text \<open>
  The part of the ledger cluster the client's transactions act on: accounts,
  instructions and transactions as the Solana SDK builds them, the two programs the
  client invokes (the system program's \<^verbatim>\<open>CreateAccountWithSeed\<close> and the deployed
  example-helloworld program, which increments the counter of a greeting account it
  owns), and the bank's processing of a transaction: blockhash age, duplicate
  signature, fee, program accounts, then the instructions in order, all or nothing.
  None of this code is in the repository; it is modelled from the documented
  behaviour of the SDK and the runtime, at the level the client's correctness needs.
  Account writes are explicit updates of the account store, read back after each
  update, so that an instruction whose accounts alias sees its own writes.
\<close>

section \<open>Accounts\<close>

type_synonym hash = nat

record account =
  lamports :: u64
  data :: bytes
  owner :: pubkey
  executable :: bool

type_synonym accounts = "pubkey \<rightharpoonup> account"

definition system_program_id :: pubkey where
  "system_program_id = replicate 32 0"

text \<open>An address with no account reads as an empty, system-owned account.\<close>

definition default_account :: account where
  "default_account = \<lparr>lamports = 0, data = [], owner = system_program_id, executable = False\<rparr>"

definition load :: "accounts \<Rightarrow> pubkey \<Rightarrow> account" where
  "load m k = (case m k of None \<Rightarrow> default_account | Some a \<Rightarrow> a)"

definition MAX_PERMITTED_DATA_LENGTH :: nat where
  "MAX_PERMITTED_DATA_LENGTH = 10 * 1024 * 1024"

section \<open>Instructions and transactions\<close>

datatype account_meta = Account_meta (meta_pubkey: pubkey) (meta_is_signer: bool) (meta_is_writable: bool)

text \<open>\<^verbatim>\<open>AccountMeta::new\<close> and \<^verbatim>\<open>AccountMeta::new_readonly\<close>.\<close>

definition account_meta_new :: "pubkey \<Rightarrow> bool \<Rightarrow> account_meta" where
  "account_meta_new k is_signer = Account_meta k is_signer True"

definition account_meta_new_readonly :: "pubkey \<Rightarrow> bool \<Rightarrow> account_meta" where
  "account_meta_new_readonly k is_signer = Account_meta k is_signer False"

text \<open>The instruction data of the system program is its bincode-encoded
  \<^verbatim>\<open>SystemInstruction\<close>; the model keeps the decoded variant instead of its bytes.\<close>

datatype system_instruction =
  Create_account_with_seed (base: pubkey) (seed: string) (amount: u64) (space: u64) (new_owner: pubkey)

datatype ix_data = System_ix system_instruction | Raw_data bytes

record instruction =
  ix_program :: pubkey
  ix_accounts :: "account_meta list"
  ix_data :: ix_data

text \<open>\<^verbatim>\<open>system_instruction::create_account_with_seed(from, to, base, seed, lamports,
  space, owner)\<close>.\<close>

definition create_account_with_seed ::
  "pubkey \<Rightarrow> pubkey \<Rightarrow> pubkey \<Rightarrow> string \<Rightarrow> u64 \<Rightarrow> u64 \<Rightarrow> pubkey \<Rightarrow> instruction" where
  "create_account_with_seed from to b s l sp own =
     \<lparr>ix_program = system_program_id,
      ix_accounts = [account_meta_new from True, account_meta_new to False,
                     account_meta_new_readonly b True],
      ix_data = System_ix (Create_account_with_seed b s l sp own)\<rparr>"

text \<open>\<^verbatim>\<open>Instruction::new_with_bytes(program_id, data, accounts)\<close>.\<close>

definition new_with_bytes :: "pubkey \<Rightarrow> bytes \<Rightarrow> account_meta list \<Rightarrow> instruction" where
  "new_with_bytes p d metas = \<lparr>ix_program = p, ix_accounts = metas, ix_data = Raw_data d\<rparr>"

record transaction =
  tx_instructions :: "instruction list"
  tx_payer :: pubkey
  tx_signers :: "pubkey list"
  tx_blockhash :: hash

text \<open>The signers a message requires: the fee payer first, then every account marked
  as signer, without repetition.\<close>

definition required_signers :: "instruction list \<Rightarrow> pubkey \<Rightarrow> pubkey list" where
  "required_signers ixs payer =
     remdups (payer # [meta_pubkey m. ix \<leftarrow> ixs, m \<leftarrow> ix_accounts ix, meta_is_signer m])"

datatype signer_error = Keypair_pubkey_mismatch | Not_enough_signers

text \<open>\<^verbatim>\<open>Transaction::new_signed_with_payer(instructions, Some(payer), keypairs,
  blockhash)\<close>: signing fails (and \<^verbatim>\<open>sign\<close> panics) when a keypair is not a required
  signer or a required signer has no keypair.\<close>

definition new_signed_with_payer ::
  "instruction list \<Rightarrow> pubkey \<Rightarrow> keypair list \<Rightarrow> hash \<Rightarrow> signer_error + transaction" where
  "new_signed_with_payer ixs payer ks h =
     (let req = required_signers ixs payer; signed = map pubkey ks in
      if \<not> set signed \<subseteq> set req then Inl Keypair_pubkey_mismatch
      else if \<not> set req \<subseteq> set signed then Inl Not_enough_signers
      else Inr \<lparr>tx_instructions = ixs, tx_payer = payer, tx_signers = req, tx_blockhash = h\<rparr>)"

section \<open>Programs\<close>

datatype instruction_error =
    Seed_error pubkey_error
  | Address_with_seed_mismatch
  | Account_already_in_use
  | Missing_required_signature
  | Invalid_account_data_length
  | Invalid_argument
  | Result_with_negative_lamports
  | Arithmetic_overflow
  | Invalid_instruction_data
  | Not_enough_account_keys
  | Incorrect_program_id
  | Borsh_io_error borsh_error
  | Readonly_data_modified

text \<open>The system program's \<^verbatim>\<open>CreateAccountWithSeed\<close>: check the derived address,
  refuse an account that is already in use, allocate and assign it (the base must
  sign), then transfer the lamports from the funder (who must sign).\<close>

definition system_create_with_seed ::
  "hash_fn \<Rightarrow> pubkey list \<Rightarrow> account_meta list \<Rightarrow> system_instruction \<Rightarrow> accounts \<Rightarrow>
   instruction_error + accounts" where
  "system_create_with_seed sha signers metas si m =
     (case (metas, si) of
        (fm # tm # _, Create_account_with_seed b s l sp own) \<Rightarrow>
          (let from = meta_pubkey fm; to = meta_pubkey tm in
           case create_with_seed sha b s own of
             Inl e \<Rightarrow> Inl (Seed_error e)
           | Inr addr \<Rightarrow>
             if addr \<noteq> to then Inl Address_with_seed_mismatch
             else let ta = load m to in
             if 0 < lamports ta then Inl Account_already_in_use
             else if b \<notin> set signers then Inl Missing_required_signature
             else if data ta \<noteq> [] \<or> owner ta \<noteq> system_program_id then Inl Account_already_in_use
             else if MAX_PERMITTED_DATA_LENGTH < unat sp then Inl Invalid_account_data_length
             else
               let m1 = m(to \<mapsto> ta\<lparr>data := replicate (unat sp) 0, owner := own\<rparr>);
                   fa = load m1 from in
               if from \<notin> set signers then Inl Missing_required_signature
               else if data fa \<noteq> [] then Inl Invalid_argument
               else if lamports fa < l then Inl Result_with_negative_lamports
               else
                 let m2 = m1(from \<mapsto> fa\<lparr>lamports := lamports fa - l\<rparr>);
                     ta2 = load m2 to in
                 case checked_add (lamports ta2) l of
                   None \<Rightarrow> Inl Arithmetic_overflow
                 | Some bal \<Rightarrow> Inr (m2(to \<mapsto> ta2\<lparr>lamports := bal\<rparr>)))
      | _ \<Rightarrow> Inl Not_enough_account_keys)"

text \<open>The deployed example-helloworld program: its first account must be owned by the
  program and hold a \<^verbatim>\<open>GreetingAccount\<close>; the counter is incremented (the program is
  built in release mode, where \<open>u32\<close> addition wraps) and serialized back over the
  account's data. The runtime refuses a data change of an account the transaction
  did not mark writable.\<close>

definition helloworld_process ::
  "pubkey \<Rightarrow> account_meta list \<Rightarrow> accounts \<Rightarrow> instruction_error + accounts" where
  "helloworld_process program metas m =
     (case metas of
        [] \<Rightarrow> Inl Not_enough_account_keys
      | am # _ \<Rightarrow>
          (let k = meta_pubkey am; a = load m k in
           if owner a \<noteq> program then Inl Incorrect_program_id
           else case try_from_slice (data a) of
             Inl e \<Rightarrow> Inl (Borsh_io_error e)
           | Inr g \<Rightarrow>
               if \<not> meta_is_writable am then Inl Readonly_data_modified
               else Inr (m(k \<mapsto> a\<lparr>data := try_to_vec (g\<lparr>counter := counter g + 1\<rparr>)\<rparr>))))"

text \<open>Dispatch: the system program is native; every other program is the deployed
  helloworld program (the only one the model's cluster has).\<close>

definition execute_instruction ::
  "hash_fn \<Rightarrow> pubkey list \<Rightarrow> instruction \<Rightarrow> accounts \<Rightarrow> instruction_error + accounts" where
  "execute_instruction sha signers ix m =
     (if ix_program ix = system_program_id then
        (case ix_data ix of
           System_ix si \<Rightarrow> system_create_with_seed sha signers (ix_accounts ix) si m
         | Raw_data _ \<Rightarrow> Inl Invalid_instruction_data)
      else helloworld_process (ix_program ix) (ix_accounts ix) m)"

section \<open>Transactions\<close>

datatype transaction_error =
    Blockhash_not_found
  | Already_processed
  | Account_not_found
  | Insufficient_funds_for_fee
  | Program_account_not_found
  | Invalid_program_for_execution
  | Instruction_error nat instruction_error

fun execute_instructions ::
  "hash_fn \<Rightarrow> pubkey list \<Rightarrow> nat \<Rightarrow> instruction list \<Rightarrow> accounts \<Rightarrow> transaction_error + accounts" where
  "execute_instructions sha signers i [] m = Inr m"
| "execute_instructions sha signers i (ix # ixs) m =
     (case execute_instruction sha signers ix m of
        Inl e \<Rightarrow> Inl (Instruction_error i e)
      | Inr m' \<Rightarrow> execute_instructions sha signers (Suc i) ixs m')"

text \<open>Loading: each invoked program other than the native system program must be an
  executable account.\<close>

fun check_programs :: "accounts \<Rightarrow> instruction list \<Rightarrow> transaction_error option" where
  "check_programs m [] = None"
| "check_programs m (ix # ixs) =
     (if ix_program ix = system_program_id then check_programs m ixs
      else case m (ix_program ix) of
        None \<Rightarrow> Some Program_account_not_found
      | Some p \<Rightarrow> if \<not> executable p then Some Invalid_program_for_execution
                  else check_programs m ixs)"

text \<open>The bank: accounts, the current slot (whose number is its blockhash), the age
  after which a blockhash expires, the fee per signature, and the ledger of
  committed transactions.\<close>

record bank =
  accounts :: accounts
  slot :: hash
  max_age :: nat
  lamports_per_signature :: u64
  ledger :: "transaction list"

definition blockhash_valid :: "'a bank_scheme \<Rightarrow> hash \<Rightarrow> bool" where
  "blockhash_valid b h \<longleftrightarrow> h \<le> slot b \<and> slot b < h + max_age b"

definition tx_fee :: "'a bank_scheme \<Rightarrow> transaction \<Rightarrow> nat" where
  "tx_fee b tx = unat (lamports_per_signature b) * length (tx_signers tx)"

text \<open>A transaction that fails changes nothing: the RPC client's preflight simulation
  rejects it before it is submitted, so not even the fee is charged.\<close>

definition process_transaction ::
  "hash_fn \<Rightarrow> transaction \<Rightarrow> 'a bank_scheme \<Rightarrow> transaction_error + 'a bank_scheme" where
  "process_transaction sha tx b =
     (if \<not> blockhash_valid b (tx_blockhash tx) then Inl Blockhash_not_found
      else if tx \<in> set (ledger b) then Inl Already_processed
      else case accounts b (tx_payer tx) of
        None \<Rightarrow> Inl Account_not_found
      | Some pa \<Rightarrow>
          if unat (lamports pa) < tx_fee b tx then Inl Insufficient_funds_for_fee
          else case check_programs (accounts b) (tx_instructions tx) of
            Some e \<Rightarrow> Inl e
          | None \<Rightarrow>
              let m1 = (accounts b)(tx_payer tx \<mapsto> pa\<lparr>lamports := lamports pa - of_nat (tx_fee b tx)\<rparr>) in
              case execute_instructions sha (tx_signers tx) 0 (tx_instructions tx) m1 of
                Inl e \<Rightarrow> Inl e
              | Inr m2 \<Rightarrow> Inr (b\<lparr>accounts := m2, ledger := ledger b @ [tx]\<rparr>))"

section \<open>Properties of transaction processing\<close>

text \<open>A committed transaction changes the accounts and appends itself to the ledger;
  every other field of the bank (and of an extension of it) is kept.\<close>

lemma process_transaction_Inr:
  "process_transaction sha tx b = Inr b' \<Longrightarrow>
   \<exists>m. b' = b\<lparr>accounts := m, ledger := ledger b @ [tx]\<rparr>"
  by (auto simp: process_transaction_def Let_def split: if_splits option.splits sum.splits)

lemma process_transaction_Inr_exec:
  "process_transaction sha tx b = Inr b' \<Longrightarrow>
   \<exists>pa. accounts b (tx_payer tx) = Some pa \<and>
     execute_instructions sha (tx_signers tx) 0 (tx_instructions tx)
       ((accounts b)(tx_payer tx \<mapsto> pa\<lparr>lamports := lamports pa - of_nat (tx_fee b tx)\<rparr>)) = Inr (accounts b') \<and>
     ledger b' = ledger b @ [tx]"
  by (auto simp: process_transaction_def Let_def split: if_splits option.splits sum.splits)

end
