(* ===== verification/Rpc.thy ===== *)
theory Rpc
  imports Ledger
begin

text \<open>
  The cluster as the client sees it through \<^verbatim>\<open>solana_client::rpc_client::RpcClient\<close>:
  the bank of \<^theory_text>\<open>Ledger\<close> extended with whether the endpoint answers, the rent
  schedule, the faucet and its airdrops, the version string, a schedule of
  environment events, and the log of every RPC request the client made.

  Time and the rest of the world are modelled by the event schedule: before each RPC
  request the cluster takes the next scheduled event (none when the schedule is
  empty) and then lands the airdrops still pending, unless that event is \<open>Stall\<close>.
  So in a quiet cluster an airdrop requested by one RPC call has landed by the next,
  and an unlucky schedule can delay it, expire a blockhash (\<open>Advance_slots\<close>), change the
  fee, take the endpoint down, or let another party write an account.
  Each RPC operation is a state transformer on the cluster with a \<open>Result\<close>; the
  client's \<open>.unwrap()\<close> of it is modelled in \<^theory_text>\<open>Client\<close>.
\<close>

datatype airdrop_status = Pending | Landed | Failed

datatype event =
    Idle
  | Stall
  | Advance_slots nat
  | Set_fee u64
  | Outage
  | Restore
  | Put_account pubkey "account option"

datatype signature = Tx_sig transaction | Airdrop_sig nat

datatype rpc_request =
    Get_version
  | Get_balance pubkey
  | Get_minimum_balance_for_rent_exemption nat
  | Get_recent_blockhash
  | Request_airdrop pubkey u64
  | Confirm_transaction signature
  | Get_account pubkey
  | Send_and_confirm_transaction transaction

datatype client_error =
    Rpc_unreachable
  | Account_not_found_rpc pubkey
  | Airdrop_refused
  | Transaction_failed transaction_error

record cluster = bank +
  reachable :: bool
  rent_minimum :: "nat \<Rightarrow> u64"
  faucet :: bool
  airdrops :: "(pubkey \<times> u64 \<times> airdrop_status) list"
  version :: string
  events :: "event list"
  rpc_log :: "rpc_request list"

section \<open>The environment between two requests\<close>

text \<open>The faucet credits each pending airdrop in order; a credit that would overflow
  the recipient's balance fails.\<close>

fun land_airdrops ::
  "(pubkey \<times> u64 \<times> airdrop_status) list \<Rightarrow> accounts \<Rightarrow>
   (pubkey \<times> u64 \<times> airdrop_status) list \<times> accounts" where
  "land_airdrops [] m = ([], m)"
| "land_airdrops ((k, amt, st) # ds) m =
     (if st \<noteq> Pending then (let (ds', m') = land_airdrops ds m in ((k, amt, st) # ds', m'))
      else let a = load m k in
        case checked_add (lamports a) amt of
          None \<Rightarrow> (let (ds', m') = land_airdrops ds m in ((k, amt, Failed) # ds', m'))
        | Some bal \<Rightarrow>
            (let (ds', m') = land_airdrops ds (m(k \<mapsto> a\<lparr>lamports := bal\<rparr>))
             in ((k, amt, Landed) # ds', m')))"

definition land_pending :: "cluster \<Rightarrow> cluster" where
  "land_pending c =
     (let (ds, m) = land_airdrops (airdrops c) (accounts c) in c\<lparr>airdrops := ds, accounts := m\<rparr>)"

definition apply_event :: "event \<Rightarrow> cluster \<Rightarrow> cluster" where
  "apply_event e c =
     (case e of
        Idle \<Rightarrow> c
      | Stall \<Rightarrow> c
      | Advance_slots n \<Rightarrow> c\<lparr>slot := slot c + n\<rparr>
      | Set_fee f \<Rightarrow> c\<lparr>lamports_per_signature := f\<rparr>
      | Outage \<Rightarrow> c\<lparr>reachable := False\<rparr>
      | Restore \<Rightarrow> c\<lparr>reachable := True\<rparr>
      | Put_account k ao \<Rightarrow> c\<lparr>accounts := (accounts c)(k := ao)\<rparr>)"

definition tick :: "cluster \<Rightarrow> cluster" where
  "tick c =
     (case events c of
        [] \<Rightarrow> land_pending c
      | e # es \<Rightarrow>
          (let c1 = apply_event e (c\<lparr>events := es\<rparr>) in
           if e = Stall then c1 else land_pending c1))"

section \<open>RPC requests\<close>

text \<open>Every request first lets the environment move, is then logged, and fails with
  \<open>Rpc_unreachable\<close> when the endpoint is down.\<close>

definition rpc :: "rpc_request \<Rightarrow> (cluster \<Rightarrow> (client_error + 'a) \<times> cluster) \<Rightarrow>
                   (cluster, client_error, 'a) st" where
  "rpc r f c =
     (let c1 = tick c; c2 = c1\<lparr>rpc_log := rpc_log c1 @ [r]\<rparr> in
      if reachable c2 then f c2 else (Inl Rpc_unreachable, c2))"

definition balance_of :: "'a bank_scheme \<Rightarrow> pubkey \<Rightarrow> u64" where
  "balance_of b k = lamports (load (accounts b) k)"

definition rpc_get_version :: "(cluster, client_error, string) st" where
  "rpc_get_version = rpc Get_version (\<lambda>c. (Inr (version c), c))"

definition rpc_get_balance :: "pubkey \<Rightarrow> (cluster, client_error, u64) st" where
  "rpc_get_balance k = rpc (Get_balance k) (\<lambda>c. (Inr (balance_of c k), c))"

definition rpc_get_minimum_balance_for_rent_exemption :: "nat \<Rightarrow> (cluster, client_error, u64) st" where
  "rpc_get_minimum_balance_for_rent_exemption n =
     rpc (Get_minimum_balance_for_rent_exemption n) (\<lambda>c. (Inr (rent_minimum c n), c))"

text \<open>\<^verbatim>\<open>get_recent_blockhash\<close> returns the blockhash and the \<^verbatim>\<open>FeeCalculator\<close>,
  of which the client uses \<^verbatim>\<open>lamports_per_signature\<close>.\<close>

definition rpc_get_recent_blockhash :: "(cluster, client_error, hash \<times> u64) st" where
  "rpc_get_recent_blockhash =
     rpc Get_recent_blockhash (\<lambda>c. (Inr (slot c, lamports_per_signature c), c))"

definition rpc_request_airdrop :: "pubkey \<Rightarrow> u64 \<Rightarrow> (cluster, client_error, signature) st" where
  "rpc_request_airdrop k amt =
     rpc (Request_airdrop k amt)
       (\<lambda>c. if faucet c
            then (Inr (Airdrop_sig (length (airdrops c))), c\<lparr>airdrops := airdrops c @ [(k, amt, Pending)]\<rparr>)
            else (Inl Airdrop_refused, c))"

text \<open>\<^verbatim>\<open>confirm_transaction\<close> asks once for the signature's status: it does not wait.\<close>

definition signature_confirmed :: "cluster \<Rightarrow> signature \<Rightarrow> bool" where
  "signature_confirmed c s =
     (case s of
        Airdrop_sig n \<Rightarrow> n < length (airdrops c) \<and> snd (snd (airdrops c ! n)) = Landed
      | Tx_sig tx \<Rightarrow> tx \<in> set (ledger c))"

definition rpc_confirm_transaction :: "signature \<Rightarrow> (cluster, client_error, bool) st" where
  "rpc_confirm_transaction s =
     rpc (Confirm_transaction s) (\<lambda>c. (Inr (signature_confirmed c s), c))"

definition rpc_get_account :: "pubkey \<Rightarrow> (cluster, client_error, account) st" where
  "rpc_get_account k =
     rpc (Get_account k)
       (\<lambda>c. case accounts c k of None \<Rightarrow> (Inl (Account_not_found_rpc k), c) | Some a \<Rightarrow> (Inr a, c))"

definition rpc_send_and_confirm_transaction :: "hash_fn \<Rightarrow> transaction \<Rightarrow> (cluster, client_error, signature) st" where
  "rpc_send_and_confirm_transaction sha tx =
     rpc (Send_and_confirm_transaction tx)
       (\<lambda>c. case process_transaction sha tx c of
              Inl e \<Rightarrow> (Inl (Transaction_failed e), c)
            | Inr c' \<Rightarrow> (Inr (Tx_sig tx), c'))"

section \<open>Observations of the request log\<close>

text \<open>What the log shows of a run: the airdrops requested, and the transactions
  submitted (successful or not), in order.\<close>

fun airdrop_requests :: "rpc_request list \<Rightarrow> (pubkey \<times> u64) list" where
  "airdrop_requests [] = []"
| "airdrop_requests (Request_airdrop k a # rs) = (k, a) # airdrop_requests rs"
| "airdrop_requests (_ # rs) = airdrop_requests rs"

fun submitted :: "rpc_request list \<Rightarrow> transaction list" where
  "submitted [] = []"
| "submitted (Send_and_confirm_transaction tx # rs) = tx # submitted rs"
| "submitted (_ # rs) = submitted rs"

section \<open>Requests to a calm cluster\<close>

text \<open>A cluster is calm when no event is scheduled, no airdrop is pending and the
  endpoint answers. A request to a calm cluster only appends itself to the log before
  it is served; the lemmas below give each request's result and state there. They are
  the steps by which the client's stages are executed symbolically.\<close>

definition settled :: "cluster \<Rightarrow> bool" where
  "settled c \<longleftrightarrow> list_all (\<lambda>(_, _, st). st \<noteq> Pending) (airdrops c)"

definition calm :: "cluster \<Rightarrow> bool" where
  "calm c \<longleftrightarrow> events c = [] \<and> settled c \<and> reachable c"

abbreviation logged :: "rpc_request list \<Rightarrow> cluster \<Rightarrow> cluster" where
  "logged rs c \<equiv> c\<lparr>rpc_log := rpc_log c @ rs\<rparr>"

text \<open>The account store after \<open>k\<close>'s balance is set to \<open>l\<close>.\<close>

definition set_balance :: "pubkey \<Rightarrow> u64 \<Rightarrow> accounts \<Rightarrow> accounts" where
  "set_balance k l m = m(k \<mapsto> (load m k)\<lparr>lamports := l\<rparr>)"

named_theorems rpc_calm_simps "results of RPC requests to a calm cluster"

lemma land_airdrops_settled:
  "list_all (\<lambda>(_, _, st). st \<noteq> Pending) ds \<Longrightarrow> land_airdrops ds m = (ds, m)"
  by (induction ds m rule: land_airdrops.induct) auto

lemma tick_calm: "events c = [] \<Longrightarrow> settled c \<Longrightarrow> tick c = c"
  by (simp add: tick_def land_pending_def settled_def land_airdrops_settled)

lemma calm_log [simp]: "calm (c\<lparr>rpc_log := l\<rparr>) = calm c"
  by (simp add: calm_def settled_def)

lemma balance_of_log [simp]: "balance_of (c\<lparr>rpc_log := l\<rparr>) k = balance_of c k"
  by (simp add: balance_of_def)

lemma rpc_calm: "calm c \<Longrightarrow> rpc r f c = f (logged [r] c)"
  by (simp add: rpc_def tick_calm calm_def)

text \<open>With no airdrop pending, a request takes the next scheduled event and nothing else
  happens before it is served.\<close>

lemma tick_settled:
  "events c = e # es \<Longrightarrow> settled c \<Longrightarrow> tick c = apply_event e (c\<lparr>events := es\<rparr>)"
  by (cases e) (simp_all add: tick_def apply_event_def land_pending_def settled_def land_airdrops_settled)

lemma rpc_settled:
  "events c = e # es \<Longrightarrow> settled c \<Longrightarrow> reachable (apply_event e c) \<Longrightarrow>
   rpc r f c = f (logged [r] (apply_event e (c\<lparr>events := es\<rparr>)))"
  by (cases e) (simp_all add: rpc_def tick_settled apply_event_def)

lemma rpc_stall:
  "events c = Stall # es \<Longrightarrow> reachable c \<Longrightarrow> rpc r f c = f (logged [r] (c\<lparr>events := es\<rparr>))"
  by (simp add: rpc_def tick_def apply_event_def)

text \<open>An outage fails the request it meets without running it; the restore that ends
  it lets the next request through.\<close>

lemma rpc_outage:
  "events c = Outage # es \<Longrightarrow> settled c \<Longrightarrow>
   rpc r f c = (Inl Rpc_unreachable, logged [r] (c\<lparr>events := es, reachable := False\<rparr>))"
  by (simp add: rpc_def tick_settled apply_event_def)

lemma rpc_restore:
  "events c = Restore # es \<Longrightarrow> settled c \<Longrightarrow> rpc r f c = f (logged [r] (c\<lparr>events := es, reachable := True\<rparr>))"
  by (simp add: rpc_def tick_settled apply_event_def)

lemma rpc_down:
  "events c = [] \<Longrightarrow> settled c \<Longrightarrow> \<not> reachable c \<Longrightarrow> rpc r f c = (Inl Rpc_unreachable, logged [r] c)"
  by (simp add: rpc_def tick_def land_pending_def settled_def land_airdrops_settled)

text \<open>Transaction processing does not look at the RPC log.\<close>

lemma process_transaction_log:
  "process_transaction sha tx (c\<lparr>rpc_log := l\<rparr>) =
     (case process_transaction sha tx c of Inl e \<Rightarrow> Inl e | Inr c' \<Rightarrow> Inr (c'\<lparr>rpc_log := l\<rparr>))"
  by (simp add: process_transaction_def blockhash_valid_def tx_fee_def Let_def
        split: option.splits sum.splits)

lemma rpc_get_version_calm [rpc_calm_simps]:
  "calm c \<Longrightarrow> rpc_get_version c = (Inr (version c), logged [Get_version] c)"
  by (simp add: rpc_get_version_def rpc_calm)

lemma rpc_get_balance_calm [rpc_calm_simps]:
  "calm c \<Longrightarrow> rpc_get_balance k c = (Inr (balance_of c k), logged [Get_balance k] c)"
  by (simp add: rpc_get_balance_def rpc_calm balance_of_def)

lemma rpc_get_minimum_balance_for_rent_exemption_calm [rpc_calm_simps]:
  "calm c \<Longrightarrow> rpc_get_minimum_balance_for_rent_exemption n c =
     (Inr (rent_minimum c n), logged [Get_minimum_balance_for_rent_exemption n] c)"
  by (simp add: rpc_get_minimum_balance_for_rent_exemption_def rpc_calm)

lemma rpc_get_recent_blockhash_calm [rpc_calm_simps]:
  "calm c \<Longrightarrow> rpc_get_recent_blockhash c =
     (Inr (slot c, lamports_per_signature c), logged [Get_recent_blockhash] c)"
  by (simp add: rpc_get_recent_blockhash_def rpc_calm)

lemma rpc_get_account_calm [rpc_calm_simps]:
  "calm c \<Longrightarrow> rpc_get_account k c =
     (case accounts c k of None \<Rightarrow> Inl (Account_not_found_rpc k) | Some a \<Rightarrow> Inr a,
      logged [Get_account k] c)"
  by (simp add: rpc_get_account_def rpc_calm split: option.splits)

lemma rpc_confirm_transaction_calm [rpc_calm_simps]:
  "calm c \<Longrightarrow> rpc_confirm_transaction s c =
     (Inr (signature_confirmed c s), logged [Confirm_transaction s] c)"
  by (simp add: rpc_confirm_transaction_def rpc_calm signature_confirmed_def split: signature.splits)

lemma rpc_send_and_confirm_transaction_calm [rpc_calm_simps]:
  "calm c \<Longrightarrow> rpc_send_and_confirm_transaction sha tx c =
     (case process_transaction sha tx c of
        Inl e \<Rightarrow> (Inl (Transaction_failed e), logged [Send_and_confirm_transaction tx] c)
      | Inr c' \<Rightarrow> (Inr (Tx_sig tx), c'\<lparr>rpc_log := rpc_log c @ [Send_and_confirm_transaction tx]\<rparr>))"
  by (simp add: rpc_send_and_confirm_transaction_def rpc_calm process_transaction_log
        split: sum.splits)

lemma rpc_request_airdrop_calm [rpc_calm_simps]:
  "calm c \<Longrightarrow> rpc_request_airdrop k amt c =
     (if faucet c
      then (Inr (Airdrop_sig (length (airdrops c))),
            (logged [Request_airdrop k amt] c)\<lparr>airdrops := airdrops c @ [(k, amt, Pending)]\<rparr>)
      else (Inl Airdrop_refused, logged [Request_airdrop k amt] c))"
  by (simp add: rpc_request_airdrop_def rpc_calm)

section \<open>An airdrop lands at the next request\<close>

lemma land_airdrops_one:
  "list_all (\<lambda>(_, _, st). st \<noteq> Pending) ds \<Longrightarrow>
   checked_add (lamports (load m k)) amt = Some bal \<Longrightarrow>
   land_airdrops (ds @ [(k, amt, Pending)]) m = (ds @ [(k, amt, Landed)], set_balance k bal m)"
  by (induction ds m rule: land_airdrops.induct) (auto simp: set_balance_def)

text \<open>The cluster left by a request for an airdrop of \<open>amt\<close> to \<open>k\<close> in a calm cluster
  is served at the next request as a calm cluster in which the airdrop has landed.\<close>

lemma rpc_after_airdrop:
  assumes "calm c" and "checked_add (balance_of c k) amt = Some bal"
  shows "rpc r f (c\<lparr>airdrops := airdrops c @ [(k, amt, Pending)]\<rparr>) =
           f (logged [r] (c\<lparr>airdrops := airdrops c @ [(k, amt, Landed)],
                            accounts := set_balance k bal (accounts c)\<rparr>))"
proof -
  from assms(1) have "list_all (\<lambda>(_, _, st). st \<noteq> Pending) (airdrops c)"
    by (simp add: calm_def settled_def)
  with assms(2) have "land_airdrops (airdrops c @ [(k, amt, Pending)]) (accounts c) =
                        (airdrops c @ [(k, amt, Landed)], set_balance k bal (accounts c))"
    by (simp add: land_airdrops_one balance_of_def)
  with assms(1) show ?thesis
    by (simp add: rpc_def tick_def land_pending_def calm_def)
qed

lemma calm_landed:
  "calm c \<Longrightarrow> calm (c\<lparr>airdrops := airdrops c @ [(k, amt, Landed)], accounts := m\<rparr>)"
  by (simp add: calm_def settled_def)

lemma airdrop_requests_append [simp]:
  "airdrop_requests (xs @ ys) = airdrop_requests xs @ airdrop_requests ys"
  by (induction xs rule: airdrop_requests.induct) auto

lemma submitted_append [simp]: "submitted (xs @ ys) = submitted xs @ submitted ys"
  by (induction xs rule: submitted.induct) auto

end
