(* ===== verification/Client.thy ===== *)
theory Client
  imports Rpc
begin

text \<open>
  The client of \<^verbatim>\<open>src/src/lib.rs\<close>: its struct \<^verbatim>\<open>Client\<close>, the process state it
  runs in, and the operations of its first stages.
  \<^item> The process state \<open>world\<close> holds the host (configuration file, keypair files,
    paths that exist, the random source of \<^verbatim>\<open>Keypair::new\<close>), the cluster behind the
    RPC endpoint, standard output as a list of messages, and the hash function of the
    SDK.
  \<^item> A client operation is a \<open>'a prog\<close>: a computation on the world that returns a value
    or panics. Every \<^verbatim>\<open>.unwrap()\<close> of the source is a point where it can panic, with the
    error that caused it; every \<^verbatim>\<open>println!\<close> appends a message.
  \<^item> \<^verbatim>\<open>establish_payer\<close> is the fee estimator (lines 83--89, \<open>estimate_fees\<close>), the
    choice of the payer (\<open>get_payer\<close>) and the payer funder (lines 93--105,
    \<open>fund_payer\<close>), composed as the method composes them.
\<close>

section \<open>Process state\<close>

text \<open>The two fields of \<^verbatim>\<open>solana_cli_config::Config\<close> the client reads.\<close>

record config =
  json_rpc_url :: string
  keypair_path :: string

datatype commitment = Processed | Confirmed | Finalized

record rpc_client =
  url :: string
  commitment :: commitment

record host =
  config_file :: "string option"
  config_files :: "string \<Rightarrow> config option"
  keypair_files :: "string \<Rightarrow> keypair option"
  existing_paths :: "string list"
  entropy :: "nat \<Rightarrow> keypair"
  draws :: nat

datatype message =
    Msg_lets_say_hello
  | Msg_get_config config
  | Msg_connecting string
  | Msg_connection_established string
  | Msg_greeting_size nat
  | Msg_fallback_keypair
  | Msg_using_account pubkey u64
  | Msg_deploy_program
  | Msg_build_and_deploy
  | Msg_not_executable
  | Msg_using_program pubkey
  | Msg_creating_account pubkey
  | Msg_say_hello pubkey pubkey
  | Msg_said_hello signature
  | Msg_greeted pubkey u32
  | Msg_success

datatype panic =
    No_config_file
  | Config_load_failed string
  | Keypair_read_failed string
  | Rpc_failed client_error
  | Arithmetic_overflow_panic
  | Seed_derivation_failed pubkey_error
  | Signing_failed signer_error
  | Decode_failed borsh_error

record world =
  host :: host
  cluster :: cluster
  stdout :: "message list"
  sha256 :: hash_fn

type_synonym 'a prog = "(world, panic, 'a) st"

section \<open>Effects\<close>

definition on_cluster :: "(cluster, client_error, 'a) st \<Rightarrow> (world, client_error, 'a) st" where
  "on_cluster f w = (case f (cluster w) of (r, c) \<Rightarrow> (r, w\<lparr>cluster := c\<rparr>))"

text \<open>An RPC request whose \<^verbatim>\<open>Result\<close> is unwrapped, and one whose \<^verbatim>\<open>Result\<close> is kept.\<close>

definition call :: "(cluster, client_error, 'a) st \<Rightarrow> 'a prog" where
  "call f = lift_err Rpc_failed (on_cluster f)"

definition try_call :: "(cluster, client_error, 'a) st \<Rightarrow> (client_error + 'a) prog" where
  "try_call f = attempt (on_cluster f)"

definition send_transaction :: "transaction \<Rightarrow> (client_error + signature) prog" where
  "send_transaction tx w = try_call (rpc_send_and_confirm_transaction (sha256 w) tx) w"

definition unwrap_result :: "('e \<Rightarrow> panic) \<Rightarrow> 'e + 'a \<Rightarrow> 'a prog" where
  "unwrap_result g r = (case r of Inl e \<Rightarrow> raise (g e) | Inr a \<Rightarrow> ret a)"

definition overflow_check :: "'a option \<Rightarrow> 'a prog" where
  "overflow_check r = (case r of None \<Rightarrow> raise Arithmetic_overflow_panic | Some a \<Rightarrow> ret a)"

definition println :: "message \<Rightarrow> unit prog" where
  "println m = modify_st (\<lambda>w. w\<lparr>stdout := stdout w @ [m]\<rparr>)"

text \<open>\<^verbatim>\<open>Keypair::new()\<close> draws the next key of the random source.\<close>

definition keypair_new :: "keypair prog" where
  "keypair_new w =
     (Inr (entropy (host w) (draws (host w))), w\<lparr>host := (host w)\<lparr>draws := Suc (draws (host w))\<rparr>\<rparr>)"

text \<open>\<^verbatim>\<open>read_keypair_file(path).unwrap()\<close>.\<close>

definition read_keypair_file :: "string \<Rightarrow> keypair prog" where
  "read_keypair_file p w =
     (case keypair_files (host w) p of None \<Rightarrow> (Inl (Keypair_read_failed p), w) | Some k \<Rightarrow> (Inr k, w))"

definition path_exists :: "string \<Rightarrow> bool prog" where
  "path_exists p w = (Inr (p \<in> set (existing_paths (host w))), w)"

section \<open>The client\<close>

definition PROGRAM_SO_PATH :: string where
  "PROGRAM_SO_PATH = ''/Users/carter/Programs/rust/example-helloworld/dist/program/helloworld.so''"

definition PROGRAM_KEYPAIR_PATH :: string where
  "PROGRAM_KEYPAIR_PATH =
     ''/Users/carter/Programs/rust/example-helloworld/dist/program/helloworld-keypair.json''"

definition GREETING_SEED :: string where
  "GREETING_SEED = ''gulei''"

definition LAMPORTS_PER_SOL :: u64 where
  "LAMPORTS_PER_SOL = 1000000000"

record client =
  config :: config
  connection :: rpc_client
  payer :: keypair
  program_id :: pubkey

text \<open>\<^verbatim>\<open>Client::new\<close>: load the configuration (both \<^verbatim>\<open>unwrap\<close>s), print it, and build
  the struct field by field: a fresh random payer, and the program id read from the
  program's keypair file.\<close>

definition client_new :: "client prog" where
  "client_new =
     bind_st (\<lambda>w. case config_file (host w) of None \<Rightarrow> (Inl No_config_file, w) | Some p \<Rightarrow> (Inr p, w)) (\<lambda>p.
     bind_st (\<lambda>w. case config_files (host w) p of
                    None \<Rightarrow> (Inl (Config_load_failed p), w) | Some cfg \<Rightarrow> (Inr cfg, w)) (\<lambda>cfg.
     bind_st (println (Msg_get_config cfg)) (\<lambda>_.
     bind_st (println (Msg_connecting (json_rpc_url cfg))) (\<lambda>_.
     bind_st keypair_new (\<lambda>k.
     bind_st (read_keypair_file PROGRAM_KEYPAIR_PATH) (\<lambda>pk.
     ret \<lparr>config = cfg, connection = \<lparr>url = json_rpc_url cfg, commitment = Confirmed\<rparr>,
          payer = k, program_id = pubkey pk\<rparr>))))))"

definition get_greeting_size :: "nat prog" where
  "get_greeting_size =
     (let size = length (try_to_vec \<lparr>counter = 0\<rparr>) in
      bind_st (println (Msg_greeting_size size)) (\<lambda>_. ret size))"

definition get_payer :: "client \<Rightarrow> keypair prog" where
  "get_payer c =
     (if keypair_path (config c) = [] then bind_st (println Msg_fallback_keypair) (\<lambda>_. keypair_new)
      else read_keypair_file (keypair_path (config c)))"

definition get_version :: "client \<Rightarrow> (client_error + string) prog" where
  "get_version c = try_call rpc_get_version"

section \<open>Fee estimator and payer funder\<close>

text \<open>Lines 83--89: rent exemption of the greeting account plus a hundred signatures
  at the current fee, each \<open>+=\<close> and the \<open>*\<close> checked for overflow.\<close>

definition estimate_fees :: "u64 prog" where
  "estimate_fees =
     bind_st (call rpc_get_recent_blockhash) (\<lambda>(_, lps).
     bind_st get_greeting_size (\<lambda>size.
     bind_st (call (rpc_get_minimum_balance_for_rent_exemption size)) (\<lambda>rent.
     bind_st (overflow_check (checked_add 0 rent)) (\<lambda>fees.
     bind_st (overflow_check (checked_mul lps 100)) (\<lambda>sig_fees.
     overflow_check (checked_add fees sig_fees))))))"

text \<open>Lines 93--105: read the balance; when it is short of the fees, request an airdrop
  of the deficit, ask once whether it is confirmed (the answer is dropped), and read
  the balance again. The result is the balance the method reports.\<close>

definition fund_payer :: "pubkey \<Rightarrow> u64 \<Rightarrow> u64 prog" where
  "fund_payer k fees =
     bind_st (call (rpc_get_balance k)) (\<lambda>lamports.
     bind_st (if lamports < fees then
                bind_st (call (rpc_request_airdrop k (fees - lamports))) (\<lambda>sig.
                bind_st (try_call (rpc_confirm_transaction sig)) (\<lambda>confirmed.
                call (rpc_get_balance k)))
              else ret lamports) (\<lambda>lamports'.
     bind_st (println (Msg_using_account k (lamports' div LAMPORTS_PER_SOL))) (\<lambda>_.
     ret lamports')))"

definition establish_payer :: "client \<Rightarrow> client prog" where
  "establish_payer c =
     bind_st estimate_fees (\<lambda>fees.
     bind_st (get_payer c) (\<lambda>p.
     bind_st (fund_payer (pubkey p) fees) (\<lambda>_.
     ret (c\<lparr>payer := p\<rparr>))))"

section \<open>Expected results of the first stages\<close>

text \<open>The estimate the fee estimator computes from the cluster's answers, \<open>None\<close>
  when one of its operations overflows.\<close>

definition fee_estimate :: "cluster \<Rightarrow> u64 option" where
  "fee_estimate c =
     (case checked_mul (lamports_per_signature c) 100 of
        None \<Rightarrow> None
      | Some s \<Rightarrow> checked_add (rent_minimum c 4) s)"

text \<open>The cluster after the funder found \<open>k\<close> short of \<open>fees\<close> and its airdrop of the
  deficit landed: four requests logged, the airdrop recorded, the balance exactly
  \<open>fees\<close>.\<close>

definition funded :: "pubkey \<Rightarrow> u64 \<Rightarrow> cluster \<Rightarrow> cluster" where
  "funded k fees c =
     (let d = fees - balance_of c k in
      (logged [Get_balance k, Request_airdrop k d, Confirm_transaction (Airdrop_sig (length (airdrops c))),
               Get_balance k] c)\<lparr>airdrops := airdrops c @ [(k, d, Landed)],
                                 accounts := set_balance k fees (accounts c)\<rparr>)"

section \<open>Effects, evaluated\<close>

named_theorems client_simps "evaluation rules of the client's effects"

lemma call_apply [client_simps]:
  "call f w = (case f (cluster w) of (Inl e, c) \<Rightarrow> (Inl (Rpc_failed e), w\<lparr>cluster := c\<rparr>)
                                     | (Inr a, c) \<Rightarrow> (Inr a, w\<lparr>cluster := c\<rparr>))"
  by (simp add: call_def lift_err_def on_cluster_def split: prod.splits sum.splits)

lemma try_call_apply [client_simps]:
  "try_call f w = (case f (cluster w) of (r, c) \<Rightarrow> (Inr r, w\<lparr>cluster := c\<rparr>))"
  by (simp add: try_call_def attempt_def on_cluster_def split: prod.splits)

lemma send_transaction_apply [client_simps]:
  "send_transaction tx w =
     (case rpc_send_and_confirm_transaction (sha256 w) tx (cluster w) of (r, c) \<Rightarrow> (Inr r, w\<lparr>cluster := c\<rparr>))"
  by (simp add: send_transaction_def try_call_apply)

lemma println_apply [client_simps]: "println m w = (Inr (), w\<lparr>stdout := stdout w @ [m]\<rparr>)"
  by (simp add: println_def)

lemma unwrap_result_Inr [simp, client_simps]: "unwrap_result g (Inr a) = ret a"
  by (simp add: unwrap_result_def)

lemma unwrap_result_Inl [simp, client_simps]: "unwrap_result g (Inl e) = raise (g e)"
  by (simp add: unwrap_result_def)

lemma overflow_check_Some [simp, client_simps]: "overflow_check (Some a) = ret a"
  by (simp add: overflow_check_def)

lemma overflow_check_None [simp, client_simps]: "overflow_check None = raise Arithmetic_overflow_panic"
  by (simp add: overflow_check_def)

lemma get_greeting_size_apply [client_simps]:
  "get_greeting_size w = (Inr 4, w\<lparr>stdout := stdout w @ [Msg_greeting_size 4]\<rparr>)"
  by (simp add: get_greeting_size_def println_apply bind_st_def)

lemma checked_add_deficit: "b < f \<Longrightarrow> checked_add b (f - b) = Some f"
  for b f :: "'a::len word"
  by (simp add: checked_add_def unat_sub_less order_less_imp_le word_less_nat_alt)

section \<open>The fee estimator\<close>

lemma estimate_fees_calm:
  "calm (cluster w) \<Longrightarrow>
   estimate_fees w =
     (case fee_estimate (cluster w) of None \<Rightarrow> Inl Arithmetic_overflow_panic | Some f \<Rightarrow> Inr f,
      w\<lparr>cluster := logged [Get_recent_blockhash, Get_minimum_balance_for_rent_exemption 4] (cluster w),
        stdout := stdout w @ [Msg_greeting_size 4]\<rparr>)"
  by (simp add: estimate_fees_def bind_st_def call_apply rpc_get_recent_blockhash_calm
       get_greeting_size_apply rpc_get_minimum_balance_for_rent_exemption_calm
       fee_estimate_def split: option.splits)

lemma fee_estimate_Some:
  "fee_estimate c = Some f \<longleftrightarrow>
     unat (lamports_per_signature c) * 100 < 2 ^ 64 \<and>
     unat (rent_minimum c 4) + unat (lamports_per_signature c) * 100 < 2 ^ 64 \<and>
     f = rent_minimum c 4 + lamports_per_signature c * 100"
proof -
  let ?l = "lamports_per_signature c"
  have m: "checked_mul ?l 100 = (if unat ?l * 100 < 2 ^ 64 then Some (?l * 100) else None)"
    by (simp add: checked_mul_def)
  have u: "unat ?l * 100 < 2 ^ 64 \<Longrightarrow> unat (?l * 100) = unat ?l * 100"
    using unat_mult_lem [of ?l "100::u64"] by simp
  show ?thesis
    by (auto simp: fee_estimate_def m checked_add_def u split: if_splits)
qed

section \<open>The payer funder\<close>

lemma fund_payer_sufficient:
  "calm (cluster w) \<Longrightarrow> \<not> balance_of (cluster w) k < fees \<Longrightarrow>
   fund_payer k fees w =
     (Inr (balance_of (cluster w) k),
      w\<lparr>cluster := logged [Get_balance k] (cluster w),
        stdout := stdout w @ [Msg_using_account k (balance_of (cluster w) k div LAMPORTS_PER_SOL)]\<rparr>)"
  by (simp add: fund_payer_def bind_st_def call_apply rpc_get_balance_calm println_apply)

lemma fund_payer_refused:
  "calm (cluster w) \<Longrightarrow> \<not> faucet (cluster w) \<Longrightarrow> balance_of (cluster w) k < fees \<Longrightarrow>
   fund_payer k fees w =
     (Inl (Rpc_failed Airdrop_refused),
      w\<lparr>cluster := logged [Get_balance k, Request_airdrop k (fees - balance_of (cluster w) k)] (cluster w)\<rparr>)"
  by (simp add: fund_payer_def bind_st_def call_apply rpc_get_balance_calm rpc_request_airdrop_calm)

lemma fund_payer_airdrop:
  assumes calm: "calm (cluster w)" and fc: "faucet (cluster w)" and short: "balance_of (cluster w) k < fees"
  shows "fund_payer k fees w =
     (Inr fees, w\<lparr>cluster := funded k fees (cluster w),
                  stdout := stdout w @ [Msg_using_account k (fees div LAMPORTS_PER_SOL)]\<rparr>)"
proof -
  let ?c = "cluster w" and ?b = "balance_of (cluster w) k"
  let ?d = "fees - ?b" and ?n = "length (airdrops (cluster w))"
  define c1 where "c1 = logged [Get_balance k, Request_airdrop k ?d] ?c"
  define c2 where "c2 = c1\<lparr>airdrops := airdrops ?c @ [(k, ?d, Landed)],
                            accounts := set_balance k fees (accounts ?c)\<rparr>"
  have calm1: "calm c1" using calm by (simp add: c1_def)
  have req: "rpc_request_airdrop k ?d (logged [Get_balance k] ?c) =
               (Inr (Airdrop_sig ?n), c1\<lparr>airdrops := airdrops c1 @ [(k, ?d, Pending)]\<rparr>)"
    using calm fc by (simp add: rpc_request_airdrop_calm c1_def)
  have bal1: "checked_add (balance_of c1 k) ?d = Some fees"
    using short by (simp add: c1_def balance_of_def checked_add_deficit)
  have conf: "rpc_confirm_transaction (Airdrop_sig ?n) (c1\<lparr>airdrops := airdrops c1 @ [(k, ?d, Pending)]\<rparr>) =
                (Inr True, logged [Confirm_transaction (Airdrop_sig ?n)] c2)"
    unfolding rpc_confirm_transaction_def rpc_after_airdrop [OF calm1 bal1]
    by (simp add: c2_def c1_def signature_confirmed_def nth_append)
  have calm2: "calm c2" using calm1 by (simp add: c2_def c1_def calm_def settled_def)
  have bal2: "balance_of c2 k = fees"
    by (simp add: c2_def balance_of_def set_balance_def load_def)
  have fin: "logged [Get_balance k] (logged [Confirm_transaction (Airdrop_sig ?n)] c2) = funded k fees ?c"
    by (simp add: c2_def c1_def funded_def Let_def)
  show ?thesis
    using calm short req conf calm2 bal2 fin
    by (simp add: fund_payer_def bind_st_def call_apply try_call_apply rpc_get_balance_calm println_apply)
qed

text \<open>C13. Bounds of the fee estimate: on a calm cluster the estimator returns the rent
  exemption of 4 bytes plus 100 times the fee per signature exactly when that sum is
  below 2^64, and otherwise panics with an arithmetic overflow (Rust's debug-mode
  checks on \<open>*\<close> and \<open>+=\<close>); it never returns a wrapped-around amount.\<close>

theorem estimate_fees_bounds:
  assumes "calm (cluster w)"
  shows "fst (estimate_fees w) =
    (if unat (rent_minimum (cluster w) 4) + 100 * unat (lamports_per_signature (cluster w)) < 2 ^ 64
     then Inr (rent_minimum (cluster w) 4 + 100 * lamports_per_signature (cluster w))
     else Inl Arithmetic_overflow_panic)"
proof (cases "fee_estimate (cluster w)")
  case None
  then have "\<not> unat (rent_minimum (cluster w) 4) + 100 * unat (lamports_per_signature (cluster w)) < 2 ^ 64"
    using fee_estimate_Some [of "cluster w"] by (auto simp: mult.commute)
  with None assms show ?thesis by (simp add: estimate_fees_calm)
next
  case (Some f)
  then have "unat (rent_minimum (cluster w) 4) + 100 * unat (lamports_per_signature (cluster w)) < 2 ^ 64"
    and "f = rent_minimum (cluster w) 4 + 100 * lamports_per_signature (cluster w)"
    by (simp_all add: fee_estimate_Some mult.commute)
  with Some assms show ?thesis by (simp add: estimate_fees_calm)
qed

text \<open>The run of the funder under a schedule that stalls the airdrop past both
  requests that follow it, step by step.\<close>

lemma fund_payer_stalled:
  assumes ev: "events (cluster w) = [Idle, Idle, Stall, Stall]" and st: "settled (cluster w)" "reachable (cluster w)"
    and fc: "faucet (cluster w)" and short: "balance_of (cluster w) k < fees"
  shows "fund_payer k fees w =
    (Inr (balance_of (cluster w) k),
     w\<lparr>cluster := (cluster w)\<lparr>events := [],
          rpc_log := rpc_log (cluster w) @ [Get_balance k, Request_airdrop k (fees - balance_of (cluster w) k),
                       Confirm_transaction (Airdrop_sig (length (airdrops (cluster w)))), Get_balance k],
          airdrops := airdrops (cluster w) @ [(k, fees - balance_of (cluster w) k, Pending)]\<rparr>,
       stdout := stdout w @ [Msg_using_account k (balance_of (cluster w) k div LAMPORTS_PER_SOL)]\<rparr>)"
proof -
  let ?c = "cluster w" and ?b = "balance_of (cluster w) k"
  let ?c1 = "logged [Get_balance k] (?c\<lparr>events := [Idle, Stall, Stall]\<rparr>)"
  let ?c2 = "(logged [Request_airdrop k (fees - ?b)] (?c1\<lparr>events := [Stall, Stall]\<rparr>))
               \<lparr>airdrops := airdrops ?c @ [(k, fees - ?b, Pending)]\<rparr>"
  have b1: "rpc_get_balance k ?c = (Inr ?b, ?c1)"
    using ev st by (simp add: rpc_get_balance_def rpc_settled apply_event_def balance_of_def)
  have s1: "settled ?c1" using st by (simp add: settled_def)
  have a: "rpc_request_airdrop k (fees - ?b) ?c1 = (Inr (Airdrop_sig (length (airdrops ?c))), ?c2)"
    using s1 st fc by (simp add: rpc_request_airdrop_def rpc_settled apply_event_def)
  have conf: "rpc_confirm_transaction (Airdrop_sig (length (airdrops ?c))) ?c2 =
                (Inr False, logged [Confirm_transaction (Airdrop_sig (length (airdrops ?c)))] (?c2\<lparr>events := [Stall]\<rparr>))"
    using st by (simp add: rpc_confirm_transaction_def rpc_stall signature_confirmed_def nth_append)
  have b2: "rpc_get_balance k (logged [Confirm_transaction (Airdrop_sig (length (airdrops ?c)))] (?c2\<lparr>events := [Stall]\<rparr>)) =
     (Inr ?b, logged [Get_balance k] ((logged [Confirm_transaction (Airdrop_sig (length (airdrops ?c)))] (?c2\<lparr>events := [Stall]\<rparr>))\<lparr>events := []\<rparr>))"
    using st by (simp add: rpc_get_balance_def rpc_stall balance_of_def)
  show ?thesis
    using b1 a conf b2 short
    by (simp add: fund_payer_def bind_st_def call_apply try_call_apply println_apply balance_of_def)
qed

text \<open>C14. The payer funder does not wait for its airdrop (a divergence from the spec,
  which requires blocking until the top-up is confirmed and failing on a confirmation
  timeout): when the faucet accepts the request but the airdrop has not landed by the
  time of the single \<^verbatim>\<open>confirm_transaction\<close> and the second balance read, the funder
  returns normally, with the balance still below the estimate and the airdrop still
  pending.\<close>

theorem fund_payer_not_awaited:
  assumes ev: "events (cluster w) = [Idle, Idle, Stall, Stall]" and st: "settled (cluster w)" "reachable (cluster w)"
    and fc: "faucet (cluster w)" and short: "balance_of (cluster w) k < fees"
  shows "fst (fund_payer k fees w) = Inr (balance_of (cluster w) k) \<and>
    balance_of (cluster (snd (fund_payer k fees w))) k < fees \<and>
    airdrops (cluster (snd (fund_payer k fees w))) =
      airdrops (cluster w) @ [(k, fees - balance_of (cluster w) k, Pending)]"
  using fund_payer_stalled [OF ev st fc short] short by (simp add: balance_of_def)

text \<open>C15. Liveness of the funder across runs: the top-up the funder did not await
  (the previous theorem) lands at the next request, so the next run of the funder
  finds the payer holding exactly the estimate and makes no further airdrop request:
  the spec's guarantee \<open>balance \<ge> estimate\<close> holds one run late.\<close>

theorem stalled_airdrop_lands_next_run:
  assumes ev: "events (cluster w) = [Idle, Idle, Stall, Stall]" and st: "settled (cluster w)" "reachable (cluster w)"
    and fc: "faucet (cluster w)" and short: "balance_of (cluster w) k < fees"
  defines "w1 \<equiv> snd (fund_payer k fees w)"
  shows "fst (fund_payer k fees w1) = Inr fees \<and>
    balance_of (cluster (snd (fund_payer k fees w1))) k = fees \<and>
    rpc_log (cluster (snd (fund_payer k fees w1))) = rpc_log (cluster w1) @ [Get_balance k]"
proof -
  let ?b = "balance_of (cluster w) k"
  define c' where "c' = (cluster w)\<lparr>events := [],
          rpc_log := rpc_log (cluster w) @ [Get_balance k, Request_airdrop k (fees - ?b),
                       Confirm_transaction (Airdrop_sig (length (airdrops (cluster w)))), Get_balance k]\<rparr>"
  have w1: "cluster w1 = c'\<lparr>airdrops := airdrops c' @ [(k, fees - ?b, Pending)]\<rparr>"
    using fund_payer_stalled [OF ev st fc short] by (simp add: w1_def c'_def)
  have calm: "calm c'" using st by (simp add: c'_def calm_def settled_def)
  have add: "checked_add (balance_of c' k) (fees - ?b) = Some fees"
    using short by (simp add: c'_def balance_of_def checked_add_deficit)
  have "rpc_get_balance k (cluster w1) =
     (Inr fees, logged [Get_balance k] (c'\<lparr>airdrops := airdrops c' @ [(k, fees - ?b, Landed)],
                                          accounts := set_balance k fees (accounts c')\<rparr>))"
    unfolding w1 rpc_get_balance_def rpc_after_airdrop [OF calm add]
    by (simp add: balance_of_def set_balance_def load_def)
  then show ?thesis
    by (simp add: fund_payer_def bind_st_def call_apply println_apply balance_of_def set_balance_def load_def w1)
qed

end
