(* ===== verification/Provisioner.thy ===== *)
theory Provisioner
  imports Client
begin

text \<open>
  \<^verbatim>\<open>Client::check_program\<close> (lines 108--150 of \<^verbatim>\<open>src/src/lib.rs\<close>), the account
  provisioner, in its three parts:
  \<^item> \<open>check_program_deployed\<close> (lines 109--118): look the program account up and print
    a diagnostic when it is missing or not executable; nothing else depends on it;
  \<^item> \<open>greeting_address\<close> (lines 123--126): derive the greeting account's address from
    the payer, the seed \<^verbatim>\<open>"gulei"\<close> and the program id;
  \<^item> \<open>create_greeting_account\<close> (lines 131--147): build, sign and send the
    \<^verbatim>\<open>create_account_with_seed\<close> transaction for a 4-byte account funded to its rent
    exemption. The result of \<^verbatim>\<open>send_and_confirm_transaction\<close> is dropped.
  \<open>check_program\<close> runs the creation only when looking the derived address up fails.
\<close>

definition check_program_deployed :: "client \<Rightarrow> unit prog" where
  "check_program_deployed c =
     bind_st (try_call (rpc_get_account (program_id c))) (\<lambda>program_info.
     case program_info of
       Inl _ \<Rightarrow> bind_st (path_exists PROGRAM_SO_PATH) (\<lambda>ex.
                  if \<not> ex then println Msg_deploy_program else println Msg_build_and_deploy)
     | Inr a \<Rightarrow> if \<not> executable a then println Msg_not_executable else ret ())"

definition greeting_address :: "client \<Rightarrow> pubkey prog" where
  "greeting_address c w =
     (case create_with_seed (sha256 w) (pubkey (payer c)) GREETING_SEED (program_id c) of
        Inl e \<Rightarrow> (Inl (Seed_derivation_failed e), w)
      | Inr k \<Rightarrow> (Inr k, w))"

definition create_greeting_account :: "client \<Rightarrow> pubkey \<Rightarrow> unit prog" where
  "create_greeting_account c k =
     bind_st (println (Msg_creating_account k)) (\<lambda>_.
     bind_st (call (rpc_get_minimum_balance_for_rent_exemption 4)) (\<lambda>lamports.
     (let ix = create_account_with_seed (pubkey (payer c)) k (pubkey (payer c)) GREETING_SEED
                 lamports 4 (program_id c) in
     bind_st (call rpc_get_recent_blockhash) (\<lambda>(recent_hash, _).
     bind_st (unwrap_result Signing_failed
                (new_signed_with_payer [ix] (pubkey (payer c)) [payer c] recent_hash)) (\<lambda>tx.
     bind_st (send_transaction tx) (\<lambda>_.
     ret ()))))))"

definition check_program :: "client \<Rightarrow> pubkey prog" where
  "check_program c =
     bind_st (check_program_deployed c) (\<lambda>_.
     bind_st (println (Msg_using_program (program_id c))) (\<lambda>_.
     bind_st (greeting_address c) (\<lambda>k.
     bind_st (try_call (rpc_get_account k)) (\<lambda>greet_account.
     bind_st (if isl greet_account then create_greeting_account c k else ret ()) (\<lambda>_.
     ret k)))))"

section \<open>Expected results\<close>

text \<open>The diagnostic \<open>check_program_deployed\<close> prints for the program account, the
  creation transaction as \<open>create_greeting_account\<close> signs it, the cluster after a
  transaction was sent (unchanged but for the log when it failed), and the account the
  system program creates.\<close>

definition program_diagnostic :: "world \<Rightarrow> pubkey \<Rightarrow> message list" where
  "program_diagnostic w pid =
     (case accounts (cluster w) pid of
        None \<Rightarrow> [if PROGRAM_SO_PATH \<in> set (existing_paths (host w)) then Msg_build_and_deploy else Msg_deploy_program]
      | Some a \<Rightarrow> if executable a then [] else [Msg_not_executable])"

definition creation_tx :: "client \<Rightarrow> pubkey \<Rightarrow> u64 \<Rightarrow> hash \<Rightarrow> transaction" where
  "creation_tx c k l h =
     \<lparr>tx_instructions = [create_account_with_seed (pubkey (payer c)) k (pubkey (payer c)) GREETING_SEED l 4 (program_id c)],
      tx_payer = pubkey (payer c), tx_signers = [pubkey (payer c)], tx_blockhash = h\<rparr>"

definition sent :: "hash_fn \<Rightarrow> transaction \<Rightarrow> rpc_request list \<Rightarrow> cluster \<Rightarrow> cluster" where
  "sent sha tx rs c =
     (case process_transaction sha tx c of
        Inl _ \<Rightarrow> logged rs c
      | Inr c' \<Rightarrow> c'\<lparr>rpc_log := rpc_log c @ rs\<rparr>)"

definition new_greeting_account :: "u64 \<Rightarrow> pubkey \<Rightarrow> account" where
  "new_greeting_account l pid = \<lparr>lamports = l, data = replicate 4 0, owner = pid, executable = False\<rparr>"

section \<open>The provisioner, evaluated on a calm cluster\<close>

lemma required_signers_creation:
  "required_signers [create_account_with_seed p k p s l sp own] p = [p]"
  by (simp add: required_signers_def create_account_with_seed_def account_meta_new_def
        account_meta_new_readonly_def)

lemma sign_creation:
  "pubkey kp = p \<Longrightarrow>
   new_signed_with_payer [create_account_with_seed p k p s l sp own] p [kp] h =
     Inr \<lparr>tx_instructions = [create_account_with_seed p k p s l sp own], tx_payer = p,
          tx_signers = [p], tx_blockhash = h\<rparr>"
  by (simp add: new_signed_with_payer_def required_signers_creation)

lemma check_program_deployed_calm:
  "calm (cluster w) \<Longrightarrow>
   check_program_deployed c w =
     (Inr (), w\<lparr>cluster := logged [Get_account (program_id c)] (cluster w),
               stdout := stdout w @ program_diagnostic w (program_id c)\<rparr>)"
  by (simp add: check_program_deployed_def bind_st_def try_call_apply rpc_get_account_calm
        program_diagnostic_def path_exists_def println_apply split: option.splits)

lemma create_greeting_account_calm:
  "calm (cluster w) \<Longrightarrow>
   create_greeting_account c k w =
     (Inr (), w\<lparr>cluster := sent (sha256 w) (creation_tx c k (rent_minimum (cluster w) 4) (slot (cluster w)))
                     [Get_minimum_balance_for_rent_exemption 4, Get_recent_blockhash,
                      Send_and_confirm_transaction (creation_tx c k (rent_minimum (cluster w) 4) (slot (cluster w)))]
                     (cluster w),
               stdout := stdout w @ [Msg_creating_account k]\<rparr>)"
  by (simp add: create_greeting_account_def bind_st_def call_apply println_apply
        rpc_get_minimum_balance_for_rent_exemption_calm rpc_get_recent_blockhash_calm
        sign_creation pubkey_def send_transaction_apply rpc_send_and_confirm_transaction_calm
        creation_tx_def sent_def process_transaction_log split: sum.splits)

lemma check_program_calm:
  assumes calm: "calm (cluster w)"
    and addr: "create_with_seed (sha256 w) (pubkey (payer c)) GREETING_SEED (program_id c) = Inr k"
  shows "check_program c w =
    (let c1 = logged [Get_account (program_id c), Get_account k] (cluster w);
         out = stdout w @ program_diagnostic w (program_id c) @ [Msg_using_program (program_id c)];
         tx = creation_tx c k (rent_minimum (cluster w) 4) (slot (cluster w)) in
     if accounts (cluster w) k = None then
       (Inr k, w\<lparr>cluster := sent (sha256 w) tx
                    [Get_minimum_balance_for_rent_exemption 4, Get_recent_blockhash, Send_and_confirm_transaction tx] c1,
                 stdout := out @ [Msg_creating_account k]\<rparr>)
     else (Inr k, w\<lparr>cluster := c1, stdout := out\<rparr>))"
  using calm addr
  by (simp add: check_program_def bind_st_def check_program_deployed_calm println_apply greeting_address_def
        try_call_apply rpc_get_account_calm create_greeting_account_calm Let_def split: option.splits)

lemma check_program_seed_error:
  assumes calm: "calm (cluster w)"
    and addr: "create_with_seed (sha256 w) (pubkey (payer c)) GREETING_SEED (program_id c) = Inl e"
  shows "check_program c w =
    (Inl (Seed_derivation_failed e),
     w\<lparr>cluster := logged [Get_account (program_id c)] (cluster w),
       stdout := stdout w @ program_diagnostic w (program_id c) @ [Msg_using_program (program_id c)]\<rparr>)"
  using calm addr
  by (simp add: check_program_def bind_st_def check_program_deployed_calm println_apply greeting_address_def)

lemma system_create_fresh:
  assumes addr: "create_with_seed sha p s own = Inr k"
    and kp: "k \<noteq> p" and absent: "m k = None" and pa: "m p = Some pa" and empty: "data pa = []"
    and funds: "\<not> lamports pa < l" and sp: "unat sp \<le> MAX_PERMITTED_DATA_LENGTH"
  shows "system_create_with_seed sha [p] [account_meta_new p True, account_meta_new k False, account_meta_new_readonly p True]
           (Create_account_with_seed p s l sp own) m =
         Inr (m(p \<mapsto> pa\<lparr>lamports := lamports pa - l\<rparr>,
                k \<mapsto> \<lparr>lamports = l, data = replicate (unat sp) 0, owner = own, executable = False\<rparr>))"
  using assms
  by (simp add: system_create_with_seed_def account_meta_new_def account_meta_new_readonly_def
        load_def default_account_def not_less fun_upd_twist)

lemma process_creation_tx:
  fixes c :: cluster and cl :: client
  defines "p \<equiv> pubkey (payer cl)"
  assumes age: "0 < max_age c"
    and fresh: "creation_tx cl k l (slot c) \<notin> set (ledger c)"
    and pa: "accounts c p = Some pa" and empty: "data pa = []"
    and funds: "unat (lamports_per_signature c) + unat l \<le> unat (lamports pa)"
    and addr: "create_with_seed sha p GREETING_SEED (program_id cl) = Inr k"
    and kp: "k \<noteq> p" and absent: "accounts c k = None"
  shows "process_transaction sha (creation_tx cl k l (slot c)) c =
     Inr (c\<lparr>accounts := (accounts c)(p \<mapsto> pa\<lparr>lamports := lamports pa - lamports_per_signature c - l\<rparr>,
                                     k \<mapsto> new_greeting_account l (program_id cl)),
            ledger := ledger c @ [creation_tx cl k l (slot c)]\<rparr>)"
proof -
  let ?tx = "creation_tx cl k l (slot c)" and ?lps = "lamports_per_signature c"
  let ?m1 = "(accounts c)(p \<mapsto> pa\<lparr>lamports := lamports pa - ?lps\<rparr>)"
  have fee: "tx_fee c ?tx = unat ?lps" by (simp add: tx_fee_def creation_tx_def)
  have rest: "\<not> lamports pa - ?lps < l"
    using funds by (rule word_sub_sub_not_less)
  have progs: "check_programs (accounts c) (tx_instructions ?tx) = None"
    by (simp add: creation_tx_def create_account_with_seed_def)
  have sys: "system_create_with_seed sha [p]
               [account_meta_new p True, account_meta_new k False, account_meta_new_readonly p True]
               (Create_account_with_seed p GREETING_SEED l 4 (program_id cl)) ?m1 =
             Inr (?m1(p \<mapsto> pa\<lparr>lamports := lamports pa - ?lps - l\<rparr>,
                      k \<mapsto> new_greeting_account l (program_id cl)))"
    using system_create_fresh [OF addr kp, of ?m1 "pa\<lparr>lamports := lamports pa - ?lps\<rparr>" l 4] absent kp empty rest
    by (simp add: new_greeting_account_def MAX_PERMITTED_DATA_LENGTH_def)
  have exec: "execute_instructions sha (tx_signers ?tx) 0 (tx_instructions ?tx) ?m1 =
                Inr (?m1(p \<mapsto> pa\<lparr>lamports := lamports pa - ?lps - l\<rparr>,
                         k \<mapsto> new_greeting_account l (program_id cl)))"
    using sys by (simp add: creation_tx_def execute_instruction_def create_account_with_seed_def p_def)
  have sel: "tx_blockhash ?tx = slot c" "tx_payer ?tx = p" by (simp_all add: creation_tx_def p_def)
  show ?thesis
    using age fresh pa fee progs exec funds
    by (simp add: process_transaction_def blockhash_valid_def not_less p_def sel Let_def)
qed

lemma calm_sent: "calm c \<Longrightarrow> calm (sent sha tx rs c)"
  by (auto simp: sent_def calm_def settled_def dest!: process_transaction_Inr split: sum.splits)

text \<open>C3. Idempotence of the provisioner: on a calm cluster, once the greeting account
  exists after a run of \<open>check_program\<close>, a second run returns the same address, creates
  nothing, submits no transaction (its only requests are the two account lookups) and
  leaves the accounts and the ledger unchanged.\<close>

theorem check_program_idempotent:
  fixes w :: world and c :: client and k :: pubkey
  defines "w1 \<equiv> snd (check_program c w)"
  defines "w2 \<equiv> snd (check_program c w1)"
  assumes calm: "calm (cluster w)"
    and addr: "create_with_seed (sha256 w) (pubkey (payer c)) GREETING_SEED (program_id c) = Inr k"
    and present: "accounts (cluster w1) k \<noteq> None"
  shows "fst (check_program c w1) = Inr k \<and> accounts (cluster w2) = accounts (cluster w1) \<and>
         ledger (cluster w2) = ledger (cluster w1) \<and>
         rpc_log (cluster w2) = rpc_log (cluster w1) @ [Get_account (program_id c), Get_account k]"
proof -
  have calm1: "calm (cluster w1)" and sha1: "sha256 w1 = sha256 w"
    using calm addr by (simp_all add: w1_def check_program_calm Let_def calm_sent)
  show ?thesis
    using check_program_calm [OF calm1, of c k] addr present sha1 by (simp add: w2_def Let_def)
qed

text \<open>C16. A failed creation is swallowed (a divergence from the spec, which requires a
  confirmed creation before returning and that no error be swallowed): when the
  greeting account is absent and the cluster rejects the creation transaction,
  \<open>check_program\<close> still returns the address normally, with the account still absent
  and nothing committed.\<close>

theorem check_program_ignores_failed_creation:
  assumes calm: "calm (cluster w)"
    and addr: "create_with_seed (sha256 w) (pubkey (payer c)) GREETING_SEED (program_id c) = Inr k"
    and absent: "accounts (cluster w) k = None"
    and fail: "process_transaction (sha256 w) (creation_tx c k (rent_minimum (cluster w) 4) (slot (cluster w)))
                 (cluster w) = Inl e"
  shows "fst (check_program c w) = Inr k \<and> accounts (cluster (snd (check_program c w))) k = None \<and>
    ledger (cluster (snd (check_program c w))) = ledger (cluster w)"
  using check_program_calm [OF calm addr] absent fail
  by (simp add: Let_def sent_def process_transaction_log)

text \<open>C17. A failed lookup of the greeting account is read as its absence
  (\<open>lib.rs\<close> line 130 ignores the error kind): when the cluster is unreachable just
  for that request, \<open>check_program\<close> prints that it creates the account and submits
  a creation transaction for an account that exists, then returns its address.\<close>

theorem check_program_outage_recreates:
  fixes w :: world and c :: client
  defines "cl \<equiv> cluster w"
  assumes ev: "events cl = [Idle, Outage, Restore, Idle, Idle]" and st: "settled cl" "reachable cl"
    and addr: "create_with_seed (sha256 w) (pubkey (payer c)) GREETING_SEED (program_id c) = Inr k"
    and prog: "accounts cl (program_id c) = Some pr" "executable pr"
    and present: "accounts cl k \<noteq> None"
  shows "fst (check_program c w) = Inr k \<and>
    stdout (snd (check_program c w)) = stdout w @ [Msg_using_program (program_id c), Msg_creating_account k] \<and>
    rpc_log (cluster (snd (check_program c w))) = rpc_log cl @ [Get_account (program_id c), Get_account k,
       Get_minimum_balance_for_rent_exemption 4, Get_recent_blockhash,
       Send_and_confirm_transaction (creation_tx c k (rent_minimum cl 4) (slot cl))]"
proof -
  let ?c1 = "logged [Get_account (program_id c)] (cl\<lparr>events := [Outage, Restore, Idle, Idle]\<rparr>)"
  let ?c2 = "logged [Get_account k] (?c1\<lparr>events := [Restore, Idle, Idle], reachable := False\<rparr>)"
  let ?c3 = "logged [Get_minimum_balance_for_rent_exemption 4] (?c2\<lparr>events := [Idle, Idle], reachable := True\<rparr>)"
  let ?c4 = "logged [Get_recent_blockhash] (?c3\<lparr>events := [Idle]\<rparr>)"
  let ?tx = "creation_tx c k (rent_minimum cl 4) (slot cl)"
  have s: "settled ?c1" "settled ?c2" "settled ?c3" "settled ?c4" using st by (simp_all add: settled_def)
  have r1: "rpc_get_account (program_id c) cl = (Inr pr, ?c1)"
    using ev st prog by (simp add: rpc_get_account_def rpc_settled apply_event_def)
  have r2: "rpc_get_account k ?c1 = (Inl Rpc_unreachable, ?c2)"
    using s by (simp add: rpc_get_account_def rpc_outage)
  have r3: "rpc_get_minimum_balance_for_rent_exemption 4 ?c2 = (Inr (rent_minimum cl 4), ?c3)"
    using s by (simp add: rpc_get_minimum_balance_for_rent_exemption_def rpc_restore)
  have r4: "rpc_get_recent_blockhash ?c3 = (Inr (slot cl, lamports_per_signature cl), ?c4)"
    using s st by (simp add: rpc_get_recent_blockhash_def rpc_settled apply_event_def)
  let ?c5 = "logged [Send_and_confirm_transaction ?tx] (?c4\<lparr>events := []\<rparr>)"
  have r5: "rpc_send_and_confirm_transaction (sha256 w) ?tx ?c4 =
      (case process_transaction (sha256 w) ?tx ?c5 of Inl e \<Rightarrow> (Inl (Transaction_failed e), ?c5)
       | Inr c' \<Rightarrow> (Inr (Tx_sig ?tx), c'))"
    using s st by (simp add: rpc_send_and_confirm_transaction_def rpc_settled apply_event_def cong: sum.case_cong)
  have r6: "rpc_log (snd (rpc_send_and_confirm_transaction (sha256 w) ?tx ?c4)) = rpc_log ?c5"
    unfolding r5 by (auto split: sum.splits dest: process_transaction_Inr)
  show ?thesis
    using r1 r2 r3 r4 r6 prog addr
    by (simp add: check_program_def check_program_deployed_def create_greeting_account_def greeting_address_def
        bind_st_def try_call_apply call_apply println_apply send_transaction_apply sign_creation
        creation_tx_def cl_def split: prod.splits) (metis snd_conv)
qed

end
