(* ===== verification/Invoker.thy ===== *)
theory Invoker
  imports Provisioner
begin

text \<open>
  The last two stages of the client and its entry point:
  \<^item> \<open>say_hello\<close> (\<^verbatim>\<open>Client::say_hello\<close>, lines 152--169): one instruction to the
    program with the opcode byte \<open>0\<close> and the greeting account as its only, writable,
    non-signer account, signed by the payer with a fresh blockhash; the signature of
    the confirmed transaction is unwrapped and printed;
  \<^item> \<open>report\<close> (\<^verbatim>\<open>Client::report\<close>, lines 171--175): fetch the greeting account, decode
    its data as a \<^verbatim>\<open>GreetingAccount\<close> and print the counter;
  \<^item> \<open>main\<close> (\<^verbatim>\<open>src/src/main.rs\<close>): the stages in order, each on the client the
    previous one left.
\<close>

definition hello_instruction :: "client \<Rightarrow> pubkey \<Rightarrow> instruction" where
  "hello_instruction c k = new_with_bytes (program_id c) [0] [account_meta_new k False]"

definition say_hello :: "client \<Rightarrow> pubkey \<Rightarrow> unit prog" where
  "say_hello c k =
     bind_st (println (Msg_say_hello k (program_id c))) (\<lambda>_.
     bind_st (call rpc_get_recent_blockhash) (\<lambda>(recent_hash, _).
     bind_st (unwrap_result Signing_failed
                (new_signed_with_payer [hello_instruction c k] (pubkey (payer c)) [payer c] recent_hash)) (\<lambda>tx.
     bind_st (send_transaction tx) (\<lambda>sig.
     bind_st (unwrap_result Rpc_failed sig) (\<lambda>s.
     println (Msg_said_hello s))))))"

definition report :: "client \<Rightarrow> pubkey \<Rightarrow> unit prog" where
  "report c k =
     bind_st (call (rpc_get_account k)) (\<lambda>account_info.
     bind_st (unwrap_result Decode_failed (try_from_slice (data account_info))) (\<lambda>greeting.
     println (Msg_greeted k (counter greeting))))"

definition main :: "unit prog" where
  "main =
     bind_st (println Msg_lets_say_hello) (\<lambda>_.
     bind_st client_new (\<lambda>c.
     bind_st (get_version c) (\<lambda>v.
     bind_st (unwrap_result Rpc_failed v) (\<lambda>ver.
     bind_st (println (Msg_connection_established ver)) (\<lambda>_.
     bind_st (establish_payer c) (\<lambda>c.
     bind_st (check_program c) (\<lambda>key.
     bind_st (say_hello c key) (\<lambda>_.
     bind_st (report c key) (\<lambda>_.
     println Msg_success)))))))))"

section \<open>Expected results\<close>

text \<open>The invocation transaction as \<open>say_hello\<close> signs it, and the greeting account
  after the program incremented the counter \<open>g\<close> it decoded.\<close>

definition hello_tx :: "client \<Rightarrow> pubkey \<Rightarrow> hash \<Rightarrow> transaction" where
  "hello_tx c k h =
     \<lparr>tx_instructions = [hello_instruction c k], tx_payer = pubkey (payer c),
      tx_signers = [pubkey (payer c)], tx_blockhash = h\<rparr>"

definition greeted :: "account \<Rightarrow> greeting_account \<Rightarrow> account" where
  "greeted a g = a\<lparr>data := try_to_vec (g\<lparr>counter := counter g + 1\<rparr>)\<rparr>"

section \<open>The invoker and the reporter, evaluated on a calm cluster\<close>

lemma sign_hello:
  "new_signed_with_payer [hello_instruction c k] (pubkey (payer c)) [payer c] h = Inr (hello_tx c k h)"
  by (simp add: new_signed_with_payer_def required_signers_def hello_instruction_def new_with_bytes_def
        account_meta_new_def hello_tx_def)

lemma say_hello_calm:
  "calm (cluster w) \<Longrightarrow>
   say_hello c k w =
     (let tx = hello_tx c k (slot (cluster w)); rs = [Get_recent_blockhash, Send_and_confirm_transaction tx];
          out = stdout w @ [Msg_say_hello k (program_id c)] in
      case process_transaction (sha256 w) tx (cluster w) of
        Inl e \<Rightarrow> (Inl (Rpc_failed (Transaction_failed e)), w\<lparr>cluster := logged rs (cluster w), stdout := out\<rparr>)
      | Inr c' \<Rightarrow> (Inr (), w\<lparr>cluster := c'\<lparr>rpc_log := rpc_log (cluster w) @ rs\<rparr>,
                              stdout := out @ [Msg_said_hello (Tx_sig tx)]\<rparr>))"
  by (simp add: say_hello_def bind_st_def call_apply println_apply rpc_get_recent_blockhash_calm sign_hello
        send_transaction_apply rpc_send_and_confirm_transaction_calm process_transaction_log Let_def
        split: sum.splits)

lemma report_calm:
  "calm (cluster w) \<Longrightarrow>
   report c k w =
     (case accounts (cluster w) k of
        None \<Rightarrow> (Inl (Rpc_failed (Account_not_found_rpc k)), w\<lparr>cluster := logged [Get_account k] (cluster w)\<rparr>)
      | Some a \<Rightarrow>
          (case try_from_slice (data a) of
             Inl e \<Rightarrow> (Inl (Decode_failed e), w\<lparr>cluster := logged [Get_account k] (cluster w)\<rparr>)
           | Inr g \<Rightarrow> (Inr (), w\<lparr>cluster := logged [Get_account k] (cluster w),
                                stdout := stdout w @ [Msg_greeted k (counter g)]\<rparr>)))"
  by (simp add: report_def bind_st_def call_apply rpc_get_account_calm println_apply
        split: option.splits sum.splits)

lemma helloworld_greets:
  "m k = Some a \<Longrightarrow> owner a = pid \<Longrightarrow> try_from_slice (data a) = Inr g \<Longrightarrow>
   helloworld_process pid [account_meta_new k False] m = Inr (m(k \<mapsto> greeted a g))"
  by (simp add: helloworld_process_def account_meta_new_def load_def greeted_def)

lemma process_hello_tx:
  fixes c :: cluster and cl :: client
  defines "p \<equiv> pubkey (payer cl)" and "pid \<equiv> program_id cl"
  assumes age: "0 < max_age c"
    and fresh: "hello_tx cl k (slot c) \<notin> set (ledger c)"
    and pa: "accounts c p = Some pa"
    and funds: "unat (lamports_per_signature c) \<le> unat (lamports pa)"
    and prog: "accounts c pid = Some pr" "executable pr" "pid \<noteq> system_program_id"
    and ga: "accounts c k = Some a" "owner a = pid" "try_from_slice (data a) = Inr g"
    and kp: "k \<noteq> p"
  shows "process_transaction sha (hello_tx cl k (slot c)) c =
     Inr (c\<lparr>accounts := (accounts c)(p \<mapsto> pa\<lparr>lamports := lamports pa - lamports_per_signature c\<rparr>,
                                     k \<mapsto> greeted a g),
            ledger := ledger c @ [hello_tx cl k (slot c)]\<rparr>)"
proof -
  let ?tx = "hello_tx cl k (slot c)" and ?lps = "lamports_per_signature c"
  let ?m1 = "(accounts c)(p \<mapsto> pa\<lparr>lamports := lamports pa - ?lps\<rparr>)"
  have fee: "tx_fee c ?tx = unat ?lps" by (simp add: tx_fee_def hello_tx_def)
  have sel: "tx_blockhash ?tx = slot c" "tx_payer ?tx = p" by (simp_all add: hello_tx_def p_def)
  have progs: "check_programs (accounts c) (tx_instructions ?tx) = None"
    using prog by (simp add: hello_tx_def hello_instruction_def new_with_bytes_def pid_def)
  have hw: "helloworld_process pid [account_meta_new k False] ?m1 = Inr (?m1(k \<mapsto> greeted a g))"
    using ga kp by (simp add: helloworld_greets)
  have exec: "execute_instructions sha (tx_signers ?tx) 0 (tx_instructions ?tx) ?m1 =
                Inr (?m1(k \<mapsto> greeted a g))"
    using hw prog by (simp add: hello_tx_def execute_instruction_def hello_instruction_def new_with_bytes_def pid_def)
  show ?thesis
    using age fresh pa fee progs exec funds
    by (simp add: process_transaction_def blockhash_valid_def not_less sel Let_def)
qed

lemma process_hello_tx_foreign:
  fixes c :: cluster and cl :: client
  defines "p \<equiv> pubkey (payer cl)" and "pid \<equiv> program_id cl"
  assumes age: "0 < max_age c"
    and fresh: "hello_tx cl k (slot c) \<notin> set (ledger c)"
    and pa: "accounts c p = Some pa"
    and funds: "unat (lamports_per_signature c) \<le> unat (lamports pa)"
    and prog: "accounts c pid = Some pr" "executable pr" "pid \<noteq> system_program_id"
    and ga: "accounts c k = Some a" "owner a \<noteq> pid"
    and kp: "k \<noteq> p"
  shows "process_transaction sha (hello_tx cl k (slot c)) c = Inl (Instruction_error 0 Incorrect_program_id)"
proof -
  let ?tx = "hello_tx cl k (slot c)" and ?lps = "lamports_per_signature c"
  let ?m1 = "(accounts c)(p \<mapsto> pa\<lparr>lamports := lamports pa - ?lps\<rparr>)"
  have fee: "tx_fee c ?tx = unat ?lps" by (simp add: tx_fee_def hello_tx_def)
  have sel: "tx_blockhash ?tx = slot c" "tx_payer ?tx = p" by (simp_all add: hello_tx_def p_def)
  have progs: "check_programs (accounts c) (tx_instructions ?tx) = None"
    using prog by (simp add: hello_tx_def hello_instruction_def new_with_bytes_def pid_def)
  have exec: "execute_instructions sha (tx_signers ?tx) 0 (tx_instructions ?tx) ?m1 =
                Inl (Instruction_error 0 Incorrect_program_id)"
    using ga kp prog
    by (simp add: hello_tx_def execute_instruction_def hello_instruction_def new_with_bytes_def pid_def
          helloworld_process_def account_meta_new_def load_def)
  show ?thesis
    using age fresh pa fee progs exec funds
    by (simp add: process_transaction_def blockhash_valid_def not_less sel Let_def)
qed

text \<open>C7. Scenario D, the blockhash expires between fetch and submission: when the
  cluster advances by at least the blockhash lifetime after the invoker fetched its
  blockhash, the cluster rejects the greeting transaction with \<open>BlockhashNotFound\<close>,
  which the invoker surfaces unchanged as a panic; nothing is committed, and the rest
  of \<open>main\<close> after the invoker (the state reporter and the success line) does not run.\<close>

theorem stale_blockhash_aborts_invocation:
  fixes w :: world and c :: client and k :: pubkey
  defines "cl \<equiv> cluster w"
  assumes ev: "events cl = [Idle, Advance_slots n]" and st: "settled cl" "reachable cl"
    and age: "max_age cl \<le> n"
  shows "say_hello c k w =
           (Inl (Rpc_failed (Transaction_failed Blockhash_not_found)),
            w\<lparr>cluster := cl\<lparr>slot := slot cl + n, events := [],
                             rpc_log := rpc_log cl @ [Get_recent_blockhash,
                                          Send_and_confirm_transaction (hello_tx c k (slot cl))]\<rparr>,
              stdout := stdout w @ [Msg_say_hello k (program_id c)]\<rparr>) \<and>
         bind_st (say_hello c k) (\<lambda>_. bind_st (report c k) (\<lambda>_. println Msg_success)) w = say_hello c k w"
proof -
  let ?c1 = "logged [Get_recent_blockhash] (cl\<lparr>events := [Advance_slots n]\<rparr>)"
  have s1: "settled ?c1" using st by (simp add: settled_def)
  have bh: "rpc_get_recent_blockhash cl = (Inr (slot cl, lamports_per_signature cl), ?c1)"
    using ev st by (simp add: rpc_get_recent_blockhash_def rpc_settled apply_event_def)
  have send: "rpc_send_and_confirm_transaction (sha256 w) (hello_tx c k (slot cl)) ?c1 =
     (Inl (Transaction_failed Blockhash_not_found),
      logged [Send_and_confirm_transaction (hello_tx c k (slot cl))] (?c1\<lparr>slot := slot cl + n, events := []\<rparr>))"
    using s1 st age hello_tx_def [of c k "slot cl"]
    by (simp add: rpc_send_and_confirm_transaction_def rpc_settled apply_event_def process_transaction_def
          blockhash_valid_def)
  have r: "say_hello c k w =
           (Inl (Rpc_failed (Transaction_failed Blockhash_not_found)),
            w\<lparr>cluster := cl\<lparr>slot := slot cl + n, events := [],
                             rpc_log := rpc_log cl @ [Get_recent_blockhash,
                                          Send_and_confirm_transaction (hello_tx c k (slot cl))]\<rparr>,
              stdout := stdout w @ [Msg_say_hello k (program_id c)]\<rparr>)"
    using bh send
    by (simp add: say_hello_def bind_st_def println_apply call_apply sign_hello send_transaction_apply cl_def)
  then show ?thesis by (simp add: bind_st_def)
qed

lemma hello_tx_exec:
  "execute_instructions sha signers 0 (tx_instructions (hello_tx c k h)) m = Inr m' \<Longrightarrow>
   \<exists>a g. load m k = a \<and> try_from_slice (data a) = Inr g \<and>
     m' = m(k \<mapsto> a\<lparr>data := try_to_vec (g\<lparr>counter := counter g + 1\<rparr>)\<rparr>)"
  by (auto simp: hello_tx_def hello_instruction_def new_with_bytes_def execute_instruction_def
      helloworld_process_def account_meta_new_def Let_def split: if_splits sum.splits)

text \<open>C9. Refinement of the abstract counter: on a calm cluster, whenever
  \<open>say_hello\<close> succeeds the greeting account held a decodable counter n before, holds
  (n + 1) mod 2^32 after (the abstract increment, with the program's wrap-around), and
  no other account's data changed: the counter is incremented exactly once per
  successful call.\<close>

theorem say_hello_increments:
  assumes calm: "calm (cluster w)" and ok: "say_hello c k w = (Inr (), w')"
  shows "greeting_count (data (load (accounts (cluster w)) k)) \<noteq> None \<and>
    greeting_count (data (load (accounts (cluster w')) k)) =
      map_option (\<lambda>n. (n + 1) mod 2 ^ 32) (greeting_count (data (load (accounts (cluster w)) k))) \<and>
    (\<forall>x. x \<noteq> k \<longrightarrow> data (load (accounts (cluster w')) x) = data (load (accounts (cluster w)) x))"
proof -
  let ?tx = "hello_tx c k (slot (cluster w))"
  obtain c' where proc: "process_transaction (sha256 w) ?tx (cluster w) = Inr c'"
    and acc: "accounts (cluster w') = accounts c'"
    using ok say_hello_calm [OF calm, of c k] by (auto simp: Let_def split: sum.splits)
  obtain pa where pa: "accounts (cluster w) (tx_payer ?tx) = Some pa"
    and ex: "execute_instructions (sha256 w) (tx_signers ?tx) 0 (tx_instructions ?tx)
       ((accounts (cluster w))(tx_payer ?tx \<mapsto> pa\<lparr>lamports := lamports pa - of_nat (tx_fee (cluster w) ?tx)\<rparr>)) =
       Inr (accounts c')"
    using process_transaction_Inr_exec [OF proc] by blast
  let ?m1 = "(accounts (cluster w))(tx_payer ?tx \<mapsto> pa\<lparr>lamports := lamports pa - of_nat (tx_fee (cluster w) ?tx)\<rparr>)"
  have same: "data (load ?m1 x) = data (load (accounts (cluster w)) x)" for x
    using pa by (simp add: load_def)
  obtain a g where a: "load ?m1 k = a" "try_from_slice (data a) = Inr g"
    and m': "accounts c' = ?m1(k \<mapsto> a\<lparr>data := try_to_vec (g\<lparr>counter := counter g + 1\<rparr>)\<rparr>)"
    using hello_tx_exec [OF ex] by blast
  have d: "data a = data (load (accounts (cluster w)) k)" using a(1) same [of k] by simp
  show ?thesis
    using a(2) d greeting_count_increment [OF a(2)] same
    by (auto simp: acc m' greeting_count_def load_def)
qed

text \<open>C18. The reporter does not check who owns the account it reads (\<^verbatim>\<open>lib.rs\<close>
  lines 171--175): on an account of another program whose data happen to be four
  bytes, \<open>report\<close> succeeds and prints the little-endian value of those bytes as the
  greeting count.\<close>

theorem report_ignores_owner:
  assumes calm: "calm (cluster w)" and acc: "accounts (cluster w) k = Some a"
    and foreign: "owner a \<noteq> program_id c" and len: "length (data a) = 4"
  shows "report c k w =
    (Inr (), w\<lparr>cluster := logged [Get_account k] (cluster w),
               stdout := stdout w @ [Msg_greeted k (word_of_nat (le_value (data a)))]\<rparr>)"
proof -
  have "le_value (data a) = unat (u32_from_le_bytes (data a))"
    using unat_u32_from_le_bytes [of "data a"] len by simp
  then have "word_of_nat (le_value (data a)) = u32_from_le_bytes (data a)"
    by simp
  then show ?thesis
    using report_calm [OF calm, of c k] acc len by (simp add: try_from_slice_length4)
qed

end
