(* ===== verification/Workflow.thy ===== *)
theory Workflow
  imports Invoker
begin

text \<open>
  The stages of \<^verbatim>\<open>main\<close> (\<^verbatim>\<open>src/src/main.rs\<close>) evaluated on a calm cluster and
  composed: \<open>client_new\<close>, \<open>get_version\<close> and \<open>get_payer\<close> on each branch,
  \<open>establish_payer\<close> from its three steps, \<open>check_program\<close> when it creates the
  greeting account, \<open>say_hello\<close> and \<open>report\<close> on a deployed program. Each lemma
  gives the exact result and the exact world after the stage (requests logged, lines
  printed, accounts and ledger changed), so that an end-to-end run of \<open>main\<close> is the
  composition, by \<open>main_prefix\<close>, of the stage lemmas. The fee lemmas show that
  the estimate (rent plus a hundred signatures) pays for both transactions of a run.
  The last theorem runs \<open>main\<close> against a cluster that is down.
\<close>


lemma client_new_ok:
  "config_file (host w) = Some cp \<Longrightarrow> config_files (host w) cp = Some cfg \<Longrightarrow>
   keypair_files (host w) PROGRAM_KEYPAIR_PATH = Some pk \<Longrightarrow>
   client_new w =
     (Inr \<lparr>config = cfg, connection = \<lparr>url = json_rpc_url cfg, commitment = Confirmed\<rparr>,
           payer = entropy (host w) (draws (host w)), program_id = pubkey pk\<rparr>,
      w\<lparr>host := (host w)\<lparr>draws := Suc (draws (host w))\<rparr>,
        stdout := stdout w @ [Msg_get_config cfg, Msg_connecting (json_rpc_url cfg)]\<rparr>)"
  by (simp add: client_new_def bind_st_def println_apply keypair_new_def read_keypair_file_def)

lemma get_version_calm:
  "calm (cluster w) \<Longrightarrow>
   get_version c w = (Inr (Inr (version (cluster w))), w\<lparr>cluster := logged [Get_version] (cluster w)\<rparr>)"
  by (simp add: get_version_def try_call_apply rpc_get_version_calm)

lemma get_payer_fallback:
  "keypair_path (config c) = [] \<Longrightarrow>
   get_payer c w =
     (Inr (entropy (host w) (draws (host w))),
      w\<lparr>stdout := stdout w @ [Msg_fallback_keypair], host := (host w)\<lparr>draws := Suc (draws (host w))\<rparr>\<rparr>)"
  by (simp add: get_payer_def bind_st_def println_apply keypair_new_def)

lemma get_payer_file:
  "keypair_path (config c) \<noteq> [] \<Longrightarrow> keypair_files (host w) (keypair_path (config c)) = Some kp \<Longrightarrow>
   get_payer c w = (Inr kp, w)"
  by (simp add: get_payer_def read_keypair_file_def)

lemma establish_payer_steps:
  assumes "calm (cluster w)" and "fee_estimate (cluster w) = Some fees"
    and "get_payer c (w\<lparr>cluster := logged [Get_recent_blockhash, Get_minimum_balance_for_rent_exemption 4] (cluster w),
                         stdout := stdout w @ [Msg_greeting_size 4]\<rparr>) = (Inr kp, wa)"
    and "fund_payer (pubkey kp) fees wa = (Inr b, wb)"
  shows "establish_payer c w = (Inr (c\<lparr>payer := kp\<rparr>), wb)"
  using assms by (simp add: establish_payer_def bind_st_def estimate_fees_calm)

lemma main_stages:
  assumes "client_new (w\<lparr>stdout := stdout w @ [Msg_lets_say_hello]\<rparr>) = (Inr c0, w1)"
    and "get_version c0 w1 = (Inr (Inr ver), w2)"
    and "establish_payer c0 (w2\<lparr>stdout := stdout w2 @ [Msg_connection_established ver]\<rparr>) = (Inr c1, w3)"
  shows "main w = bind_st (check_program c1) (\<lambda>key. bind_st (say_hello c1 key) (\<lambda>_.
                    bind_st (report c1 key) (\<lambda>_. println Msg_success))) w3"
  using assms by (simp add: main_def bind_st_def println_apply)

lemma check_program_creates:
  fixes w :: world and c :: client and k :: pubkey
  defines "p \<equiv> pubkey (payer c)" and "pid \<equiv> program_id c" and "cl \<equiv> cluster w"
  defines "tx \<equiv> creation_tx c k (rent_minimum cl 4) (slot cl)"
  assumes calm: "calm cl" and age: "0 < max_age cl"
    and addr: "create_with_seed (sha256 w) p GREETING_SEED pid = Inr k"
    and kp: "k \<noteq> p" and absent: "accounts cl k = None"
    and pa: "accounts cl p = Some pa" and empty: "data pa = []"
    and funds: "unat (lamports_per_signature cl) + unat (rent_minimum cl 4) \<le> unat (lamports pa)"
    and fresh: "tx \<notin> set (ledger cl)"
  shows "check_program c w =
    (Inr k, w\<lparr>cluster := cl\<lparr>accounts := (accounts cl)(p \<mapsto> pa\<lparr>lamports := lamports pa - lamports_per_signature cl - rent_minimum cl 4\<rparr>,
                                                k \<mapsto> new_greeting_account (rent_minimum cl 4) pid),
                             ledger := ledger cl @ [tx],
                             rpc_log := rpc_log cl @ [Get_account pid, Get_account k,
                                  Get_minimum_balance_for_rent_exemption 4, Get_recent_blockhash,
                                  Send_and_confirm_transaction tx]\<rparr>,
              stdout := stdout w @ program_diagnostic w pid @ [Msg_using_program pid, Msg_creating_account k]\<rparr>)"
proof -
  have proc: "process_transaction (sha256 w) tx cl =
     Inr (cl\<lparr>accounts := (accounts cl)(p \<mapsto> pa\<lparr>lamports := lamports pa - lamports_per_signature cl - rent_minimum cl 4\<rparr>,
                                      k \<mapsto> new_greeting_account (rent_minimum cl 4) pid),
             ledger := ledger cl @ [tx]\<rparr>)"
    using process_creation_tx [where c = cl and cl = c and k = k and l = "rent_minimum cl 4" and pa = pa
                                 and sha = "sha256 w"] age fresh pa empty funds addr kp absent
    by (simp add: tx_def p_def pid_def)
  show ?thesis
    using check_program_calm [OF calm [unfolded cl_def] addr [unfolded p_def pid_def]] proc absent
    by (simp add: sent_def process_transaction_log Let_def tx_def cl_def p_def pid_def)
qed

lemma say_hello_ok:
  fixes w :: world and c :: client and k :: pubkey
  defines "p \<equiv> pubkey (payer c)" and "pid \<equiv> program_id c" and "cl \<equiv> cluster w"
  defines "tx \<equiv> hello_tx c k (slot cl)"
  assumes calm: "calm cl" and age: "0 < max_age cl"
    and fresh: "tx \<notin> set (ledger cl)"
    and pa: "accounts cl p = Some pa"
    and funds: "unat (lamports_per_signature cl) \<le> unat (lamports pa)"
    and prog: "accounts cl pid = Some pr" "executable pr" "pid \<noteq> system_program_id"
    and ga: "accounts cl k = Some a" "owner a = pid" "try_from_slice (data a) = Inr g"
    and kp: "k \<noteq> p"
  shows "say_hello c k w =
    (Inr (), w\<lparr>cluster := cl\<lparr>accounts := (accounts cl)(p \<mapsto> pa\<lparr>lamports := lamports pa - lamports_per_signature cl\<rparr>,
                                                k \<mapsto> greeted a g),
                             ledger := ledger cl @ [tx],
                             rpc_log := rpc_log cl @ [Get_recent_blockhash, Send_and_confirm_transaction tx]\<rparr>,
              stdout := stdout w @ [Msg_say_hello k pid, Msg_said_hello (Tx_sig tx)]\<rparr>)"
proof -
  have proc: "process_transaction (sha256 w) tx cl =
     Inr (cl\<lparr>accounts := (accounts cl)(p \<mapsto> pa\<lparr>lamports := lamports pa - lamports_per_signature cl\<rparr>,
                                      k \<mapsto> greeted a g),
             ledger := ledger cl @ [tx]\<rparr>)"
    using process_hello_tx [where c = cl and cl = c and k = k and pa = pa and pr = pr and a = a and g = g
                              and sha = "sha256 w"] age fresh pa funds prog ga kp
    by (simp add: tx_def p_def pid_def)
  show ?thesis
    using say_hello_calm [of w c k] calm proc
    by (simp add: Let_def tx_def cl_def pid_def)
qed

lemma report_ok:
  "calm (cluster w) \<Longrightarrow> accounts (cluster w) k = Some a \<Longrightarrow> try_from_slice (data a) = Inr g \<Longrightarrow>
   report c k w = (Inr (), w\<lparr>cluster := logged [Get_account k] (cluster w),
                             stdout := stdout w @ [Msg_greeted k (counter g)]\<rparr>)"
  by (simp add: report_calm)


lemma fee_estimate_unat:
  "fee_estimate c = Some f \<Longrightarrow>
   unat f = unat (rent_minimum c 4) + unat (lamports_per_signature c) * 100"
proof -
  let ?l = "lamports_per_signature c" and ?r = "rent_minimum c 4"
  assume "fee_estimate c = Some f"
  then have b1: "unat ?l * 100 < 2 ^ 64" and b2: "unat ?r + unat ?l * 100 < 2 ^ 64"
    and f: "f = ?r + ?l * 100"
    by (simp_all add: fee_estimate_Some)
  from b1 have m: "unat (?l * 100) = unat ?l * 100"
    using unat_mult_lem [of ?l "100::u64"] by simp
  with b2 have "unat (?r + ?l * 100) = unat ?r + unat ?l * 100"
    using unat_add_lem [of ?r "?l * 100"] by simp
  with f show ?thesis by simp
qed

lemma fee_estimate_covers:
  assumes "fee_estimate c = Some f"
  shows "unat (lamports_per_signature c) + unat (rent_minimum c 4) \<le> unat f"
    and "unat (lamports_per_signature c) \<le> unat (f - lamports_per_signature c - rent_minimum c 4)"
proof -
  let ?l = "lamports_per_signature c" and ?r = "rent_minimum c 4"
  have u: "unat f = unat ?r + unat ?l * 100" using assms by (rule fee_estimate_unat)
  then show le: "unat ?l + unat ?r \<le> unat f" by simp
  have "?l \<le> f" using u by (simp add: word_le_nat_alt)
  then have d1: "unat (f - ?l) = unat f - unat ?l" by (simp add: unat_sub)
  then have "?r \<le> f - ?l" using u by (simp add: word_le_nat_alt)
  then have "unat (f - ?l - ?r) = unat f - unat ?l - unat ?r" using d1 by (simp add: unat_sub)
  with u show "unat ?l \<le> unat (f - ?l - ?r)" by simp
qed

lemma calm_funded: "calm c \<Longrightarrow> calm (funded k f c)"
  by (simp add: funded_def Let_def calm_def settled_def)


lemma fee_estimate_cong:
  "lamports_per_signature c' = lamports_per_signature c \<Longrightarrow> rent_minimum c' = rent_minimum c \<Longrightarrow>
   fee_estimate c' = fee_estimate c"
  by (simp add: fee_estimate_def cong: option.case_cong)

lemma main_prefix:
  fixes w :: world and cfg :: config and pid :: pubkey
  defines "h \<equiv> host w" and "c \<equiv> cluster w"
  defines "c0 \<equiv> \<lparr>config = cfg, connection = \<lparr>url = json_rpc_url cfg, commitment = Confirmed\<rparr>,
                 payer = entropy h (draws h), program_id = pid\<rparr>"
  defines "wg \<equiv> w\<lparr>host := h\<lparr>draws := Suc (draws h)\<rparr>,
                  cluster := logged [Get_version, Get_recent_blockhash, Get_minimum_balance_for_rent_exemption 4] c,
                  stdout := stdout w @ [Msg_lets_say_hello, Msg_get_config cfg, Msg_connecting (json_rpc_url cfg),
                                        Msg_connection_established (version c), Msg_greeting_size 4]\<rparr>"
  assumes "config_file h = Some cp" "config_files h cp = Some cfg"
    and "keypair_files h PROGRAM_KEYPAIR_PATH = Some (Keypair pid)"
    and "calm c" "fee_estimate c = Some fees"
    and "get_payer c0 wg = (Inr kp, wp)" "fund_payer (pubkey kp) fees wp = (Inr b, wq)"
  shows "main w = bind_st (check_program (c0\<lparr>payer := kp\<rparr>)) (\<lambda>key. bind_st (say_hello (c0\<lparr>payer := kp\<rparr>) key) (\<lambda>_.
                    bind_st (report (c0\<lparr>payer := kp\<rparr>) key) (\<lambda>_. println Msg_success))) wq"
proof (rule main_stages)
  let ?w1 = "w\<lparr>stdout := stdout w @ [Msg_lets_say_hello, Msg_get_config cfg, Msg_connecting (json_rpc_url cfg)],
               host := h\<lparr>draws := Suc (draws h)\<rparr>\<rparr>"
  show "client_new (w\<lparr>stdout := stdout w @ [Msg_lets_say_hello]\<rparr>) = (Inr c0, ?w1)"
    using client_new_ok [of "w\<lparr>stdout := stdout w @ [Msg_lets_say_hello]\<rparr>" cp cfg "Keypair pid"] assms(5-7)
    by (simp add: c0_def h_def)
  show "get_version c0 ?w1 = (Inr (Inr (version c)), ?w1\<lparr>cluster := logged [Get_version] c\<rparr>)"
    using get_version_calm [of ?w1 c0] assms(8) by (simp add: c_def)
  show "establish_payer c0 (?w1\<lparr>cluster := logged [Get_version] c,
          stdout := stdout (?w1\<lparr>cluster := logged [Get_version] c\<rparr>) @ [Msg_connection_established (version c)]\<rparr>) =
        (Inr (c0\<lparr>payer := kp\<rparr>), wq)"
  proof (rule establish_payer_steps [where kp = kp and wa = wp and b = b and fees = fees])
    show "fee_estimate (cluster (?w1\<lparr>cluster := logged [Get_version] c,
          stdout := stdout (?w1\<lparr>cluster := logged [Get_version] c\<rparr>) @ [Msg_connection_established (version c)]\<rparr>)) = Some fees"
      using assms(9) fee_estimate_cong [of "logged [Get_version] c" c] by simp
  qed (use assms(8,10,11) in \<open>simp_all add: wg_def c_def\<close>)
qed

lemma provision_greet_report:
  fixes w :: world and c :: client and k :: pubkey
  defines "p \<equiv> pubkey (payer c)" and "pid \<equiv> program_id c" and "cl \<equiv> cluster w"
  defines "l \<equiv> rent_minimum cl 4" and "lps \<equiv> lamports_per_signature cl"
  defines "ctx \<equiv> creation_tx c k l (slot cl)" and "htx \<equiv> hello_tx c k (slot cl)"
  assumes calm: "calm cl" and age: "0 < max_age cl"
    and addr: "create_with_seed (sha256 w) p GREETING_SEED pid = Inr k"
    and dist: "k \<noteq> p" "pid \<noteq> p" and absent: "accounts cl k = None"
    and pa: "accounts cl p = Some pa" "data pa = []"
    and funds: "unat lps + unat l \<le> unat (lamports pa)" "unat lps \<le> unat (lamports pa - lps - l)"
    and fresh: "\<forall>tx\<in>set (ledger cl). tx_payer tx \<noteq> p"
    and prog: "accounts cl pid = Some pr" "executable pr" "pid \<noteq> system_program_id"
  shows "\<exists>w4 w5 w6. check_program c w = (Inr k, w4) \<and> say_hello c k w4 = (Inr (), w5) \<and>
     report c k w5 = (Inr (), w6) \<and>
     rpc_log (cluster w6) = rpc_log cl @ [Get_account pid, Get_account k, Get_minimum_balance_for_rent_exemption 4,
        Get_recent_blockhash, Send_and_confirm_transaction ctx, Get_recent_blockhash,
        Send_and_confirm_transaction htx, Get_account k] \<and>
     stdout w6 = stdout w @ [Msg_using_program pid, Msg_creating_account k, Msg_say_hello k pid,
        Msg_said_hello (Tx_sig htx), Msg_greeted k 1] \<and>
     ledger (cluster w6) = ledger cl @ [ctx, htx] \<and>
     accounts (cluster w6) k = Some ((new_greeting_account l pid)\<lparr>data := try_to_vec \<lparr>counter = 1\<rparr>\<rparr>) \<and>
     accounts (cluster w6) p = Some (pa\<lparr>lamports := lamports pa - lps - l - lps\<rparr>) \<and>
     (\<forall>x. x \<noteq> p \<longrightarrow> x \<noteq> k \<longrightarrow> accounts (cluster w6) x = accounts cl x)"
proof -
  let ?pa = "pa\<lparr>lamports := lamports pa - lps - l\<rparr>" and ?ga = "new_greeting_account l pid"
  define w4 where "w4 = snd (check_program c w)"
  have diag: "program_diagnostic w pid = []" using prog by (simp add: program_diagnostic_def cl_def)
  have fresh1: "ctx \<notin> set (ledger cl)" using fresh by (auto simp: ctx_def creation_tx_def p_def)
  have s4: "check_program c w = (Inr k, w4)"
    and cl4: "cluster w4 = cl\<lparr>accounts := (accounts cl)(p \<mapsto> ?pa, k \<mapsto> ?ga), ledger := ledger cl @ [ctx],
                rpc_log := rpc_log cl @ [Get_account pid, Get_account k, Get_minimum_balance_for_rent_exemption 4,
                                         Get_recent_blockhash, Send_and_confirm_transaction ctx]\<rparr>"
    and out4: "stdout w4 = stdout w @ [Msg_using_program pid, Msg_creating_account k]"
    and sha4: "sha256 w4 = sha256 w"
    using check_program_creates [of w c k pa] calm age addr dist absent pa funds fresh1 diag
    by (simp_all add: w4_def p_def pid_def cl_def l_def lps_def ctx_def)
  have kpid: "k \<noteq> pid" using absent prog by auto
  have calm4: "calm (cluster w4)" using calm by (simp add: cl4 calm_def settled_def)
  define w5 where "w5 = snd (say_hello c k w4)"
  have fresh2: "htx \<notin> set (ledger (cluster w4))"
    using fresh by (auto simp: cl4 htx_def hello_tx_def ctx_def creation_tx_def p_def hello_instruction_def
                               new_with_bytes_def create_account_with_seed_def)
  have s5: "say_hello c k w4 = (Inr (), w5)"
    and cl5: "cluster w5 = (cluster w4)\<lparr>accounts := (accounts (cluster w4))(p \<mapsto> ?pa\<lparr>lamports := lamports ?pa - lps\<rparr>,
                k \<mapsto> greeted ?ga \<lparr>counter = 0\<rparr>), ledger := ledger (cluster w4) @ [htx],
                rpc_log := rpc_log (cluster w4) @ [Get_recent_blockhash, Send_and_confirm_transaction htx]\<rparr>"
    and out5: "stdout w5 = stdout w4 @ [Msg_say_hello k pid, Msg_said_hello (Tx_sig htx)]"
    using say_hello_ok [of w4 c k ?pa pr ?ga "\<lparr>counter = 0\<rparr>"] calm4 age fresh2 funds prog dist kpid
    by (simp_all add: w5_def cl4 p_def pid_def cl_def l_def lps_def htx_def new_greeting_account_def)
  have dec: "try_from_slice (data (greeted ?ga \<lparr>counter = 0\<rparr>)) = Inr \<lparr>counter = 1\<rparr>"
    by (simp add: greeted_def)
  have s6: "report c k w5 = (Inr (), w5\<lparr>cluster := logged [Get_account k] (cluster w5),
                                       stdout := stdout w5 @ [Msg_greeted k 1]\<rparr>)"
    using report_ok [OF _ _ dec, of w5 k c] calm4 by (simp add: cl5 calm_def settled_def)
  show ?thesis
    using s4 s5 s6 dist by (auto simp: cl5 cl4 out5 out4 greeted_def new_greeting_account_def)
qed

lemma greet_existing_report:
  fixes w :: world and c :: client and k :: pubkey
  defines "p \<equiv> pubkey (payer c)" and "pid \<equiv> program_id c" and "cl \<equiv> cluster w"
  defines "lps \<equiv> lamports_per_signature cl" and "htx \<equiv> hello_tx c k (slot cl)"
  assumes calm: "calm cl" and age: "0 < max_age cl"
    and addr: "create_with_seed (sha256 w) p GREETING_SEED pid = Inr k" and kp: "k \<noteq> p"
    and ga: "accounts cl k = Some a" "owner a = pid" "try_from_slice (data a) = Inr g"
    and pa: "accounts cl p = Some pa" and funds: "unat lps \<le> unat (lamports pa)"
    and fresh: "htx \<notin> set (ledger cl)"
    and prog: "accounts cl pid = Some pr" "executable pr" "pid \<noteq> system_program_id"
  shows "\<exists>w4 w5 w6. check_program c w = (Inr k, w4) \<and> say_hello c k w4 = (Inr (), w5) \<and>
     report c k w5 = (Inr (), w6) \<and>
     rpc_log (cluster w6) = rpc_log cl @ [Get_account pid, Get_account k, Get_recent_blockhash,
        Send_and_confirm_transaction htx, Get_account k] \<and>
     stdout w6 = stdout w @ [Msg_using_program pid, Msg_say_hello k pid, Msg_said_hello (Tx_sig htx),
        Msg_greeted k (counter g + 1)] \<and>
     ledger (cluster w6) = ledger cl @ [htx] \<and> airdrops (cluster w6) = airdrops cl \<and>
     accounts (cluster w6) k = Some (greeted a g) \<and>
     accounts (cluster w6) p = Some (pa\<lparr>lamports := lamports pa - lps\<rparr>) \<and>
     (\<forall>x. x \<noteq> p \<longrightarrow> x \<noteq> k \<longrightarrow> accounts (cluster w6) x = accounts cl x)"
proof -
  define w4 where "w4 = w\<lparr>cluster := logged [Get_account pid, Get_account k] cl,
                           stdout := stdout w @ [Msg_using_program pid]\<rparr>"
  have diag: "program_diagnostic w pid = []" using prog by (simp add: program_diagnostic_def cl_def)
  have s4: "check_program c w = (Inr k, w4)"
    using check_program_calm [of w c k] calm addr ga diag by (simp add: w4_def p_def pid_def cl_def)
  define w5 where "w5 = snd (say_hello c k w4)"
  have s5: "say_hello c k w4 = (Inr (), w5)"
    and cl5: "cluster w5 = (cluster w4)\<lparr>accounts := (accounts (cluster w4))(p \<mapsto> pa\<lparr>lamports := lamports pa - lps\<rparr>,
                k \<mapsto> greeted a g), ledger := ledger (cluster w4) @ [htx],
                rpc_log := rpc_log (cluster w4) @ [Get_recent_blockhash, Send_and_confirm_transaction htx]\<rparr>"
    and out5: "stdout w5 = stdout w4 @ [Msg_say_hello k pid, Msg_said_hello (Tx_sig htx)]"
    using say_hello_ok [of w4 c k pa pr a g] calm age fresh pa funds prog ga kp
    by (simp_all add: w5_def w4_def p_def pid_def cl_def lps_def htx_def)
  have dec: "try_from_slice (data (greeted a g)) = Inr (g\<lparr>counter := counter g + 1\<rparr>)"
    by (simp add: greeted_def)
  have s6: "report c k w5 = (Inr (), w5\<lparr>cluster := logged [Get_account k] (cluster w5),
                                       stdout := stdout w5 @ [Msg_greeted k (counter g + 1)]\<rparr>)"
    using report_ok [OF _ _ dec, of w5 k c] calm by (simp add: cl5 w4_def cl_def calm_def settled_def)
  show ?thesis
    using s4 s5 s6 kp by (auto simp: cl5 out5 w4_def)
qed

lemma main_returning_prefix:
  fixes w :: world and cfg :: config and pid :: pubkey and fees :: u64 and kp :: keypair
  defines "h \<equiv> host w" and "c \<equiv> cluster w" and "p \<equiv> pubkey kp"
  defines "cl \<equiv> \<lparr>config = cfg, connection = \<lparr>url = json_rpc_url cfg, commitment = Confirmed\<rparr>,
                 payer = kp, program_id = pid\<rparr>"
  assumes cfg: "config_file h = Some cp" "config_files h cp = Some cfg" "keypair_path cfg \<noteq> []"
      "keypair_files h (keypair_path cfg) = Some kp"
    and progkey: "keypair_files h PROGRAM_KEYPAIR_PATH = Some (Keypair pid)"
    and calm: "calm c" and fees: "fee_estimate c = Some fees"
    and pa: "accounts c p = Some pa" and enough: "fees \<le> lamports pa"
  shows "main w = bind_st (check_program cl) (\<lambda>key. bind_st (say_hello cl key) (\<lambda>_.
                    bind_st (report cl key) (\<lambda>_. println Msg_success)))
    (w\<lparr>host := h\<lparr>draws := Suc (draws h)\<rparr>,
       cluster := logged [Get_version, Get_recent_blockhash, Get_minimum_balance_for_rent_exemption 4, Get_balance p] c,
       stdout := stdout w @ [Msg_lets_say_hello, Msg_get_config cfg, Msg_connecting (json_rpc_url cfg),
                             Msg_connection_established (version c), Msg_greeting_size 4,
                             Msg_using_account p (lamports pa div LAMPORTS_PER_SOL)]\<rparr>)"
proof -
  let ?c0 = "\<lparr>config = cfg, connection = \<lparr>url = json_rpc_url cfg, commitment = Confirmed\<rparr>,
              payer = entropy h (draws h), program_id = pid\<rparr>"
  let ?wg = "w\<lparr>host := h\<lparr>draws := Suc (draws h)\<rparr>,
                cluster := logged [Get_version, Get_recent_blockhash, Get_minimum_balance_for_rent_exemption 4] c,
                stdout := stdout w @ [Msg_lets_say_hello, Msg_get_config cfg, Msg_connecting (json_rpc_url cfg),
                                      Msg_connection_established (version c), Msg_greeting_size 4]\<rparr>"
  have gp: "get_payer ?c0 ?wg = (Inr kp, ?wg)"
    using cfg(3,4) by (simp add: get_payer_file h_def)
  have bal: "balance_of (cluster ?wg) p = lamports pa" using pa by (simp add: balance_of_def load_def c_def)
  have fp: "fund_payer p fees ?wg = (Inr (lamports pa), ?wg\<lparr>cluster := logged [Get_balance p] (cluster ?wg),
              stdout := stdout ?wg @ [Msg_using_account p (lamports pa div LAMPORTS_PER_SOL)]\<rparr>)"
    using fund_payer_sufficient [of ?wg p fees] calm enough bal by (simp add: c_def not_less)
  show ?thesis
    using main_prefix [where w = w and cfg = cfg and pid = pid and cp = cp and kp = kp and wp = ?wg
        and fees = fees and b = "lamports pa"] cfg progkey calm fees gp fp
    by (simp add: h_def c_def cl_def p_def)
qed

text \<open>C5. A cluster that is down is fatal, as the spec requires: with the configuration
  and the program keypair in place, \<open>main\<close> panics at the unwrap of
  \<open>get_version\<close> (\<^verbatim>\<open>main.rs\<close> line 8) with the RPC error, after the
  one request it sent and the three lines it printed, and nothing else of the world
  changed.\<close>

theorem main_unreachable_cluster_aborts:
  assumes cfg: "config_file (host w) = Some cp" "config_files (host w) cp = Some cfg"
    and pk: "keypair_files (host w) PROGRAM_KEYPAIR_PATH = Some pk"
    and down: "events (cluster w) = []" "settled (cluster w)" "\<not> reachable (cluster w)"
  shows "main w =
    (Inl (Rpc_failed Rpc_unreachable),
     w\<lparr>host := (host w)\<lparr>draws := Suc (draws (host w))\<rparr>,
       cluster := logged [Get_version] (cluster w),
       stdout := stdout w @ [Msg_lets_say_hello, Msg_get_config cfg, Msg_connecting (json_rpc_url cfg)]\<rparr>)"
  using client_new_ok [of "w\<lparr>stdout := stdout w @ [Msg_lets_say_hello]\<rparr>" cp cfg pk] cfg pk down
  by (simp add: main_def bind_st_def println_apply get_version_def try_call_apply rpc_get_version_def rpc_down)

end
