(* ===== verification/Request_Bound.thy ===== *)
theory Request_Bound
  imports Invoker
begin

text \<open>
  A bound on the work of a run: \<open>within n m\<close> says that the program \<open>m\<close> sends at most
  \<open>n\<close> RPC requests, whatever the cluster answers, measured on the request log. The
  rules \<open>within_intros\<close> give the bound of each effect (one per request, none for
  printing and host reads) and of each combinator (the sum for \<open>bind_st\<close>, the
  maximum of the branches for \<open>if\<close> and \<open>case\<close>), in the manner of the rules of a
  total-correctness logic; each stage is bounded by applying them to its definition
  and evaluating the resulting sum. The client has no loop, no retry and no polling,
  so every run of \<open>main\<close> ends after at most fifteen requests.
\<close>

definition requests :: "world \<Rightarrow> nat" where
  "requests w = length (rpc_log (cluster w))"

definition within :: "nat \<Rightarrow> 'a prog \<Rightarrow> bool" where
  "within n m \<longleftrightarrow> (\<forall>w. requests (snd (m w)) \<le> requests w + n)"

text \<open>\<open>runs n\<close> runs the binary \<open>n\<close> times in a row on the same host and cluster.\<close>

fun runs :: "nat \<Rightarrow> world \<Rightarrow> world" where
  "runs 0 w = w"
| "runs (Suc n) w = runs n (snd (main w))"

named_theorems within_intros "bounds on the number of RPC requests of a program"

section \<open>Rules\<close>

lemma within_mono: "within a m \<Longrightarrow> a \<le> b \<Longrightarrow> within b m"
  unfolding within_def by (meson add_left_mono order_trans)

lemma within_bind [within_intros]:
  assumes m: "within a m" and f: "\<And>x. within b (f x)"
  shows "within (a + b) (bind_st m f)"
  unfolding within_def
proof
  fix w :: world
  obtain r w1 where mw: "m w = (r, w1)" by fastforce
  with m have w1: "requests w1 \<le> requests w + a" by (metis within_def snd_conv)
  show "requests (snd (bind_st m f w)) \<le> requests w + (a + b)"
  proof (cases r)
    case (Inl e)
    with mw w1 show ?thesis by (simp add: bind_st_def)
  next
    case (Inr x)
    have "requests (snd (f x w1)) \<le> requests w1 + b" using f [of x] by (simp add: within_def)
    with Inr mw w1 show ?thesis by (simp add: bind_st_def)
  qed
qed

lemma within_local: "(\<And>w. cluster (snd (m w)) = cluster w) \<Longrightarrow> within 0 m"
  by (simp add: within_def requests_def)

lemma within_ret [within_intros]: "within 0 (ret a)"
  and within_raise [within_intros]: "within 0 (raise e)"
  and within_println [within_intros]: "within 0 (println msg)"
  and within_keypair_new [within_intros]: "within 0 keypair_new"
  and within_read_keypair_file [within_intros]: "within 0 (read_keypair_file p)"
  and within_path_exists [within_intros]: "within 0 (path_exists p)"
  and within_greeting_address [within_intros]: "within 0 (greeting_address c)"
  and within_unwrap_result [within_intros]: "within 0 (unwrap_result g r)"
  and within_overflow_check [within_intros]: "within 0 (overflow_check v)"
  by (auto intro!: within_local simp: ret_def raise_def println_def modify_st_def keypair_new_def
      read_keypair_file_def path_exists_def greeting_address_def unwrap_result_def overflow_check_def
      split: option.splits sum.splits)

lemma within_if [within_intros]:
  "within a m1 \<Longrightarrow> within b m2 \<Longrightarrow> within (max a b) (if c then m1 else m2)"
  by (auto intro: within_mono [OF _ max.cobounded1] within_mono [OF _ max.cobounded2])

lemma within_case_sum [within_intros]:
  "(\<And>e. within a (f e)) \<Longrightarrow> (\<And>x. within b (g x)) \<Longrightarrow>
   within (max a b) (case r of Inl e \<Rightarrow> f e | Inr x \<Rightarrow> g x)"
  by (cases r) (auto intro: within_mono [OF _ max.cobounded1] within_mono [OF _ max.cobounded2])

lemma within_case_prod [within_intros]: "(\<And>x y. within a (f x y)) \<Longrightarrow> within a (case p of (x, y) \<Rightarrow> f x y)"
  by (simp split: prod.splits)

section \<open>One request per RPC call\<close>

lemma tick_rpc_log [simp]: "rpc_log (tick c) = rpc_log c"
  by (simp add: tick_def land_pending_def apply_event_def split: list.splits event.splits prod.splits)

lemma rpc_log_rpc:
  "(\<And>c. rpc_log (snd (f c)) = rpc_log c) \<Longrightarrow> rpc_log (snd (rpc r f c)) = rpc_log c @ [r]"
  by (simp add: rpc_def Let_def)

lemma within_call:
  assumes "\<And>c. rpc_log (snd (f c)) = rpc_log c @ [r c]"
  shows "within 1 (call f)" and "within 1 (try_call f)"
proof -
  have l: "length (rpc_log c') \<le> Suc (length (rpc_log c))" if "f c = (x, c')" for c c' x
    using assms [of c] that by simp
  show "within 1 (call f)" "within 1 (try_call f)"
    by (auto simp: within_def requests_def call_def try_call_def lift_err_def attempt_def on_cluster_def
        split: prod.splits sum.splits dest: l)
qed

lemma process_transaction_rpc_log: "process_transaction sha tx c = Inr c' \<Longrightarrow> rpc_log c' = rpc_log c"
  by (auto dest!: process_transaction_Inr)

lemma rpc_requests_logged:
  "rpc_log (snd (rpc_get_version c)) = rpc_log c @ [Get_version]"
  "rpc_log (snd (rpc_get_balance k c)) = rpc_log c @ [Get_balance k]"
  "rpc_log (snd (rpc_get_minimum_balance_for_rent_exemption n c)) =
     rpc_log c @ [Get_minimum_balance_for_rent_exemption n]"
  "rpc_log (snd (rpc_get_recent_blockhash c)) = rpc_log c @ [Get_recent_blockhash]"
  "rpc_log (snd (rpc_request_airdrop k a c)) = rpc_log c @ [Request_airdrop k a]"
  "rpc_log (snd (rpc_confirm_transaction s c)) = rpc_log c @ [Confirm_transaction s]"
  "rpc_log (snd (rpc_get_account k c)) = rpc_log c @ [Get_account k]"
  "rpc_log (snd (rpc_send_and_confirm_transaction sha tx c)) = rpc_log c @ [Send_and_confirm_transaction tx]"
  by (auto simp: rpc_get_version_def rpc_get_balance_def rpc_get_minimum_balance_for_rent_exemption_def
      rpc_get_recent_blockhash_def rpc_request_airdrop_def rpc_confirm_transaction_def rpc_get_account_def
      rpc_send_and_confirm_transaction_def intro!: rpc_log_rpc
      split: option.splits sum.splits signature.splits dest: process_transaction_rpc_log)

lemmas within_rpc [within_intros] =
  within_call [OF rpc_requests_logged(1)] within_call [OF rpc_requests_logged(2)]
  within_call [OF rpc_requests_logged(3)] within_call [OF rpc_requests_logged(4)]
  within_call [OF rpc_requests_logged(5)] within_call [OF rpc_requests_logged(6)]
  within_call [OF rpc_requests_logged(7)]

lemma within_send_transaction [within_intros]: "within 1 (send_transaction tx)"
  unfolding within_def requests_def
proof
  fix w :: world
  obtain r c' where e: "rpc_send_and_confirm_transaction (sha256 w) tx (cluster w) = (r, c')" by fastforce
  then have "rpc_log c' = rpc_log (cluster w) @ [Send_and_confirm_transaction tx]"
    using rpc_requests_logged(8) [of "sha256 w" tx "cluster w"] by simp
  with e show "length (rpc_log (cluster (snd (send_transaction tx w)))) \<le> length (rpc_log (cluster w)) + 1"
    by (simp add: send_transaction_apply)
qed

section \<open>The stages and the entry point\<close>

text \<open>The bound of each stage, from its definition: the funder makes at most four
  requests (balance, airdrop, confirmation, balance), the provisioner at most five
  (program, greeting account, rent, blockhash, creation), the invoker two and the
  reporter one.\<close>

lemma within_lookup [within_intros]: "within 0 (\<lambda>w. case g w of None \<Rightarrow> (Inl e, w) | Some x \<Rightarrow> (Inr x, w))"
  by (rule within_local) (simp split: option.splits)

lemma within_client_new [within_intros]: "within 0 client_new"
  unfolding client_new_def by (rule within_mono, (rule within_intros)+) simp

lemma within_get_greeting_size [within_intros]: "within 0 get_greeting_size"
  unfolding get_greeting_size_def Let_def by (rule within_mono, (rule within_intros)+) simp

lemma within_get_version [within_intros]: "within 1 (get_version c)"
  unfolding get_version_def by (rule within_intros)

lemma within_estimate_fees [within_intros]: "within 2 estimate_fees"
  unfolding estimate_fees_def by (rule within_mono, (rule within_intros)+) simp

lemma within_get_payer [within_intros]: "within 0 (get_payer c)"
  unfolding get_payer_def by (rule within_mono, (rule within_intros)+) simp

lemma within_fund_payer [within_intros]: "within 4 (fund_payer k f)"
  unfolding fund_payer_def by (rule within_mono, (rule within_intros)+) simp

lemma within_establish_payer [within_intros]: "within 6 (establish_payer c)"
  unfolding establish_payer_def by (rule within_mono, (rule within_intros)+) simp

lemma within_check_program_deployed [within_intros]: "within 1 (check_program_deployed c)"
  unfolding check_program_deployed_def by (rule within_mono, (rule within_intros)+) simp

lemma within_create_greeting_account [within_intros]: "within 3 (create_greeting_account c k)"
  unfolding create_greeting_account_def Let_def by (rule within_mono, (rule within_intros)+) simp

lemma within_check_program [within_intros]: "within 5 (check_program c)"
  unfolding check_program_def by (rule within_mono, (rule within_intros)+) simp

lemma within_say_hello [within_intros]: "within 2 (say_hello c k)"
  unfolding say_hello_def by (rule within_mono, (rule within_intros)+) simp

lemma within_report [within_intros]: "within 1 (report c k)"
  unfolding report_def by (rule within_mono, (rule within_intros)+) simp

lemma within_main: "within 15 main"
  unfolding main_def by (rule within_mono, (rule within_intros)+) simp

text \<open>C6. Termination of the client in requests: whatever the cluster answers, fails
  or delays, one run of \<open>main\<close> sends at most fifteen RPC requests (no stage retries or
  polls), so \<open>n\<close> runs in a row send at most \<open>15 n\<close>. The fresh run of Scenario A
  sends exactly fifteen.\<close>

theorem runs_request_bound:
  "length (rpc_log (cluster (runs n w))) \<le> length (rpc_log (cluster w)) + 15 * n"
proof (induction n arbitrary: w)
  case (Suc n)
  have "requests (snd (main w)) \<le> requests w + 15"
    using within_main by (simp add: within_def)
  with Suc.IH [of "snd (main w)"] show ?case by (simp add: requests_def)
qed simp

end
