(* ===== verification/Digits.thy ===== *)
theory Digits
  imports Prelude
begin

text \<open>
  Positional notation in a base \<open>b \<ge> 2\<close>, most significant digit first: \<open>to_digits\<close>
  writes a number without leading zeros (zero is the empty list), \<open>of_digits\<close> reads
  a digit list back (Horner's rule). The printers of the console theory are instances:
  decimal for Rust's \<^verbatim>\<open>Display\<close> of integers, base 58 for the display of public keys,
  base 256 for the big-endian reading of a byte string. \<open>to_digits\<close> recurses on
  \<open>n div b\<close>, so its termination is proved by a measure.
\<close>

function to_digits :: "nat \<Rightarrow> nat \<Rightarrow> nat list" where
  "to_digits b n = (if n = 0 \<or> b < 2 then [] else to_digits b (n div b) @ [n mod b])"
  by pat_completeness auto
termination
  by (relation "measure snd") auto

declare to_digits.simps [simp del]

definition of_digits :: "nat \<Rightarrow> nat list \<Rightarrow> nat" where
  "of_digits b ds = foldl (\<lambda>acc d. acc * b + d) 0 ds"

section \<open>Properties\<close>

lemma of_digits_Nil [simp]: "of_digits b [] = 0"
  by (simp add: of_digits_def)

lemma of_digits_snoc [simp]: "of_digits b (ds @ [d]) = of_digits b ds * b + d"
  by (simp add: of_digits_def)

lemma of_digits_single [simp]: "of_digits b [d] = d"
  by (simp add: of_digits_def)

lemma of_digits_zeros [simp]: "of_digits b (replicate z 0 @ ds) = of_digits b ds"
  by (induction z) (simp_all add: of_digits_def)

lemma to_digits_0 [simp]: "to_digits b 0 = []"
  by (simp add: to_digits.simps)

lemma to_digits_pos:
  "0 < n \<Longrightarrow> 2 \<le> b \<Longrightarrow> to_digits b n = to_digits b (n div b) @ [n mod b]"
  by (subst to_digits.simps) simp

lemma of_digits_to_digits [simp]: "2 \<le> b \<Longrightarrow> of_digits b (to_digits b n) = n"
proof (induction b n rule: to_digits.induct)
  case (1 b n)
  show ?case
  proof (cases "n = 0")
    case False
    with "1.IH" "1.prems" show ?thesis by (simp add: to_digits_pos)
  qed simp
qed

lemma to_digits_less: "d \<in> set (to_digits b n) \<Longrightarrow> d < b"
proof (induction b n rule: to_digits.induct)
  case (1 b n)
  then show ?case
    by (subst (asm) to_digits.simps) (auto split: if_splits)
qed

lemma to_digits_Nil_iff: "2 \<le> b \<Longrightarrow> to_digits b n = [] \<longleftrightarrow> n = 0"
  by (cases "n = 0") (simp_all add: to_digits_pos)

lemma to_digits_hd: "to_digits b n \<noteq> [] \<Longrightarrow> hd (to_digits b n) \<noteq> 0"
proof (induction b n rule: to_digits.induct)
  case (1 b n)
  show ?case
  proof (cases "n = 0 \<or> b < 2")
    case False
    then have e: "to_digits b n = to_digits b (n div b) @ [n mod b]" by (simp add: to_digits_pos)
    show ?thesis
    proof (cases "to_digits b (n div b) = []")
      case True
      with False have "n div b = 0" by (simp add: to_digits_Nil_iff)
      with False have "n mod b \<noteq> 0" by (simp add: div_eq_0_iff)
      with True e show ?thesis by simp
    next
      case nd: False
      with "1.IH" False e show ?thesis by simp
    qed
  qed (use "1.prems" in \<open>auto simp: to_digits.simps\<close>)
qed

lemma of_digits_pos: "2 \<le> b \<Longrightarrow> ds \<noteq> [] \<Longrightarrow> hd ds \<noteq> 0 \<Longrightarrow> 0 < of_digits b ds"
proof (induction ds rule: rev_induct)
  case (snoc d ds)
  then show ?case by (cases "ds = []") auto
qed simp

lemma to_digits_of_digits:
  assumes "2 \<le> b" and "\<forall>d\<in>set ds. d < b" and "ds = [] \<or> hd ds \<noteq> 0"
  shows "to_digits b (of_digits b ds) = ds"
  using assms(2,3)
proof (induction ds rule: rev_induct)
  case (snoc d ds)
  have lt: "d < b" using snoc.prems by simp
  show ?case
  proof (cases "ds = []")
    case True
    with snoc.prems assms(1) show ?thesis by (simp add: to_digits_pos)
  next
    case False
    with snoc.prems have h: "hd ds \<noteq> 0" by simp
    have "0 < of_digits b ds" by (rule of_digits_pos [OF assms(1) False h])
    then have "0 < of_digits b ds * b + d" using assms(1) by simp
    moreover have "(of_digits b ds * b + d) div b = of_digits b ds" "(of_digits b ds * b + d) mod b = d"
      using lt by simp_all
    moreover have "to_digits b (of_digits b ds) = ds"
      using snoc False by simp
    ultimately show ?thesis using assms(1) by (simp add: to_digits_pos)
  qed
qed simp

end
