(* ===== verification/Console.thy ===== *)
theory Console
  imports Digits Invoker
begin

text \<open>
  The console output of the client: what each \<^verbatim>\<open>println!\<close> of \<^verbatim>\<open>src/src/lib.rs\<close>
  and \<^verbatim>\<open>src/src/main.rs\<close> prints for the \<open>message\<close> the model records.
  \<^item> The \<^verbatim>\<open>Display\<close> formats the lines use: integers in decimal (\<open>decimal\<close>, Rust's
    \<^verbatim>\<open>core::fmt\<close>), public keys in base 58 with the Bitcoin alphabet
    (\<open>base58_encode\<close>, the \<^verbatim>\<open>bs58\<close> encoding behind \<^verbatim>\<open>Pubkey\<close>'s \<^verbatim>\<open>Display\<close>), and
    readers for both (\<open>parse_decimal\<close>, \<open>base58_decode\<close>) that show the printed text
    determines the value.
  \<^item> One definition per \<^verbatim>\<open>println!\<close> site, in the order of the source, with its
    literal text; \<open>render\<close> dispatches on the message and \<open>console\<close> renders the whole
    standard output of a world. The \<^verbatim>\<open>{:?}\<close> of the CLI configuration and the
    \<^verbatim>\<open>Display\<close> of a transaction signature (base 58 of an ed25519 signature, which
    the model does not compute) are parameters.
  \<^item> The reader \<open>parse_greeted\<close> of the reporter's line, and the theorems that the
    line a successful \<open>report\<close> prints gives back the account and the counter the
    account holds.
\<close>

section \<open>Display of integers and public keys\<close>

definition digit_char :: "nat \<Rightarrow> char" where
  "digit_char d = char_of (48 + d)"

definition decimal :: "nat \<Rightarrow> string" where
  "decimal n = (if n = 0 then ''0'' else map digit_char (to_digits 10 n))"

definition is_digit_char :: "char \<Rightarrow> bool" where
  "is_digit_char c \<longleftrightarrow> 48 \<le> (of_char c :: nat) \<and> (of_char c :: nat) < 58"

definition parse_decimal :: "string \<Rightarrow> nat option" where
  "parse_decimal s =
     (if s \<noteq> [] \<and> list_all is_digit_char s \<and> (s = ''0'' \<or> hd s \<noteq> CHR ''0'')
      then Some (of_digits 10 (map (\<lambda>c. of_char c - 48) s)) else None)"

definition alphabet58 :: string where
  "alphabet58 = ''123456789ABCDEFGHJKLMNPQRSTUVWXYZabcdefghijkmnopqrstuvwxyz''"

definition base58_encode :: "bytes \<Rightarrow> string" where
  "base58_encode bs =
     replicate (length (takeWhile (\<lambda>b. b = 0) bs)) (CHR ''1'') @
     map (\<lambda>d. alphabet58 ! d) (to_digits 58 (of_digits 256 (map unat bs)))"

definition base58_digit :: "char \<Rightarrow> nat option" where
  "base58_digit c = map_of (zip alphabet58 [0..<58]) c"

definition base58_decode :: "string \<Rightarrow> bytes option" where
  "base58_decode s =
     (case those (map base58_digit (dropWhile (\<lambda>c. c = CHR ''1'') s)) of
        None \<Rightarrow> None
      | Some ds \<Rightarrow> Some (replicate (length (takeWhile (\<lambda>c. c = CHR ''1'') s)) 0 @
                        map of_nat (to_digits 256 (of_digits 58 ds))))"

section \<open>The lines the client prints\<close>

text \<open>One definition per \<^verbatim>\<open>println!\<close>, with the format string of the source; the
  arguments are displayed as Rust displays them.\<close>

definition fmt_lets_say_hello :: string where
  "fmt_lets_say_hello = ''Let's say hello to a Solana account...''"

definition fmt_get_config :: "(config \<Rightarrow> string) \<Rightarrow> config \<Rightarrow> string" where
  "fmt_get_config debug cfg = ''Get config file: '' @ debug cfg"

definition fmt_connecting :: "string \<Rightarrow> string" where
  "fmt_connecting u = ''Connecting to '' @ u"

definition fmt_connection_established :: "string \<Rightarrow> string" where
  "fmt_connection_established v = ''connection established, version: '' @ v"

definition fmt_greeting_size :: "nat \<Rightarrow> string" where
  "fmt_greeting_size n = ''Greeting account size = '' @ decimal n"

definition fmt_fallback_keypair :: string where
  "fmt_fallback_keypair = ''Failed to create keypair from CLI config file, falling back to new random keypair''"

definition fmt_using_account :: "pubkey \<Rightarrow> u64 \<Rightarrow> string" where
  "fmt_using_account k sol =
     ''Using account '' @ base58_encode k @ '' containing '' @ decimal (unat sol) @ '' SOL to pay for fees''"

definition fmt_deploy_program :: string where
  "fmt_deploy_program = ''Program needs to be deployed with `solana program deploy dist/program/helloworld.so`''"

definition fmt_build_and_deploy :: string where
  "fmt_build_and_deploy = ''Program needs to be built and deployed''"

definition fmt_not_executable :: string where
  "fmt_not_executable = ''Program is not executable''"

definition fmt_using_program :: "pubkey \<Rightarrow> string" where
  "fmt_using_program k = ''Using program '' @ base58_encode k"

definition fmt_creating_account :: "pubkey \<Rightarrow> string" where
  "fmt_creating_account k = ''Creating a account '' @ base58_encode k @ '' to say hello''"

definition fmt_say_hello :: "pubkey \<Rightarrow> pubkey \<Rightarrow> string" where
  "fmt_say_hello k p = ''Say hello to '' @ base58_encode k @ '', owner is '' @ base58_encode p"

definition fmt_said_hello :: "(signature \<Rightarrow> string) \<Rightarrow> signature \<Rightarrow> string" where
  "fmt_said_hello show_sig s = ''Say hello: '' @ show_sig s"

definition fmt_greeted :: "pubkey \<Rightarrow> u32 \<Rightarrow> string" where
  "fmt_greeted k n = base58_encode k @ '' has been greeted '' @ decimal (unat n) @ '' time(s)''"

definition fmt_success :: string where
  "fmt_success = ''Success''"

definition render :: "(config \<Rightarrow> string) \<Rightarrow> (signature \<Rightarrow> string) \<Rightarrow> message \<Rightarrow> string" where
  "render debug show_sig m =
     (case m of
        Msg_lets_say_hello \<Rightarrow> fmt_lets_say_hello
      | Msg_get_config cfg \<Rightarrow> fmt_get_config debug cfg
      | Msg_connecting u \<Rightarrow> fmt_connecting u
      | Msg_connection_established v \<Rightarrow> fmt_connection_established v
      | Msg_greeting_size n \<Rightarrow> fmt_greeting_size n
      | Msg_fallback_keypair \<Rightarrow> fmt_fallback_keypair
      | Msg_using_account k sol \<Rightarrow> fmt_using_account k sol
      | Msg_deploy_program \<Rightarrow> fmt_deploy_program
      | Msg_build_and_deploy \<Rightarrow> fmt_build_and_deploy
      | Msg_not_executable \<Rightarrow> fmt_not_executable
      | Msg_using_program k \<Rightarrow> fmt_using_program k
      | Msg_creating_account k \<Rightarrow> fmt_creating_account k
      | Msg_say_hello k p \<Rightarrow> fmt_say_hello k p
      | Msg_said_hello s \<Rightarrow> fmt_said_hello show_sig s
      | Msg_greeted k n \<Rightarrow> fmt_greeted k n
      | Msg_success \<Rightarrow> fmt_success)"

definition console :: "(config \<Rightarrow> string) \<Rightarrow> (signature \<Rightarrow> string) \<Rightarrow> world \<Rightarrow> string list" where
  "console debug show_sig w = map (render debug show_sig) (stdout w)"

text \<open>A reader of the reporter's line: the key up to the first space, the fixed
  text, the count in decimal, the closing \<^verbatim>\<open>" time(s)"\<close>.\<close>

definition parse_greeted :: "string \<Rightarrow> (pubkey \<times> u32) option" where
  "parse_greeted s =
     (let key = takeWhile (\<lambda>c. c \<noteq> CHR '' '') s; r = dropWhile (\<lambda>c. c \<noteq> CHR '' '') s in
      case base58_decode key of
        None \<Rightarrow> None
      | Some k \<Rightarrow>
          if 26 \<le> length r \<and> take 18 r = '' has been greeted '' \<and> drop (length r - 8) r = '' time(s)''
          then (case parse_decimal (take (length r - 26) (drop 18 r)) of
                  None \<Rightarrow> None
                | Some n \<Rightarrow> if n < 2 ^ 32 then Some (k, of_nat n) else None)
          else None)"

section \<open>Properties\<close>

lemma digit_char_value: "d < 10 \<Longrightarrow> of_char (digit_char d) = 48 + d"
  by (simp add: digit_char_def of_char_of)

lemma read_digit_chars:
  "\<forall>d\<in>set ds. d < 10 \<Longrightarrow> map (\<lambda>c. of_char c - 48) (map digit_char ds) = ds"
  by (induction ds) (simp_all add: digit_char_value)

lemma digit_chars_are_digits: "\<forall>d\<in>set ds. d < 10 \<Longrightarrow> list_all is_digit_char (map digit_char ds)"
  by (induction ds) (simp_all add: is_digit_char_def digit_char_value)

lemma digit_char_zero: "d < 10 \<Longrightarrow> digit_char d = CHR ''0'' \<longleftrightarrow> d = 0"
proof
  assume "d < 10" "digit_char d = CHR ''0''"
  then have "of_char (digit_char d) = (of_char CHR ''0'' :: nat)" by simp
  with digit_char_value [OF \<open>d < 10\<close>] show "d = 0" by simp
next
  have "char_of (48 :: nat) = CHR ''0''" by code_simp
  then show "d = 0 \<Longrightarrow> digit_char d = CHR ''0''" by (simp add: digit_char_def)
qed

lemma parse_decimal_decimal [simp]: "parse_decimal (decimal n) = Some n"
proof (cases "n = 0")
  case True
  then show ?thesis by (simp add: decimal_def parse_decimal_def is_digit_char_def)
next
  case False
  let ?ds = "to_digits 10 n"
  have ne: "?ds \<noteq> []" using False by (simp add: to_digits_Nil_iff)
  have lt: "\<forall>d\<in>set ?ds. d < 10" using to_digits_less by blast
  have "hd ?ds \<noteq> 0" using ne by (rule to_digits_hd)
  then have "hd (map digit_char ?ds) \<noteq> CHR ''0''"
    using ne lt digit_char_zero [of "hd ?ds"] by (simp add: hd_map)
  then show ?thesis
    using False ne lt read_digit_chars [OF lt] digit_chars_are_digits [OF lt]
    by (simp add: decimal_def parse_decimal_def)
qed

lemma distinct_alphabet58: "distinct alphabet58"
  unfolding alphabet58_def by code_simp

lemma length_alphabet58 [simp]: "length alphabet58 = 58"
  by (simp add: alphabet58_def)

lemma base58_digit_nth: "d < 58 \<Longrightarrow> base58_digit (alphabet58 ! d) = Some d"
  using map_of_zip_nth [of alphabet58 "[0..<58]" d] distinct_alphabet58 by (simp add: base58_digit_def)

lemma alphabet58_0: "alphabet58 ! d = CHR ''1'' \<longleftrightarrow> d = 0" if "d < 58"
proof -
  have "alphabet58 ! 0 = CHR ''1''" by (simp add: alphabet58_def)
  then show ?thesis using that distinct_alphabet58 nth_eq_iff_index_eq [of alphabet58 d 0] by auto
qed

lemma takeWhile_eq_replicate: "takeWhile (\<lambda>x. x = c) xs = replicate (length (takeWhile (\<lambda>x. x = c) xs)) c"
  by (induction xs) simp_all

lemma replicate_prefix_split:
  assumes "xs = [] \<or> hd xs \<noteq> c"
  shows "dropWhile (\<lambda>x. x = c) (replicate z c @ xs) = xs"
    and "length (takeWhile (\<lambda>x. x = c) (replicate z c @ xs)) = z"
  using assms by (cases xs; simp add: dropWhile_append takeWhile_append)+

lemma leading_zeros_split:
  "replicate (length (takeWhile (\<lambda>x. x = c) xs)) c @ dropWhile (\<lambda>x. x = c) xs = xs"
  by (metis takeWhile_dropWhile_id takeWhile_eq_replicate)

lemma those_base58_digits:
  "\<forall>d\<in>set ds. d < 58 \<Longrightarrow> those (map base58_digit (map (\<lambda>d. alphabet58 ! d) ds)) = Some ds"
  by (induction ds) (simp_all add: base58_digit_nth)

lemma of_digits_bytes_zeros:
  "of_digits 256 (map unat (replicate z (0 :: u8) @ rest)) = of_digits 256 (map unat rest)"
  by (simp add: map_replicate_const)

lemma unat_less_256: "unat (b :: u8) < 256"
  using unsigned_less [of b] by simp

lemma base58_decode_encode: "base58_decode (base58_encode bs) = Some bs"
proof -
  define z where "z = length (takeWhile (\<lambda>b. b = (0 :: u8)) bs)"
  define rest where "rest = dropWhile (\<lambda>b. b = (0 :: u8)) bs"
  have bs: "bs = replicate z 0 @ rest" unfolding z_def rest_def by (rule leading_zeros_split [symmetric])
  have rhd: "rest = [] \<or> hd rest \<noteq> 0" unfolding rest_def using hd_dropWhile by blast
  define n where "n = of_digits 256 (map unat rest)"
  define ds where "ds = to_digits 58 n"
  have dlt: "\<forall>d\<in>set ds. d < 58" unfolding ds_def using to_digits_less by blast
  have dhd: "ds = [] \<or> hd ds \<noteq> 0" unfolding ds_def using to_digits_hd by blast
  have enc: "base58_encode bs = replicate z (CHR ''1'') @ map (\<lambda>d. alphabet58 ! d) ds"
    unfolding base58_encode_def z_def ds_def n_def rest_def
    by (subst (3) leading_zeros_split [symmetric], subst of_digits_bytes_zeros) simp
  have chd: "map (\<lambda>d. alphabet58 ! d) ds = [] \<or> hd (map (\<lambda>d. alphabet58 ! d) ds) \<noteq> CHR ''1''"
    using dhd dlt alphabet58_0 [of "hd ds"] by (auto simp: hd_map)
  have rlt: "\<forall>d\<in>set (map unat rest). d < 256" using unat_less_256 by auto
  have rhd': "map unat rest = [] \<or> hd (map unat rest) \<noteq> 0" using rhd by (cases rest) (simp_all add: unat_eq_zero)
  have digits_back: "to_digits 256 n = map unat rest"
    unfolding n_def by (rule to_digits_of_digits [OF _ rlt rhd']) simp
  have "base58_decode (base58_encode bs) = Some (replicate z 0 @ map of_nat (to_digits 256 n))"
    unfolding enc base58_decode_def
    using replicate_prefix_split [OF chd, of z] those_base58_digits [OF dlt] by (simp add: ds_def)
  also have "\<dots> = Some bs"
    using digits_back bs by (simp add: comp_def)
  finally show ?thesis .
qed


lemma space_not_base58: "CHR '' '' \<notin> set (base58_encode bs)"
proof -
  have "CHR '' '' \<notin> set alphabet58" unfolding alphabet58_def by code_simp
  then show ?thesis by (auto simp: base58_encode_def dest: to_digits_less)
qed

lemma length_decimal_pos: "0 < length (decimal n)"
  by (simp add: decimal_def to_digits_Nil_iff)

lemma report_prints_counter:
  "calm (cluster w) \<Longrightarrow> report c k w = (Inr (), w') \<Longrightarrow>
   \<exists>a g. accounts (cluster w) k = Some a \<and> try_from_slice (data a) = Inr g \<and>
     stdout w' = stdout w @ [Msg_greeted k (counter g)]"
  by (auto simp: report_calm split: option.splits sum.splits)

text \<open>The reporter's line reads back, with the base-58 and decimal readers, as the
  key and the counter printed, for every key and counter.\<close>

lemma parse_fmt_greeted: "parse_greeted (fmt_greeted k n) = Some (k, n)"
proof -
  let ?e = "base58_encode k" and ?d = "decimal (unat n)"
  have sp: "\<forall>c\<in>set ?e. c \<noteq> CHR '' ''" using space_not_base58 by blast
  have tw: "takeWhile (\<lambda>c. c \<noteq> CHR '' '') (fmt_greeted k n) = ?e"
    using sp by (simp add: fmt_greeted_def takeWhile_append)
  have dw: "dropWhile (\<lambda>c. c \<noteq> CHR '' '') (fmt_greeted k n) = '' has been greeted '' @ ?d @ '' time(s)''"
    using sp by (simp add: fmt_greeted_def dropWhile_append)
  have "unat n < 2 ^ 32" using unsigned_less [of n] by simp
  then show ?thesis
    using length_decimal_pos [of "unat n"]
    by (simp add: parse_greeted_def tw dw base58_decode_encode Let_def)
qed

text \<open>C12. What the user reads is what the account holds: on a calm cluster, when
  \<open>report\<close> succeeds, the last console line (\<^verbatim>\<open>lib.rs\<close> line 174) reads back,
  through the base-58 and decimal readers, as exactly the account's key and the
  counter its stored data decode to.\<close>

theorem report_console_reads_back:
  assumes "calm (cluster w)" and "report c k w = (Inr (), w')"
  shows "\<exists>a g. accounts (cluster w) k = Some a \<and> try_from_slice (data a) = Inr g \<and>
           parse_greeted (last (console debug show_sig w')) = Some (k, counter g)"
  using report_prints_counter [OF assms]
  by (auto simp: console_def render_def parse_fmt_greeted)

end
