(* ===== verification/Spec2Isabelle.thy ===== *)
theory Spec2Isabelle
  imports Workflow Request_Bound Console
begin

text \<open>
  \<^bold>\<open>A verification model of the Solana "hello" client\<close>
  (\<^verbatim>\<open>src/src/lib.rs\<close>, \<^verbatim>\<open>src/src/main.rs\<close>).

  \<^bold>\<open>The program.\<close> \<^verbatim>\<open>main\<close> builds a \<^verbatim>\<open>Client\<close> (\<^verbatim>\<open>Client::new\<close>: CLI
  configuration, a random payer, the program id from its keypair file), prints the
  cluster version, then runs four stages on the remote ledger cluster, each blocking
  on RPC requests: \<^verbatim>\<open>establish_payer\<close> (fee estimator and payer funder),
  \<^verbatim>\<open>check_program\<close> (program diagnostic and account provisioner), \<^verbatim>\<open>say_hello\<close>
  (instruction invoker) and \<^verbatim>\<open>report\<close> (state reporter). The stages share the
  \<^verbatim>\<open>Client\<close> struct and the cluster; every \<^verbatim>\<open>.unwrap()\<close> aborts the run.

  \<^bold>\<open>The theories.\<close>
  \<^item> \<^theory_text>\<open>Prelude\<close>: machine words \<open>u8\<close>/\<open>u32\<close>/\<open>u64\<close>, the state-and-error monad
    \<open>bind_st\<close> in which a panic keeps the effects before it, Rust's overflow-checked
    \<open>+\<close> and \<open>*\<close> (\<open>checked_add\<close>, \<open>checked_mul\<close>), \<^verbatim>\<open>str::as_bytes\<close>.
  \<^item> \<^theory_text>\<open>Greeting_Account\<close>: \<^verbatim>\<open>GreetingAccount\<close> (lines 34--37) and its derived Borsh
    codec \<open>try_to_vec\<close>/\<open>try_from_slice\<close>.
  \<^item> \<^theory_text>\<open>Address\<close>: keypairs and \<^verbatim>\<open>Pubkey::create_with_seed\<close> over an abstract hash.
  \<^item> \<^theory_text>\<open>Ledger\<close> and \<^theory_text>\<open>Rpc\<close>: the cluster, modelled from the SDK's documented
    behaviour (not in the repository): accounts, instructions, signing, the system
    program's \<^verbatim>\<open>CreateAccountWithSeed\<close>, the deployed helloworld program, the bank's
    all-or-nothing transaction processing, the faucet, and one function per RPC request
    used by the client. An event schedule consumed one event per request models time
    and other parties; the log of requests is what the client observably does.
  \<^item> \<^theory_text>\<open>Client\<close>: the process state \<open>world\<close> (host files, random source, cluster,
    stdout, hash), \<^verbatim>\<open>Client\<close> as a record, \<open>client_new\<close> (lines 48--59),
    \<open>get_greeting_size\<close> (61--66), \<open>get_payer\<close> (68--76), \<open>get_version\<close> (78--80) and
    \<open>establish_payer\<close> (82--106) as \<open>estimate_fees\<close> (83--89) then \<open>get_payer\<close> then
    \<open>fund_payer\<close> (93--105).
  \<^item> \<^theory_text>\<open>Provisioner\<close>: \<open>check_program\<close> (108--150) as \<open>check_program_deployed\<close>
    (109--118), \<open>greeting_address\<close> (123--126) and \<open>create_greeting_account\<close>
    (131--147).
  \<^item> \<^theory_text>\<open>Invoker\<close>: \<open>say_hello\<close> (152--169), \<open>report\<close> (171--175), \<open>main\<close>
    (\<^verbatim>\<open>main.rs\<close> 3--22).
  \<^item> \<^theory_text>\<open>Workflow\<close>: the stages of \<open>main\<close> evaluated and composed
    (\<open>main_prefix\<close>, \<open>main_returning_prefix\<close>, \<open>provision_greet_report\<close>,
    \<open>greet_existing_report\<close>), and the fee lemmas.
  \<^item> \<^theory_text>\<open>Digits\<close> and \<^theory_text>\<open>Console\<close>: the console output. \<open>to_digits\<close>/\<open>of_digits\<close> are
    positional notation in any base (a \<open>function\<close> recursing on \<open>n div b\<close>, with
    its termination proof); on them, Rust's decimal \<^verbatim>\<open>Display\<close> of integers and
    the base-58 \<^verbatim>\<open>Display\<close> of public keys, with readers proved inverse to them.
    Every \<^verbatim>\<open>println!\<close> of \<^verbatim>\<open>lib.rs\<close> and \<^verbatim>\<open>main.rs\<close> is one \<open>fmt_\<close> definition
    with its format string; \<open>render\<close> maps a recorded \<open>message\<close> to its line and
    \<open>console\<close> renders a world's standard output.
  \<^item> \<^theory_text>\<open>Request_Bound\<close>: \<open>within n m\<close>, the program \<open>m\<close> sends at most \<open>n\<close> RPC
    requests whatever the cluster does, with one rule per effect and combinator
    (\<open>within_intros\<close>), the bound of every stage, and fifteen requests for \<open>main\<close>;
    \<open>runs n\<close> runs the binary \<open>n\<close> times in a row on the same host and cluster.
  Each operation is one definition with every guard, early return and \<open>unwrap\<close> of the
  source; each component theory ends with its operations evaluated symbolically on a
  calm cluster (no scheduled event, no pending airdrop, endpoint up), one lemma per
  branch, which the properties below compose.

  \<^bold>\<open>Bounds and schedules.\<close> There is no loop in the client and no fuel: every stage is
  straight-line code over total functions, so \<open>main\<close> always returns (a value or a
  panic). Airdrops land at the next request unless the schedule says \<open>Stall\<close>; a
  blockhash is valid for \<open>max_age\<close> slots; amounts are \<open>u64\<close> with Rust's debug-mode
  overflow panics; the counter is a \<open>u32\<close> that the release-built program increments
  with wrap-around. The scenarios assume a calm cluster (no event scheduled); Scenario
  D and the unawaited airdrop give the exact schedule of events that exhibits them.

  \<^bold>\<open>Properties.\<close> The claims are the theorems preceded by a text naming their id.
  They state: the end-to-end runs of the spec's four scenarios (A and B succeed with
  the exact requests, output and final accounts; C and D abort with the cluster's
  rejection, before the reporter); idempotence of the provisioner; exactness of the
  funder's request; that a successful invocation refines the abstract counter
  increment; the Borsh round trip; termination of a run in requests (at most fifteen per run of
  \<open>main\<close>, whatever the cluster answers, so at most \<open>15 n\<close> for \<open>n\<close> runs); that the
  reporter's console line reads back as the account and the counter it holds; that a stalled airdrop lands by the
  next run of the funder (liveness, one run late); the equivalence of the decoder with the little-endian value of the
  bytes; the bounds of the fee estimate and its overflow panic; that a cluster that is
  down aborts \<open>main\<close> at its first request, and that an expired blockhash aborts the
  invocation; and what modelling found against the spec: the airdrop is not awaited, a
  failed creation is swallowed, an outage at the lookup of the greeting account makes
  \<open>check_program\<close> submit a creation for an account that exists, and \<open>report\<close>
  reads an account of another program as a greeting count.

  \<^bold>\<open>Not modelled.\<close> The \<^verbatim>\<open>{:?}\<close> of the CLI \<^verbatim>\<open>Config\<close> and the display
  of transaction signatures (parameters of \<open>render\<close>), the RPC transport
  and JSON encoding, ed25519 signatures (a keypair is its public key), SHA-256 (a
  parameter), the bincode encoding of system instructions (kept decoded), and the
  validator beyond the operations the client uses (consensus, other system
  instructions, the loader). Every definition is total (a \<open>definition\<close>, a
  structural \<open>fun\<close>, or \<open>to_digits\<close> with its measure), so each run returns by
  construction; what termination means for this client, that it never waits on the
  cluster without bound, is the request bound of \<^theory_text>\<open>Request_Bound\<close>. The \<^verbatim>\<open>use\<close> declarations and the \<^verbatim>\<open>impl\<close> header of
  \<^verbatim>\<open>lib.rs\<close> carry no behaviour. Other parties writing accounts are modelled as the
  \<open>Put_account\<close> event of the schedule. Properties of the modelled ledger alone (that
  an address is created at most once, that a greeting account stays decodable) hold
  whatever the client does and are not claims about this program; the properties
  above are about the client's code. \<^verbatim>\<open>LAMPORTS_PER_SOL\<close> is the SDK constant
  \<open>10^9\<close>, imported at line 23.

  \<^bold>\<open>Demo fixtures.\<close> \<open>demo_world\<close> below is a concrete world (an ephemeral payer,
  a deployed program, a calm cluster with a faucet); \<open>demo_world_b\<close> adds a funded
  payer from a keypair file and a greeting account with counter 5, \<open>demo_world_c\<close>
  gives that account to another program, \<open>demo_world_d\<close> and \<open>demo_world_stall\<close>
  schedule an expiring blockhash and a stalled airdrop, \<open>demo_world_outage\<close> a
  one-request outage and \<open>demo_world_down\<close> an unreachable endpoint. The witnesses evaluate the
  hypotheses of the properties there.
\<close>

section \<open>Demo fixtures\<close>

definition demo_program :: pubkey where
  "demo_program = replicate 32 2"

definition demo_sha :: hash_fn where
  "demo_sha bs = replicate 32 (of_nat (length bs))"

definition demo_config :: config where
  "demo_config = \<lparr>json_rpc_url = ''http://127.0.0.1:8899'', keypair_path = []\<rparr>"

definition demo_host :: host where
  "demo_host =
     \<lparr>config_file = Some ''config.yml'',
      config_files = (\<lambda>_. None)(''config.yml'' := Some demo_config),
      keypair_files = (\<lambda>_. None)(PROGRAM_KEYPAIR_PATH := Some (Keypair demo_program)),
      existing_paths = [],
      entropy = (\<lambda>n. Keypair (replicate 32 (of_nat (n + 10)))),
      draws = 0\<rparr>"

definition demo_cluster :: cluster where
  "demo_cluster =
     \<lparr>accounts = [demo_program \<mapsto> \<lparr>lamports = 1, data = [], owner = replicate 32 3, executable = True\<rparr>],
      slot = 10, max_age = 150, lamports_per_signature = 5000, ledger = [],
      reachable = True, rent_minimum = (\<lambda>n. of_nat ((128 + n) * 6960)), faucet = True,
      airdrops = [], version = ''1.9.0'', events = [], rpc_log = []\<rparr>"

definition demo_world :: world where
  "demo_world = \<lparr>host = demo_host, cluster = demo_cluster, stdout = [], sha256 = demo_sha\<rparr>"

definition demo_payer :: pubkey where
  "demo_payer = replicate 32 7"

definition demo_greeting :: pubkey where
  "demo_greeting = replicate 32 69"

definition demo_config_b :: config where
  "demo_config_b = \<lparr>json_rpc_url = ''http://127.0.0.1:8899'', keypair_path = ''id.json''\<rparr>"

definition demo_host_b :: host where
  "demo_host_b = demo_host\<lparr>config_files := (\<lambda>_. None)(''config.yml'' := Some demo_config_b),
     keypair_files := (\<lambda>_. None)(PROGRAM_KEYPAIR_PATH := Some (Keypair demo_program),
                                  ''id.json'' := Some (Keypair demo_payer))\<rparr>"

definition demo_cluster_b :: cluster where
  "demo_cluster_b = demo_cluster\<lparr>accounts := (accounts demo_cluster)(
     demo_payer \<mapsto> \<lparr>lamports = 2000000, data = [], owner = system_program_id, executable = False\<rparr>,
     demo_greeting \<mapsto> \<lparr>lamports = 918720, data = try_to_vec \<lparr>counter = 5\<rparr>, owner = demo_program, executable = False\<rparr>)\<rparr>"

definition demo_world_b :: world where
  "demo_world_b = demo_world\<lparr>host := demo_host_b, cluster := demo_cluster_b\<rparr>"

definition demo_client_b :: client where
  "demo_client_b = \<lparr>config = demo_config_b, connection = \<lparr>url = json_rpc_url demo_config_b, commitment = Confirmed\<rparr>,
                     payer = Keypair demo_payer, program_id = demo_program\<rparr>"

definition demo_world_c :: world where
  "demo_world_c = demo_world_b\<lparr>cluster := demo_cluster_b\<lparr>accounts := (accounts demo_cluster_b)(demo_greeting \<mapsto>
     \<lparr>lamports = 918720, data = try_to_vec \<lparr>counter = 5\<rparr>, owner = replicate 32 9, executable = False\<rparr>)\<rparr>\<rparr>"

definition demo_world_d :: world where
  "demo_world_d = demo_world\<lparr>cluster := demo_cluster\<lparr>events := [Idle, Advance_slots 150]\<rparr>\<rparr>"

definition demo_world_stall :: world where
  "demo_world_stall = demo_world\<lparr>cluster := demo_cluster\<lparr>events := [Idle, Idle, Stall, Stall]\<rparr>\<rparr>"

definition demo_world_outage :: world where
  "demo_world_outage = demo_world_b\<lparr>cluster := demo_cluster_b\<lparr>events := [Idle, Outage, Restore, Idle, Idle]\<rparr>\<rparr>"

definition demo_world_down :: world where
  "demo_world_down = demo_world\<lparr>cluster := demo_cluster\<lparr>reachable := False\<rparr>\<rparr>"

section \<open>The fixtures, evaluated\<close>

lemma demo_program_not_pda:
  "drop (length demo_program - length PDA_MARKER) demo_program \<noteq> PDA_MARKER"
proof
  assume "drop (length demo_program - length PDA_MARKER) demo_program = PDA_MARKER"
  then have "hd (drop (length demo_program - length PDA_MARKER) demo_program) = hd PDA_MARKER" by simp
  then show False by (simp add: demo_program_def PDA_MARKER_def string_bytes_def)
qed

lemma demo_fee: "fee_estimate demo_cluster = Some 1418720"
  by (simp add: fee_estimate_def demo_cluster_def checked_mul_def checked_add_def)

lemma demo_address:
  "length b = 32 \<Longrightarrow> create_with_seed demo_sha b GREETING_SEED demo_program = Inr (replicate 32 69)"
  using demo_program_not_pda
  by (simp add: create_with_seed_def demo_sha_def GREETING_SEED_def MAX_SEED_LEN_def demo_program_def)

lemma demo_program_not_system: "demo_program \<noteq> system_program_id"
  by (simp add: demo_program_def system_program_id_def)

section \<open>Payer funder\<close>

text \<open>C8. Funding monotonicity: on a calm cluster the payer funder requests no airdrop
  when the payer's balance already covers the fee estimate, and otherwise requests
  exactly one airdrop, of the deficit (estimate minus balance), never the full
  estimate.\<close>

theorem payer_funder_requests_deficit:
  assumes "calm (cluster w)"
  shows "airdrop_requests (rpc_log (cluster (snd (fund_payer k fees w)))) =
           airdrop_requests (rpc_log (cluster w)) @
           (if balance_of (cluster w) k < fees then [(k, fees - balance_of (cluster w) k)] else [])"
proof (cases "balance_of (cluster w) k < fees")
  case True
  show ?thesis
  proof (cases "faucet (cluster w)")
    case fc: True
    with assms True show ?thesis by (simp add: fund_payer_airdrop funded_def Let_def)
  next
    case False
    with assms True show ?thesis by (simp add: fund_payer_refused)
  qed
next
  case False
  with assms show ?thesis by (simp add: fund_payer_sufficient)
qed

theorem payer_funder_requests_deficit_witness:
  "calm (cluster demo_world) \<and>
   airdrop_requests (rpc_log (cluster (snd (fund_payer (replicate 32 1) 1418720 demo_world)))) =
     [(replicate 32 1, 1418720)]"
proof -
  have calm: "calm (cluster demo_world)"
    by (simp add: demo_world_def demo_cluster_def calm_def settled_def)
  have bal: "balance_of (cluster demo_world) (replicate 32 1) = 0"
    by (simp add: demo_world_def demo_cluster_def demo_program_def balance_of_def load_def default_account_def)
  show ?thesis
    using payer_funder_requests_deficit [OF calm, of "replicate 32 1" 1418720] calm bal
    by (simp add: demo_world_def demo_cluster_def)
qed

section \<open>End-to-end runs\<close>

text \<open>C1. Scenario A, a fresh run: with no keypair path configured, on a calm cluster with
  a faucet, for an ephemeral payer with no account and no past transaction and a
  deployed program whose derived greeting account does not exist, \<open>main\<close> succeeds; it
  issues exactly the requests get-version, blockhash, rent, balance, one airdrop of the
  full estimate, confirm, balance, the two account lookups, rent, blockhash, the creation
  transaction, blockhash, the greeting transaction and the final lookup, in that order;
  prints the expected lines ending with the counter 1 and the success line; leaves the
  greeting account created with counter 1; and charges the payer two signatures and the
  rent.\<close>

theorem fresh_run_greets:
  fixes w :: world and cfg :: config and pid k :: pubkey and fees :: u64
  defines "h \<equiv> host w" and "c \<equiv> cluster w"
  defines "kp \<equiv> entropy h (Suc (draws h))"
  defines "p \<equiv> pubkey kp" and "l \<equiv> rent_minimum c 4" and "lps \<equiv> lamports_per_signature c"
  defines "cl \<equiv> \<lparr>config = cfg, connection = \<lparr>url = json_rpc_url cfg, commitment = Confirmed\<rparr>,
                 payer = kp, program_id = pid\<rparr>"
  assumes cfg: "config_file h = Some cp" "config_files h cp = Some cfg" "keypair_path cfg = []"
    and progkey: "keypair_files h PROGRAM_KEYPAIR_PATH = Some (Keypair pid)"
    and calm: "calm c" and fc: "faucet c" and age: "0 < max_age c"
    and fees: "fee_estimate c = Some fees" and lps: "0 < lps"
    and new: "accounts c p = None" "\<forall>tx\<in>set (ledger c). tx_payer tx \<noteq> p"
    and prog: "accounts c pid = Some pr" "executable pr" "pid \<noteq> system_program_id"
    and addr: "create_with_seed (sha256 w) p GREETING_SEED pid = Inr k"
    and dist: "k \<noteq> p" "pid \<noteq> p" and absent: "accounts c k = None"
  shows "fst (main w) = Inr () \<and>
    rpc_log (cluster (snd (main w))) = rpc_log c @ [Get_version, Get_recent_blockhash,
      Get_minimum_balance_for_rent_exemption 4, Get_balance p, Request_airdrop p fees,
      Confirm_transaction (Airdrop_sig (length (airdrops c))), Get_balance p, Get_account pid, Get_account k,
      Get_minimum_balance_for_rent_exemption 4, Get_recent_blockhash,
      Send_and_confirm_transaction (creation_tx cl k l (slot c)), Get_recent_blockhash,
      Send_and_confirm_transaction (hello_tx cl k (slot c)), Get_account k] \<and>
    stdout (snd (main w)) = stdout w @ [Msg_lets_say_hello, Msg_get_config cfg, Msg_connecting (json_rpc_url cfg),
      Msg_connection_established (version c), Msg_greeting_size 4, Msg_fallback_keypair,
      Msg_using_account p (fees div LAMPORTS_PER_SOL), Msg_using_program pid, Msg_creating_account k,
      Msg_say_hello k pid, Msg_said_hello (Tx_sig (hello_tx cl k (slot c))), Msg_greeted k 1, Msg_success] \<and>
    accounts (cluster (snd (main w))) k = Some ((new_greeting_account l pid)\<lparr>data := try_to_vec \<lparr>counter = 1\<rparr>\<rparr>) \<and>
    accounts (cluster (snd (main w))) p = Some (default_account\<lparr>lamports := fees - lps - l - lps\<rparr>)"
proof -
  let ?c0 = "\<lparr>config = cfg, connection = \<lparr>url = json_rpc_url cfg, commitment = Confirmed\<rparr>,
              payer = entropy h (draws h), program_id = pid\<rparr>"
  let ?wg = "w\<lparr>host := h\<lparr>draws := Suc (draws h)\<rparr>,
                cluster := logged [Get_version, Get_recent_blockhash, Get_minimum_balance_for_rent_exemption 4] c,
                stdout := stdout w @ [Msg_lets_say_hello, Msg_get_config cfg, Msg_connecting (json_rpc_url cfg),
                                      Msg_connection_established (version c), Msg_greeting_size 4]\<rparr>"
  define wp where "wp = snd (get_payer ?c0 ?wg)"
  have gp: "get_payer ?c0 ?wg = (Inr kp, wp)" "cluster wp = cluster ?wg" "sha256 wp = sha256 w"
    "stdout wp = stdout ?wg @ [Msg_fallback_keypair]"
    using cfg(3) by (simp_all add: wp_def get_payer_fallback kp_def h_def)
  have "0 < unat lps" using lps by (simp add: unat_gt_0)
  then have "0 < unat fees" using fee_estimate_unat [OF fees] by (simp add: lps_def)
  then have short: "balance_of (cluster wp) p < fees"
    using new(1) by (simp add: gp balance_of_def load_def default_account_def c_def unat_gt_0 word_neq_0_conv)
  define w3 where "w3 = snd (fund_payer p fees wp)"
  have fp: "fund_payer p fees wp = (Inr fees, w3)" "cluster w3 = funded p fees (cluster wp)"
    "sha256 w3 = sha256 w" "stdout w3 = stdout wp @ [Msg_using_account p (fees div LAMPORTS_PER_SOL)]"
    using fund_payer_airdrop [OF _ _ short] calm fc by (simp_all add: w3_def gp c_def)
  let ?pa = "default_account\<lparr>lamports := fees\<rparr>"
  have f3: "rent_minimum (cluster w3) 4 = l" "lamports_per_signature (cluster w3) = lps"
    "slot (cluster w3) = slot c" "pubkey (payer cl) = p" "program_id cl = pid"
    "max_age (cluster w3) = max_age c" "ledger (cluster w3) = ledger c" "sha256 w3 = sha256 w"
    by (simp_all add: fp gp funded_def Let_def l_def lps_def c_def cl_def p_def)
  have acc3: "accounts (cluster w3) = (accounts c)(p \<mapsto> ?pa)"
    using new(1) by (simp add: fp gp funded_def Let_def set_balance_def load_def c_def)
  have calm3: "calm (cluster w3)"
    using calm_funded [of "cluster wp" p fees] calm by (simp add: fp gp c_def)
  have pre: "calm (cluster w3)" "0 < max_age (cluster w3)"
    "create_with_seed (sha256 w3) (pubkey (payer cl)) GREETING_SEED (program_id cl) = Inr k"
    "k \<noteq> pubkey (payer cl)" "program_id cl \<noteq> pubkey (payer cl)" "accounts (cluster w3) k = None"
    "accounts (cluster w3) (pubkey (payer cl)) = Some ?pa" "data ?pa = []"
    "unat (lamports_per_signature (cluster w3)) + unat (rent_minimum (cluster w3) 4) \<le> unat (lamports ?pa)"
    "unat (lamports_per_signature (cluster w3)) \<le>
       unat (lamports ?pa - lamports_per_signature (cluster w3) - rent_minimum (cluster w3) 4)"
    "\<forall>tx\<in>set (ledger (cluster w3)). tx_payer tx \<noteq> pubkey (payer cl)"
    "accounts (cluster w3) (program_id cl) = Some pr" "executable pr" "program_id cl \<noteq> system_program_id"
    using calm3 fee_estimate_covers [OF fees] age new addr dist absent prog
    by (simp_all add: f3 acc3 default_account_def l_def lps_def c_def)
  obtain w4 w5 w6 where run: "check_program cl w3 = (Inr k, w4)" "say_hello cl k w4 = (Inr (), w5)"
      "report cl k w5 = (Inr (), w6)" and
    res: "rpc_log (cluster w6) = rpc_log (cluster w3) @ [Get_account pid, Get_account k,
        Get_minimum_balance_for_rent_exemption 4, Get_recent_blockhash,
        Send_and_confirm_transaction (creation_tx cl k l (slot c)), Get_recent_blockhash,
        Send_and_confirm_transaction (hello_tx cl k (slot c)), Get_account k]"
      "stdout w6 = stdout w3 @ [Msg_using_program pid, Msg_creating_account k, Msg_say_hello k pid,
        Msg_said_hello (Tx_sig (hello_tx cl k (slot c))), Msg_greeted k 1]"
      "accounts (cluster w6) k = Some ((new_greeting_account l pid)\<lparr>data := try_to_vec \<lparr>counter = 1\<rparr>\<rparr>)"
      "accounts (cluster w6) p = Some (?pa\<lparr>lamports := lamports ?pa - lps - l - lps\<rparr>)"
    using provision_greet_report [OF pre, unfolded f3] by blast
  have "main w = (Inr (), w6\<lparr>stdout := stdout w6 @ [Msg_success]\<rparr>)"
    using main_prefix [where w = w and cfg = cfg and pid = pid and cp = cp and kp = kp and wp = wp
        and fees = fees and b = fees and wq = w3]
      cfg progkey calm fees gp fp run
    by (simp add: h_def c_def cl_def p_def bind_st_def println_apply)
  then show ?thesis
    using new(1) by (simp add: res fp gp funded_def Let_def balance_of_def load_def default_account_def c_def)
qed

theorem fresh_run_greets_witness:
  "fst (main demo_world) = Inr () \<and>
   accounts (cluster (snd (main demo_world))) (replicate 32 69) =
     Some ((new_greeting_account (rent_minimum (cluster demo_world) 4) demo_program)\<lparr>data := try_to_vec \<lparr>counter = 1\<rparr>\<rparr>)"
proof -
  let ?pr = "\<lparr>lamports = 1, data = [], owner = replicate 32 3, executable = True\<rparr> :: account"
  have e: "pubkey (entropy (host demo_world) (Suc (draws (host demo_world)))) = replicate 32 11"
    by (simp add: demo_world_def demo_host_def)
  have h: "config_file (host demo_world) = Some ''config.yml''"
    "config_files (host demo_world) ''config.yml'' = Some demo_config" "keypair_path demo_config = []"
    "keypair_files (host demo_world) PROGRAM_KEYPAIR_PATH = Some (Keypair demo_program)"
    by (simp_all add: demo_world_def demo_host_def demo_config_def)
  have c: "calm (cluster demo_world)" "faucet (cluster demo_world)" "0 < max_age (cluster demo_world)"
    "fee_estimate (cluster demo_world) = Some 1418720" "0 < lamports_per_signature (cluster demo_world)"
    "accounts (cluster demo_world) (replicate 32 11) = None"
    "\<forall>tx\<in>set (ledger (cluster demo_world)). tx_payer tx \<noteq> replicate 32 11"
    "accounts (cluster demo_world) demo_program = Some ?pr" "executable ?pr"
    "demo_program \<noteq> system_program_id"
    "create_with_seed (sha256 demo_world) (replicate 32 11) GREETING_SEED demo_program = Inr (replicate 32 69)"
    "replicate 32 69 \<noteq> (replicate 32 11 :: bytes)" "demo_program \<noteq> replicate 32 11"
    "accounts (cluster demo_world) (replicate 32 69) = None"
    using demo_fee demo_address [of "replicate 32 11"] demo_program_not_system
    by (simp_all add: demo_world_def demo_cluster_def calm_def settled_def demo_program_def)
  show ?thesis
    using fresh_run_greets [where w = demo_world and cp = "''config.yml''" and cfg = demo_config
        and pid = demo_program and k = "replicate 32 69" and fees = 1418720 and pr = ?pr, unfolded e,
        OF h c]
    by simp
qed

text \<open>C2. Scenario B, a returning run: with the payer's keypair file configured, a
  balance that covers the estimate, and the greeting account present with counter n,
  \<open>main\<close> succeeds with no airdrop request and no creation transaction: the requests
  are get-version, blockhash, rent, balance, the two account lookups, blockhash, the one
  greeting transaction and the final lookup; it prints counter n + 1; the account holds
  counter n + 1 and the payer paid one signature.\<close>

theorem returning_run_greets:
  fixes w :: world and cfg :: config and pid k :: pubkey and fees :: u64 and kp :: keypair
  defines "h \<equiv> host w" and "c \<equiv> cluster w" and "p \<equiv> pubkey kp"
  defines "lps \<equiv> lamports_per_signature c"
  defines "cl \<equiv> \<lparr>config = cfg, connection = \<lparr>url = json_rpc_url cfg, commitment = Confirmed\<rparr>,
                 payer = kp, program_id = pid\<rparr>"
  assumes cfg: "config_file h = Some cp" "config_files h cp = Some cfg" "keypair_path cfg \<noteq> []"
      "keypair_files h (keypair_path cfg) = Some kp"
    and progkey: "keypair_files h PROGRAM_KEYPAIR_PATH = Some (Keypair pid)"
    and calm: "calm c" and age: "0 < max_age c" and fees: "fee_estimate c = Some fees"
    and pa: "accounts c p = Some pa" and enough: "fees \<le> lamports pa"
    and fresh: "hello_tx cl k (slot c) \<notin> set (ledger c)"
    and prog: "accounts c pid = Some pr" "executable pr" "pid \<noteq> system_program_id"
    and addr: "create_with_seed (sha256 w) p GREETING_SEED pid = Inr k" and kp: "k \<noteq> p"
    and ga: "accounts c k = Some a" "owner a = pid" "data a = try_to_vec \<lparr>counter = n\<rparr>"
  shows "fst (main w) = Inr () \<and>
    rpc_log (cluster (snd (main w))) = rpc_log c @ [Get_version, Get_recent_blockhash,
      Get_minimum_balance_for_rent_exemption 4, Get_balance p, Get_account pid, Get_account k,
      Get_recent_blockhash, Send_and_confirm_transaction (hello_tx cl k (slot c)), Get_account k] \<and>
    stdout (snd (main w)) = stdout w @ [Msg_lets_say_hello, Msg_get_config cfg, Msg_connecting (json_rpc_url cfg),
      Msg_connection_established (version c), Msg_greeting_size 4,
      Msg_using_account p (lamports pa div LAMPORTS_PER_SOL), Msg_using_program pid,
      Msg_say_hello k pid, Msg_said_hello (Tx_sig (hello_tx cl k (slot c))), Msg_greeted k (n + 1), Msg_success] \<and>
    airdrops (cluster (snd (main w))) = airdrops c \<and>
    accounts (cluster (snd (main w))) k = Some (a\<lparr>data := try_to_vec \<lparr>counter = n + 1\<rparr>\<rparr>) \<and>
    accounts (cluster (snd (main w))) p = Some (pa\<lparr>lamports := lamports pa - lps\<rparr>)"
proof -
  let ?c0 = "\<lparr>config = cfg, connection = \<lparr>url = json_rpc_url cfg, commitment = Confirmed\<rparr>,
              payer = entropy h (draws h), program_id = pid\<rparr>"
  let ?wg = "w\<lparr>host := h\<lparr>draws := Suc (draws h)\<rparr>,
                cluster := logged [Get_version, Get_recent_blockhash, Get_minimum_balance_for_rent_exemption 4] c,
                stdout := stdout w @ [Msg_lets_say_hello, Msg_get_config cfg, Msg_connecting (json_rpc_url cfg),
                                      Msg_connection_established (version c), Msg_greeting_size 4]\<rparr>"
  have gp: "get_payer ?c0 ?wg = (Inr kp, ?wg)"
    using cfg(3,4) by (simp add: get_payer_file h_def)
  have bal: "balance_of (cluster ?wg) p = lamports pa" using pa by (simp add: balance_of_def load_def c_def)
  define w3 where "w3 = ?wg\<lparr>cluster := logged [Get_balance p] (cluster ?wg),
                            stdout := stdout ?wg @ [Msg_using_account p (lamports pa div LAMPORTS_PER_SOL)]\<rparr>"
  have fp: "fund_payer p fees ?wg = (Inr (lamports pa), w3)"
    using fund_payer_sufficient [of ?wg p fees] calm enough bal by (simp add: w3_def c_def not_less)
  have funds: "unat lps \<le> unat (lamports pa)"
    using fee_estimate_covers(1) [OF fees] enough by (simp add: lps_def word_le_nat_alt)
  have f: "pubkey (payer cl) = p" "program_id cl = pid" "slot (cluster w3) = slot c"
    "lamports_per_signature (cluster w3) = lps"
    by (simp_all add: cl_def p_def w3_def c_def lps_def)
  have pre: "calm (cluster w3)" "0 < max_age (cluster w3)"
    "create_with_seed (sha256 w3) (pubkey (payer cl)) GREETING_SEED (program_id cl) = Inr k"
    "k \<noteq> pubkey (payer cl)" "accounts (cluster w3) k = Some a" "owner a = program_id cl"
    "try_from_slice (data a) = Inr \<lparr>counter = n\<rparr>" "accounts (cluster w3) (pubkey (payer cl)) = Some pa"
    "unat (lamports_per_signature (cluster w3)) \<le> unat (lamports pa)"
    "hello_tx cl k (slot (cluster w3)) \<notin> set (ledger (cluster w3))"
    "accounts (cluster w3) (program_id cl) = Some pr" "executable pr" "program_id cl \<noteq> system_program_id"
    using calm age addr kp ga pa funds fresh prog by (simp_all add: f w3_def c_def lps_def)
  obtain w4 w5 w6 where run: "check_program cl w3 = (Inr k, w4)" "say_hello cl k w4 = (Inr (), w5)"
      "report cl k w5 = (Inr (), w6)" and
    res: "rpc_log (cluster w6) = rpc_log (cluster w3) @ [Get_account pid, Get_account k, Get_recent_blockhash,
        Send_and_confirm_transaction (hello_tx cl k (slot c)), Get_account k]"
      "stdout w6 = stdout w3 @ [Msg_using_program pid, Msg_say_hello k pid,
        Msg_said_hello (Tx_sig (hello_tx cl k (slot c))), Msg_greeted k (counter \<lparr>counter = n\<rparr> + 1)]"
      "airdrops (cluster w6) = airdrops (cluster w3)"
      "accounts (cluster w6) k = Some (greeted a \<lparr>counter = n\<rparr>)"
      "accounts (cluster w6) p = Some (pa\<lparr>lamports := lamports pa - lps\<rparr>)"
    using greet_existing_report [OF pre, unfolded f] by blast
  have "main w = (Inr (), w6\<lparr>stdout := stdout w6 @ [Msg_success]\<rparr>)"
    using main_prefix [where w = w and cfg = cfg and pid = pid and cp = cp and kp = kp and wp = ?wg
        and fees = fees and b = "lamports pa" and wq = w3]
      cfg progkey calm fees gp fp run
    by (simp add: h_def c_def cl_def p_def bind_st_def println_apply)
  then show ?thesis
    by (simp add: res w3_def c_def greeted_def)
qed

theorem returning_run_greets_witness:
  "fst (main demo_world_b) = Inr () \<and>
   accounts (cluster (snd (main demo_world_b))) demo_greeting =
     Some \<lparr>lamports = 918720, data = try_to_vec \<lparr>counter = 6\<rparr>, owner = demo_program, executable = False\<rparr>"
proof -
  let ?pr = "\<lparr>lamports = 1, data = [], owner = replicate 32 3, executable = True\<rparr> :: account"
  let ?pa = "\<lparr>lamports = 2000000, data = [], owner = system_program_id, executable = False\<rparr> :: account"
  let ?a = "\<lparr>lamports = 918720, data = try_to_vec \<lparr>counter = 5\<rparr>, owner = demo_program, executable = False\<rparr>"
  let ?cl = "\<lparr>config = demo_config_b, connection = \<lparr>url = json_rpc_url demo_config_b, commitment = Confirmed\<rparr>,
              payer = Keypair demo_payer, program_id = demo_program\<rparr>"
  have h: "config_file (host demo_world_b) = Some ''config.yml''"
    "config_files (host demo_world_b) ''config.yml'' = Some demo_config_b" "keypair_path demo_config_b \<noteq> []"
    "keypair_files (host demo_world_b) (keypair_path demo_config_b) = Some (Keypair demo_payer)"
    "keypair_files (host demo_world_b) PROGRAM_KEYPAIR_PATH = Some (Keypair demo_program)"
    by (simp_all add: demo_world_b_def demo_host_b_def demo_host_def demo_config_b_def PROGRAM_KEYPAIR_PATH_def)
  have ne: "demo_greeting \<noteq> demo_payer" "demo_program \<noteq> demo_payer" "demo_greeting \<noteq> demo_program"
    by (simp_all add: demo_greeting_def demo_payer_def demo_program_def)
  have c: "calm (cluster demo_world_b)" "0 < max_age (cluster demo_world_b)"
    "fee_estimate (cluster demo_world_b) = Some 1418720"
    "accounts (cluster demo_world_b) (pubkey (Keypair demo_payer)) = Some ?pa" "1418720 \<le> lamports ?pa"
    "hello_tx ?cl demo_greeting (slot (cluster demo_world_b)) \<notin> set (ledger (cluster demo_world_b))"
    "accounts (cluster demo_world_b) demo_program = Some ?pr" "executable ?pr" "demo_program \<noteq> system_program_id"
    "create_with_seed (sha256 demo_world_b) (pubkey (Keypair demo_payer)) GREETING_SEED demo_program = Inr demo_greeting"
    "demo_greeting \<noteq> pubkey (Keypair demo_payer)"
    "accounts (cluster demo_world_b) demo_greeting = Some ?a" "owner ?a = demo_program"
    "data ?a = try_to_vec \<lparr>counter = 5\<rparr>"
    using demo_fee fee_estimate_cong [of demo_cluster_b demo_cluster] demo_address [of demo_payer]
      demo_program_not_system ne
    by (simp_all add: demo_world_b_def demo_world_def demo_cluster_b_def demo_cluster_def calm_def settled_def
          demo_payer_def demo_greeting_def)
  show ?thesis
    using returning_run_greets [where w = demo_world_b and cp = "''config.yml''" and cfg = demo_config_b
        and pid = demo_program and k = demo_greeting and fees = 1418720 and kp = "Keypair demo_payer"
        and pa = ?pa and pr = ?pr and a = ?a and n = 5, OF h c]
    by simp
qed

text \<open>C4. Scenario C, a greeting account owned by another program: everything as in
  Scenario B except that the account at the derived address is not owned by the
  program. The program rejects the invocation with \<open>IncorrectProgramId\<close>, and
  \<open>main\<close> aborts with that error: the last request is the rejected greeting
  transaction (the state reporter never fetches the account), no success line is
  printed, and the accounts and the ledger are unchanged.\<close>

theorem foreign_account_aborts:
  fixes w :: world and cfg :: config and pid k :: pubkey and fees :: u64 and kp :: keypair
  defines "h \<equiv> host w" and "c \<equiv> cluster w" and "p \<equiv> pubkey kp"
  defines "cl \<equiv> \<lparr>config = cfg, connection = \<lparr>url = json_rpc_url cfg, commitment = Confirmed\<rparr>,
                 payer = kp, program_id = pid\<rparr>"
  defines "htx \<equiv> hello_tx cl k (slot c)"
  assumes cfg: "config_file h = Some cp" "config_files h cp = Some cfg" "keypair_path cfg \<noteq> []"
      "keypair_files h (keypair_path cfg) = Some kp"
    and progkey: "keypair_files h PROGRAM_KEYPAIR_PATH = Some (Keypair pid)"
    and calm: "calm c" and age: "0 < max_age c" and fees: "fee_estimate c = Some fees"
    and pa: "accounts c p = Some pa" and enough: "fees \<le> lamports pa"
    and fresh: "htx \<notin> set (ledger c)"
    and prog: "accounts c pid = Some pr" "executable pr" "pid \<noteq> system_program_id"
    and addr: "create_with_seed (sha256 w) p GREETING_SEED pid = Inr k" and kp: "k \<noteq> p"
    and ga: "accounts c k = Some a" "owner a \<noteq> pid"
  shows "fst (main w) = Inl (Rpc_failed (Transaction_failed (Instruction_error 0 Incorrect_program_id))) \<and>
    rpc_log (cluster (snd (main w))) = rpc_log c @ [Get_version, Get_recent_blockhash,
      Get_minimum_balance_for_rent_exemption 4, Get_balance p, Get_account pid, Get_account k,
      Get_recent_blockhash, Send_and_confirm_transaction htx] \<and>
    stdout (snd (main w)) = stdout w @ [Msg_lets_say_hello, Msg_get_config cfg, Msg_connecting (json_rpc_url cfg),
      Msg_connection_established (version c), Msg_greeting_size 4,
      Msg_using_account p (lamports pa div LAMPORTS_PER_SOL), Msg_using_program pid, Msg_say_hello k pid] \<and>
    accounts (cluster (snd (main w))) = accounts c \<and> ledger (cluster (snd (main w))) = ledger c"
proof -
  define w3 where "w3 = w\<lparr>host := h\<lparr>draws := Suc (draws h)\<rparr>,
       cluster := logged [Get_version, Get_recent_blockhash, Get_minimum_balance_for_rent_exemption 4, Get_balance p] c,
       stdout := stdout w @ [Msg_lets_say_hello, Msg_get_config cfg, Msg_connecting (json_rpc_url cfg),
                             Msg_connection_established (version c), Msg_greeting_size 4,
                             Msg_using_account p (lamports pa div LAMPORTS_PER_SOL)]\<rparr>"
  have m: "main w = bind_st (check_program cl) (\<lambda>key. bind_st (say_hello cl key) (\<lambda>_.
                    bind_st (report cl key) (\<lambda>_. println Msg_success))) w3"
    unfolding w3_def h_def c_def p_def cl_def
    by (rule main_returning_prefix) (use cfg progkey calm fees pa enough in \<open>simp_all add: h_def c_def p_def\<close>)
  have calm3: "calm (cluster w3)" using calm by (simp add: w3_def)
  have diag: "program_diagnostic w3 pid = []" using prog by (simp add: program_diagnostic_def w3_def c_def)
  define w4 where "w4 = w3\<lparr>cluster := logged [Get_account pid, Get_account k] (cluster w3),
                            stdout := stdout w3 @ [Msg_using_program pid]\<rparr>"
  have s4: "check_program cl w3 = (Inr k, w4)"
    using check_program_calm [OF calm3, of cl k] addr ga diag
    by (simp add: w4_def w3_def cl_def p_def c_def Let_def)
  have funds: "unat (lamports_per_signature c) \<le> unat (lamports pa)"
    using fee_estimate_covers(1) [OF fees] enough by (simp add: word_le_nat_alt)
  have proc: "process_transaction (sha256 w4) htx (cluster w4) = Inl (Instruction_error 0 Incorrect_program_id)"
    using process_hello_tx_foreign [of "cluster w4" cl k pa pr a] age fresh pa funds prog ga kp
    by (simp add: w4_def w3_def cl_def p_def c_def htx_def)
  have s5: "say_hello cl k w4 = (Inl (Rpc_failed (Transaction_failed (Instruction_error 0 Incorrect_program_id))),
              w4\<lparr>cluster := logged [Get_recent_blockhash, Send_and_confirm_transaction htx] (cluster w4),
                 stdout := stdout w4 @ [Msg_say_hello k pid]\<rparr>)"
    using say_hello_calm [of w4 cl k] calm3 proc
    by (simp add: w4_def w3_def cl_def htx_def c_def Let_def)
  show ?thesis
    using m s4 s5 by (simp add: bind_st_def w4_def w3_def)
qed

theorem foreign_account_aborts_witness:
  "fst (main demo_world_c) = Inl (Rpc_failed (Transaction_failed (Instruction_error 0 Incorrect_program_id)))"
proof -
  let ?pr = "\<lparr>lamports = 1, data = [], owner = replicate 32 3, executable = True\<rparr> :: account"
  let ?pa = "\<lparr>lamports = 2000000, data = [], owner = system_program_id, executable = False\<rparr> :: account"
  let ?a = "\<lparr>lamports = 918720, data = try_to_vec \<lparr>counter = 5\<rparr>, owner = replicate 32 9, executable = False\<rparr>"
  have h: "config_file (host demo_world_c) = Some ''config.yml''"
    "config_files (host demo_world_c) ''config.yml'' = Some demo_config_b" "keypair_path demo_config_b \<noteq> []"
    "keypair_files (host demo_world_c) (keypair_path demo_config_b) = Some (Keypair demo_payer)"
    "keypair_files (host demo_world_c) PROGRAM_KEYPAIR_PATH = Some (Keypair demo_program)"
    by (simp_all add: demo_world_c_def demo_world_b_def demo_host_b_def demo_host_def demo_config_b_def
          PROGRAM_KEYPAIR_PATH_def)
  have ne: "demo_greeting \<noteq> demo_payer" "demo_program \<noteq> demo_payer" "demo_greeting \<noteq> demo_program"
    "replicate 32 9 \<noteq> demo_program"
    by (simp_all add: demo_greeting_def demo_payer_def demo_program_def)
  have c: "calm (cluster demo_world_c)" "0 < max_age (cluster demo_world_c)"
    "fee_estimate (cluster demo_world_c) = Some 1418720"
    "accounts (cluster demo_world_c) (pubkey (Keypair demo_payer)) = Some ?pa" "1418720 \<le> lamports ?pa"
    "hello_tx \<lparr>config = demo_config_b, connection = \<lparr>url = json_rpc_url demo_config_b, commitment = Confirmed\<rparr>,
       payer = Keypair demo_payer, program_id = demo_program\<rparr> demo_greeting (slot (cluster demo_world_c))
       \<notin> set (ledger (cluster demo_world_c))"
    "accounts (cluster demo_world_c) demo_program = Some ?pr" "executable ?pr" "demo_program \<noteq> system_program_id"
    "create_with_seed (sha256 demo_world_c) (pubkey (Keypair demo_payer)) GREETING_SEED demo_program = Inr demo_greeting"
    "demo_greeting \<noteq> pubkey (Keypair demo_payer)"
    "accounts (cluster demo_world_c) demo_greeting = Some ?a" "owner ?a \<noteq> demo_program"
    using demo_fee fee_estimate_cong [of "cluster demo_world_c" demo_cluster] demo_address [of demo_payer]
      demo_program_not_system ne
    by (simp_all add: demo_world_c_def demo_world_b_def demo_world_def demo_cluster_b_def demo_cluster_def
          calm_def settled_def demo_payer_def demo_greeting_def)
  show ?thesis
    using foreign_account_aborts [where w = demo_world_c and cp = "''config.yml''" and cfg = demo_config_b
        and pid = demo_program and k = demo_greeting and fees = 1418720 and kp = "Keypair demo_payer"
        and pa = ?pa and pr = ?pr and a = ?a, OF h c]
    by simp
qed

theorem main_unreachable_cluster_aborts_witness:
  "fst (main demo_world_down) = Inl (Rpc_failed Rpc_unreachable) \<and>
   rpc_log (cluster (snd (main demo_world_down))) = [Get_version]"
proof -
  have h: "config_file (host demo_world_down) = Some ''config.yml''"
    "config_files (host demo_world_down) ''config.yml'' = Some demo_config"
    "keypair_files (host demo_world_down) PROGRAM_KEYPAIR_PATH = Some (Keypair demo_program)"
    by (simp_all add: demo_world_down_def demo_world_def demo_host_def demo_config_def)
  have d: "events (cluster demo_world_down) = []" "settled (cluster demo_world_down)"
    "\<not> reachable (cluster demo_world_down)" "rpc_log (cluster demo_world_down) = []"
    by (simp_all add: demo_world_down_def demo_world_def demo_cluster_def settled_def)
  show ?thesis
    using Workflow.main_unreachable_cluster_aborts [OF h d(1-3)] d(4) by simp
qed

section \<open>Provisioner\<close>

theorem check_program_idempotent_witness:
  "accounts (cluster (snd (check_program demo_client_b demo_world_b))) demo_greeting \<noteq> None \<and>
   fst (check_program demo_client_b (snd (check_program demo_client_b demo_world_b))) = Inr demo_greeting"
proof -
  have calm: "calm (cluster demo_world_b)"
    by (simp add: demo_world_b_def demo_cluster_b_def demo_cluster_def calm_def settled_def)
  have addr: "create_with_seed (sha256 demo_world_b) (pubkey (payer demo_client_b)) GREETING_SEED
                (program_id demo_client_b) = Inr demo_greeting"
    using demo_address [of demo_payer] by (simp add: demo_world_b_def demo_world_def demo_client_b_def
      demo_payer_def demo_greeting_def)
  have present: "accounts (cluster (snd (check_program demo_client_b demo_world_b))) demo_greeting \<noteq> None"
    using check_program_calm [OF calm addr]
    by (simp add: Let_def demo_world_b_def demo_cluster_b_def)
  show ?thesis
    using Provisioner.check_program_idempotent [OF calm addr present] present by simp
qed

theorem check_program_ignores_failed_creation_witness:
  "fst (check_program demo_client_b demo_world) = Inr demo_greeting \<and>
   accounts (cluster (snd (check_program demo_client_b demo_world))) demo_greeting = None"
proof -
  have calm: "calm (cluster demo_world)"
    by (simp add: demo_world_def demo_cluster_def calm_def settled_def)
  have addr: "create_with_seed (sha256 demo_world) (pubkey (payer demo_client_b)) GREETING_SEED
                (program_id demo_client_b) = Inr demo_greeting"
    using demo_address [of demo_payer]
    by (simp add: demo_world_def demo_client_b_def demo_payer_def demo_greeting_def)
  have absent: "accounts (cluster demo_world) demo_greeting = None"
    by (simp add: demo_world_def demo_cluster_def demo_greeting_def demo_program_def)
  have fail: "process_transaction (sha256 demo_world)
      (creation_tx demo_client_b demo_greeting (rent_minimum (cluster demo_world) 4) (slot (cluster demo_world)))
      (cluster demo_world) = Inl Account_not_found"
    by (simp add: process_transaction_def blockhash_valid_def creation_tx_def demo_world_def demo_cluster_def
        demo_client_b_def demo_payer_def demo_program_def)
  show ?thesis
    using Provisioner.check_program_ignores_failed_creation [OF calm addr absent fail] by simp
qed

theorem check_program_outage_recreates_witness:
  "accounts (cluster demo_world_outage) demo_greeting \<noteq> None \<and>
   fst (check_program demo_client_b demo_world_outage) = Inr demo_greeting \<and>
   Msg_creating_account demo_greeting \<in> set (stdout (snd (check_program demo_client_b demo_world_outage)))"
proof -
  have ev: "events (cluster demo_world_outage) = [Idle, Outage, Restore, Idle, Idle]"
    "settled (cluster demo_world_outage)" "reachable (cluster demo_world_outage)"
    by (simp_all add: demo_world_outage_def demo_cluster_b_def demo_cluster_def settled_def)
  have addr: "create_with_seed (sha256 demo_world_outage) (pubkey (payer demo_client_b)) GREETING_SEED
                (program_id demo_client_b) = Inr demo_greeting"
    using demo_address [of demo_payer]
    by (simp add: demo_world_outage_def demo_world_b_def demo_world_def demo_client_b_def demo_payer_def
        demo_greeting_def)
  have prog: "accounts (cluster demo_world_outage) (program_id demo_client_b) =
      Some \<lparr>lamports = 1, data = [], owner = replicate 32 3, executable = True\<rparr>"
    by (simp add: demo_world_outage_def demo_cluster_b_def demo_cluster_def demo_client_b_def demo_payer_def
        demo_greeting_def demo_program_def)
  have present: "accounts (cluster demo_world_outage) demo_greeting \<noteq> None"
    by (simp add: demo_world_outage_def demo_cluster_b_def)
  show ?thesis
    using Provisioner.check_program_outage_recreates [OF ev addr prog _ present] present by simp
qed

section \<open>Invoker\<close>

theorem stale_blockhash_aborts_invocation_witness:
  "fst (say_hello demo_client_b demo_greeting demo_world_d) = Inl (Rpc_failed (Transaction_failed Blockhash_not_found))"
proof -
  have "events (cluster demo_world_d) = [Idle, Advance_slots 150]" "settled (cluster demo_world_d)"
    "reachable (cluster demo_world_d)" "max_age (cluster demo_world_d) \<le> 150"
    by (simp_all add: demo_world_d_def demo_cluster_def settled_def)
  then show ?thesis
    using Invoker.stale_blockhash_aborts_invocation [of demo_world_d 150 demo_client_b demo_greeting] by simp
qed

theorem report_ignores_owner_witness:
  "report demo_client_b demo_greeting demo_world_c =
     (Inr (), demo_world_c\<lparr>cluster := logged [Get_account demo_greeting] (cluster demo_world_c),
                            stdout := stdout demo_world_c @ [Msg_greeted demo_greeting 5]\<rparr>)"
proof -
  have h: "calm (cluster demo_world_c)"
    "accounts (cluster demo_world_c) demo_greeting =
       Some \<lparr>lamports = 918720, data = try_to_vec \<lparr>counter = 5\<rparr>, owner = replicate 32 9, executable = False\<rparr>"
    "owner \<lparr>lamports = 918720, data = try_to_vec \<lparr>counter = 5\<rparr>, owner = replicate 32 9, executable = False\<rparr>
       \<noteq> program_id demo_client_b"
    "length (data \<lparr>lamports = 918720, data = try_to_vec \<lparr>counter = 5\<rparr>, owner = replicate 32 9, executable = False\<rparr>) = 4"
    by (simp_all add: demo_world_c_def demo_world_b_def demo_cluster_b_def demo_cluster_def calm_def settled_def
        demo_client_b_def demo_program_def)
  show ?thesis
    using Invoker.report_ignores_owner [OF h] by simp
qed

theorem say_hello_increments_witness:
  "greeting_count (data (load (accounts (cluster (snd (say_hello demo_client_b demo_greeting demo_world_b)))) demo_greeting)) = Some 6"
proof -
  let ?pr = "\<lparr>lamports = 1, data = [], owner = replicate 32 3, executable = True\<rparr> :: account"
  let ?pa = "\<lparr>lamports = 2000000, data = [], owner = system_program_id, executable = False\<rparr> :: account"
  let ?a = "\<lparr>lamports = 918720, data = try_to_vec \<lparr>counter = 5\<rparr>, owner = demo_program, executable = False\<rparr>"
  have calm: "calm (cluster demo_world_b)"
    by (simp add: demo_world_b_def demo_cluster_b_def demo_cluster_def calm_def settled_def)
  have "fst (say_hello demo_client_b demo_greeting demo_world_b) = Inr ()"
    using say_hello_ok [of demo_world_b demo_client_b demo_greeting ?pa ?pr ?a "\<lparr>counter = 5\<rparr>"] calm
      demo_program_not_system
    by (simp add: demo_world_b_def demo_world_def demo_cluster_b_def demo_cluster_def demo_client_b_def
        demo_payer_def demo_greeting_def demo_program_def)
  then have ok: "say_hello demo_client_b demo_greeting demo_world_b =
                   (Inr (), snd (say_hello demo_client_b demo_greeting demo_world_b))"
    by (metis prod.collapse)
  have before: "greeting_count (data (load (accounts (cluster demo_world_b)) demo_greeting)) = Some 5"
    by (simp add: demo_world_b_def demo_cluster_b_def demo_cluster_def load_def greeting_count_def
        demo_greeting_def demo_payer_def demo_program_def)
  show ?thesis
    using Invoker.say_hello_increments [OF calm ok] before by simp
qed

theorem fund_payer_not_awaited_witness:
  "fst (fund_payer (replicate 32 1) 1418720 demo_world_stall) = Inr 0"
proof -
  have "events (cluster demo_world_stall) = [Idle, Idle, Stall, Stall]" "settled (cluster demo_world_stall)"
    "reachable (cluster demo_world_stall)" "faucet (cluster demo_world_stall)"
    "balance_of (cluster demo_world_stall) (replicate 32 1) < 1418720"
    "balance_of (cluster demo_world_stall) (replicate 32 1) = 0"
    by (simp_all add: demo_world_stall_def demo_cluster_def settled_def balance_of_def load_def
        default_account_def demo_program_def)
  then show ?thesis using Client.fund_payer_not_awaited [of demo_world_stall "replicate 32 1" 1418720] by simp
qed

theorem stalled_airdrop_lands_next_run_witness:
  "fst (fund_payer (replicate 32 1) 1418720 (snd (fund_payer (replicate 32 1) 1418720 demo_world_stall))) =
     Inr 1418720"
proof -
  have "events (cluster demo_world_stall) = [Idle, Idle, Stall, Stall]" "settled (cluster demo_world_stall)"
    "reachable (cluster demo_world_stall)" "faucet (cluster demo_world_stall)"
    "balance_of (cluster demo_world_stall) (replicate 32 1) < 1418720"
    by (simp_all add: demo_world_stall_def demo_cluster_def settled_def balance_of_def load_def
        default_account_def demo_program_def)
  then show ?thesis using Client.stalled_airdrop_lands_next_run [of demo_world_stall "replicate 32 1" 1418720] by simp
qed

section \<open>Fee estimator\<close>

theorem estimate_fees_bounds_witness:
  "fst (estimate_fees (demo_world\<lparr>cluster := demo_cluster\<lparr>lamports_per_signature := 184467440737095517\<rparr>\<rparr>)) =
     Inl Arithmetic_overflow_panic"
proof -
  have "calm (demo_cluster\<lparr>lamports_per_signature := 184467440737095517\<rparr>)"
    by (simp add: demo_cluster_def calm_def settled_def)
  then show ?thesis
    using Client.estimate_fees_bounds [of "demo_world\<lparr>cluster := demo_cluster\<lparr>lamports_per_signature := 184467440737095517\<rparr>\<rparr>"]
    by (simp add: demo_cluster_def)
qed

section \<open>Console output\<close>

theorem report_console_reads_back_witness:
  "parse_greeted (last (console (\<lambda>_. '''') (\<lambda>_. '''') (snd (report demo_client_b demo_greeting demo_world_b)))) =
     Some (demo_greeting, 5)"
proof -
  have calm: "calm (cluster demo_world_b)"
    by (simp add: demo_world_b_def demo_cluster_b_def demo_cluster_def calm_def settled_def)
  have acc: "accounts (cluster demo_world_b) demo_greeting =
      Some \<lparr>lamports = 918720, data = try_to_vec \<lparr>counter = 5\<rparr>, owner = demo_program, executable = False\<rparr>"
    by (simp add: demo_world_b_def demo_cluster_b_def)
  have ok: "report demo_client_b demo_greeting demo_world_b =
      (Inr (), snd (report demo_client_b demo_greeting demo_world_b))"
    using report_calm [OF calm, of demo_client_b demo_greeting] acc by simp
  show ?thesis
    using Console.report_console_reads_back [OF calm ok, of "\<lambda>_. ''''" "\<lambda>_. ''''"] acc by auto
qed

end
